theory Spec2Isabelle
  imports Main "HOL-Library.Word"
begin

unbundle bit_operations_syntax

chapter \<open>The model\<close>

section \<open>Machine types and wide strings\<close>

text \<open>
  The library is written for a target where \<^verbatim>\<open>wchar_t\<close> has two bytes
  (\<^verbatim>\<open>Write(wchar_t c)\<close> in ConsoleCMD.h writes exactly two bytes per character), so a wide
  character is a 16-bit word and a \<^verbatim>\<open>std::wstring\<close> is a list of them.
  \<^verbatim>\<open>short\<close> is a 16-bit word read through \<open>sint\<close>, \<^verbatim>\<open>uint8_t\<close> an 8-bit word and
  \<^verbatim>\<open>unsigned\<close> a 32-bit word.  Values of type \<^verbatim>\<open>int\<close> that hold indexes, counts and
  lengths are modelled as \<open>int\<close>; the quantities stored in them are bounded by the sizes of
  buffers held in memory.
\<close>

type_synonym wchar_t = "16 word"
type_synonym wstring = "wchar_t list"
type_synonym short = "16 word"
type_synonym uint8_t = "8 word"
type_synonym unsigned = "32 word"

text \<open>A wide string literal \<^verbatim>\<open>L"..."\<close> of ASCII characters.\<close>

definition wstr :: "string \<Rightarrow> wstring" where
  "wstr s = map of_char s"

section \<open>colors.h: struct rgb\<close>

record rgb =
  r :: uint8_t
  g :: uint8_t
  b :: uint8_t

text \<open>\<^verbatim>\<open>static constexpr unsigned avg(unsigned l, unsigned r) { return (l + r) / 2; }\<close>\<close>

definition avg :: "unsigned \<Rightarrow> unsigned \<Rightarrow> unsigned" where
  "avg l x = (l + x) div 2"

text \<open>
  The three-argument constructor \<^verbatim>\<open>rgb(TR r, TG g, TB b)\<close> narrows each argument with
  \<^verbatim>\<open>static_cast<uint8_t>\<close>; here it is instantiated at \<^verbatim>\<open>unsigned\<close>.
\<close>

definition rgb_of_unsigned :: "unsigned \<Rightarrow> unsigned \<Rightarrow> unsigned \<Rightarrow> rgb" where
  "rgb_of_unsigned x y z = \<lparr>r = ucast x, g = ucast y, b = ucast z\<rparr>"

text \<open>
  \<^verbatim>\<open>operator + (rgb L, rgb R)\<close>: \<^verbatim>\<open>rgb{ avg(L.r, R.r), avg(L.g, R.g), avg(L.b, R.b) }\<close>;
  the \<^verbatim>\<open>uint8_t\<close> components are converted to \<^verbatim>\<open>unsigned\<close> at the call of \<^verbatim>\<open>avg\<close>.
\<close>

definition rgb_plus :: "rgb \<Rightarrow> rgb \<Rightarrow> rgb" where
  "rgb_plus L R =
     rgb_of_unsigned (avg (ucast (r L)) (ucast (r R)))
                     (avg (ucast (g L)) (ucast (g R)))
                     (avg (ucast (b L)) (ucast (b R)))"

section \<open>coord.h: struct coord and struct coord_box\<close>

record coord =
  Row :: short
  Col :: short

text \<open>
  The constructor \<^verbatim>\<open>coord(TR Row, TC Col)\<close> narrows both arguments with
  \<^verbatim>\<open>static_cast<short>\<close>; arithmetic on \<^verbatim>\<open>short\<close> operands is carried out in \<^verbatim>\<open>int\<close>.
\<close>

definition coord_of_int :: "int \<Rightarrow> int \<Rightarrow> coord" where
  "coord_of_int x y = \<lparr>Row = word_of_int x, Col = word_of_int y\<rparr>"

text \<open>\<^verbatim>\<open>coord::normalize\<close>: \<^verbatim>\<open>Row = Row > 0 ? Row : 0; Col = Col > 0 ? Col : 0;\<close>\<close>

definition coord_normalize :: "coord \<Rightarrow> coord" where
  "coord_normalize c =
     \<lparr>Row = (if sint (Row c) > 0 then Row c else 0),
      Col = (if sint (Col c) > 0 then Col c else 0)\<rparr>"

text \<open>\<^verbatim>\<open>coord::offset(int NumRows, int NumCols)\<close>: \<^verbatim>\<open>coord{ Row + NumRows, Col + NumCols }\<close>.\<close>

definition offset :: "coord \<Rightarrow> int \<Rightarrow> int \<Rightarrow> coord" where
  "offset c NumRows NumCols = coord_of_int (sint (Row c) + NumRows) (sint (Col c) + NumCols)"

text \<open>\<^verbatim>\<open>operator +\<close> and \<^verbatim>\<open>operator -\<close> on coordinates.\<close>

definition coord_plus :: "coord \<Rightarrow> coord \<Rightarrow> coord" where
  "coord_plus L R = coord_of_int (sint (Row L) + sint (Row R)) (sint (Col L) + sint (Col R))"

definition coord_minus :: "coord \<Rightarrow> coord \<Rightarrow> coord" where
  "coord_minus L R = coord_of_int (sint (Row L) - sint (Row R)) (sint (Col L) - sint (Col R))"

record coord_box =
  Top :: coord
  Bottom :: coord

definition num_rows :: "coord_box \<Rightarrow> int" where
  "num_rows bx = sint (Row (Bottom bx)) - sint (Row (Top bx)) + 1"

definition num_cols :: "coord_box \<Rightarrow> int" where
  "num_cols bx = sint (Col (Bottom bx)) - sint (Col (Top bx)) + 1"

text \<open>\<^verbatim>\<open>coord_box::set_size(int NumRows, int NumCols)\<close>.\<close>

definition set_size :: "coord_box \<Rightarrow> int \<Rightarrow> int \<Rightarrow> coord_box" where
  "set_size bx NumRows NumCols =
     bx\<lparr>Bottom := coord_minus (coord_plus (Top bx) (coord_of_int NumRows NumCols))
                            (coord_of_int 1 1)\<rparr>"

definition top_right :: "coord_box \<Rightarrow> coord" where
  "top_right bx = \<lparr>Row = Row (Top bx), Col = Col (Bottom bx)\<rparr>"

definition bottom_left :: "coord_box \<Rightarrow> coord" where
  "bottom_left bx = \<lparr>Row = Row (Bottom bx), Col = Col (Top bx)\<rparr>"

text \<open>\<^verbatim>\<open>coord_box::disjoint\<close>: the four comparisons of the source, in its order.\<close>

definition disjoint :: "coord_box \<Rightarrow> coord_box \<Rightarrow> bool" where
  "disjoint bx Rhs \<longleftrightarrow>
     sint (Row (Top bx)) > sint (Row (Bottom Rhs))
     \<or> sint (Col (Top bx)) > sint (Col (Bottom Rhs))
     \<or> sint (Row (Top Rhs)) > sint (Row (Bottom bx))
     \<or> sint (Col (Top Rhs)) > sint (Col (Bottom bx))"

text \<open>
  \<^verbatim>\<open>coord_box::normalize(int MinNumRows = 1, int MinNumCols = 1)\<close>.  The source changes the
  box in place; the model returns the changed box.  \<^verbatim>\<open>short R = Top.Row + MinNumRows - 1\<close>
  computes in \<^verbatim>\<open>int\<close> and narrows to \<^verbatim>\<open>short\<close>.
\<close>

definition coord_box_normalize :: "coord_box \<Rightarrow> int \<Rightarrow> int \<Rightarrow> coord_box" where
  "coord_box_normalize bx MinNumRows MinNumCols =
     (let Top1 = coord_normalize (Top bx);
          Bottom1 = coord_normalize (Bottom bx);
          MinNumRows1 = (if MinNumRows > 0 then MinNumRows else 0);
          MinNumCols1 = (if MinNumCols > 0 then MinNumCols else 0);
          R = (word_of_int (sint (Row Top1) + MinNumRows1 - 1) :: short);
          C = (word_of_int (sint (Col Top1) + MinNumCols1 - 1) :: short)
      in \<lparr>Top = Top1,
          Bottom = \<lparr>Row = (if sint R > sint (Row Bottom1) then R else Row Bottom1),
                     Col = (if sint C > sint (Col Bottom1) then C else Col Bottom1)\<rparr>\<rparr>)"

text \<open>\<^verbatim>\<open>coord_box::intersect\<close>: the larger of the two tops and the smaller of the two bottoms.\<close>

definition intersect :: "coord_box \<Rightarrow> coord_box \<Rightarrow> coord_box" where
  "intersect bx Rhs =
     (let TR = (if sint (Row (Top bx)) > sint (Row (Top Rhs)) then Row (Top bx) else Row (Top Rhs));
          TC = (if sint (Col (Top bx)) > sint (Col (Top Rhs)) then Col (Top bx) else Col (Top Rhs));
          BR = (if sint (Row (Bottom bx)) < sint (Row (Bottom Rhs))
                then Row (Bottom bx) else Row (Bottom Rhs));
          BC = (if sint (Col (Bottom bx)) < sint (Col (Bottom Rhs))
                then Col (Bottom bx) else Col (Bottom Rhs))
      in \<lparr>Top = \<lparr>Row = TR, Col = TC\<rparr>, Bottom = \<lparr>Row = BR, Col = BC\<rparr>\<rparr>)"

text \<open>Concrete rectangles used to exercise the geometry.\<close>

definition box_2211 :: coord_box where
  "box_2211 = \<lparr>Top = \<lparr>Row = 2, Col = 2\<rparr>, Bottom = \<lparr>Row = 1, Col = 1\<rparr>\<rparr>"

definition box_0419 :: coord_box where
  "box_0419 = \<lparr>Top = \<lparr>Row = 0, Col = 0\<rparr>, Bottom = \<lparr>Row = 4, Col = 19\<rparr>\<rparr>"

definition box_5090 :: coord_box where
  "box_5090 = \<lparr>Top = \<lparr>Row = 5, Col = 0\<rparr>, Bottom = \<lparr>Row = 9, Col = 19\<rparr>\<rparr>"

section \<open>ConsoleCMD.h: escape sequences appended to a buffer\<close>

text \<open>
  \<^verbatim>\<open>std::format\<close> with the replacement fields the library uses: \<^verbatim>\<open>{}\<close> prints an integer
  in decimal with a leading minus sign when negative, and \<^verbatim>\<open>{:0>Nd}\<close> right-aligns that
  text in a field of width \<open>N\<close> filled with the character \<^verbatim>\<open>0\<close>.
\<close>

fun digits :: "nat \<Rightarrow> wstring" where
  "digits n = (if n < 10 then [of_nat (48 + n)]
               else digits (n div 10) @ [of_nat (48 + n mod 10)])"

declare digits.simps [simp del]

definition format_d :: "int \<Rightarrow> wstring" where
  "format_d i = (if i < 0 then of_char CHR ''-'' # digits (nat (- i)) else digits (nat i))"

definition format_fill0 :: "nat \<Rightarrow> int \<Rightarrow> wstring" where
  "format_fill0 w i =
     (let s = format_d i in replicate (w - length s) (of_char CHR ''0'') @ s)"

definition ESC :: wchar_t where
  "ESC = 0x1b"

definition SetShow :: "wstring \<Rightarrow> wstring" where
  "SetShow Buff = Buff @ ESC # wstr ''[?25h''"

definition SetHide :: "wstring \<Rightarrow> wstring" where
  "SetHide Buff = Buff @ ESC # wstr ''[?25l''"

definition SetBlink :: "wstring \<Rightarrow> wstring" where
  "SetBlink Buff = Buff @ ESC # wstr ''[?12h''"

definition ClrBlink :: "wstring \<Rightarrow> wstring" where
  "ClrBlink Buff = Buff @ ESC # wstr ''[?12l''"

definition SetShape :: "wstring \<Rightarrow> int \<Rightarrow> wstring" where
  "SetShape Buff Shape = Buff @ ESC # wstr ''['' @ format_d Shape @ wstr '' q''"

definition SetBackColor :: "wstring \<Rightarrow> int \<Rightarrow> int \<Rightarrow> int \<Rightarrow> wstring" where
  "SetBackColor Buf x y z =
     Buf @ ESC # wstr ''[48;2;'' @ format_fill0 3 x @ wstr '';'' @ format_fill0 3 y
         @ wstr '';'' @ format_fill0 3 z @ wstr ''m''"

definition SetFrontColor :: "wstring \<Rightarrow> int \<Rightarrow> int \<Rightarrow> int \<Rightarrow> wstring" where
  "SetFrontColor Buf x y z =
     Buf @ ESC # wstr ''[38;2;'' @ format_fill0 3 x @ wstr '';'' @ format_fill0 3 y
         @ wstr '';'' @ format_fill0 3 z @ wstr ''m''"

text \<open>The three \<^verbatim>\<open>Set...\<close> attribute commands push a trailing null character.\<close>

definition SetBold :: "wstring \<Rightarrow> wstring" where
  "SetBold Buff = (Buff @ ESC # wstr ''[1m'') @ [0]"

definition ClrBold :: "wstring \<Rightarrow> wstring" where
  "ClrBold Buff = Buff @ ESC # wstr ''[22m''"

definition SetUnderline :: "wstring \<Rightarrow> wstring" where
  "SetUnderline Buff = (Buff @ ESC # wstr ''[4m'') @ [0]"

definition ClrUnderline :: "wstring \<Rightarrow> wstring" where
  "ClrUnderline Buff = Buff @ ESC # wstr ''[24m''"

definition SetNegative :: "wstring \<Rightarrow> wstring" where
  "SetNegative Buff = (Buff @ ESC # wstr ''[7m'') @ [0]"

definition ClrNegative :: "wstring \<Rightarrow> wstring" where
  "ClrNegative Buff = Buff @ ESC # wstr ''[27m''"

definition MoveDown :: "wstring \<Rightarrow> wstring" where
  "MoveDown Buff = Buff @ ESC # wstr ''[B''"

definition MoveLeft :: "wstring \<Rightarrow> wstring" where
  "MoveLeft Buff = Buff @ ESC # wstr ''[D''"

definition MoveRight :: "wstring \<Rightarrow> wstring" where
  "MoveRight Buff = Buff @ ESC # wstr ''[C''"

text \<open>\<^verbatim>\<open>MoveLeft(std::wstring& Buff, int Count)\<close>, with the zero-filled four-column count.\<close>

definition MoveLeft_count :: "wstring \<Rightarrow> int \<Rightarrow> wstring" where
  "MoveLeft_count Buff Count = Buff @ ESC # wstr ''['' @ format_fill0 4 Count @ wstr ''D''"

text \<open>
  The direct-output overloads \<^verbatim>\<open>MoveLeft(int Count)\<close> and \<^verbatim>\<open>MoveRight(int Count)\<close> print the
  count with \<^verbatim>\<open>{}\<close>; the stream they write to is passed like a buffer.
\<close>

definition MoveLeft_plain :: "wstring \<Rightarrow> int \<Rightarrow> wstring" where
  "MoveLeft_plain Buff Count = Buff @ ESC # wstr ''['' @ format_d Count @ wstr ''D''"

definition MoveRight_plain :: "wstring \<Rightarrow> int \<Rightarrow> wstring" where
  "MoveRight_plain Buff Count = Buff @ ESC # wstr ''['' @ format_d Count @ wstr ''C''"

text \<open>
  \<^verbatim>\<open>SetPos(std::wstring& Buff, unsigned Row, unsigned Col)\<close> prints two unsigned values;
  \<^verbatim>\<open>SetPos(int Row, int Col)\<close> prints two signed ones with the same format.
\<close>

definition SetPos :: "wstring \<Rightarrow> unsigned \<Rightarrow> unsigned \<Rightarrow> wstring" where
  "SetPos Buff x y =
     Buff @ ESC # wstr ''['' @ format_fill0 4 (uint x) @ wstr '';'' @ format_fill0 4 (uint y)
          @ wstr ''H''"

definition SetPos_int :: "wstring \<Rightarrow> int \<Rightarrow> int \<Rightarrow> wstring" where
  "SetPos_int Buff x y =
     Buff @ ESC # wstr ''['' @ format_fill0 4 x @ wstr '';'' @ format_fill0 4 y @ wstr ''H''"

text \<open>
  \<^verbatim>\<open>coord::apply\<close>: \<^verbatim>\<open>SetPos(Buff, Row + 1, Col + 1)\<close>; the sums are computed in \<^verbatim>\<open>int\<close> and
  converted to \<^verbatim>\<open>unsigned\<close> at the call.
\<close>

definition coord_apply :: "wstring \<Rightarrow> coord \<Rightarrow> wstring" where
  "coord_apply Buff c =
     SetPos Buff (word_of_int (sint (Row c) + 1)) (word_of_int (sint (Col c) + 1))"

section \<open>colors.h: blending, color pairs and the predefined schemes\<close>

text \<open>\<^verbatim>\<open>rgb::Avg(L, R, Weight)\<close>: the weight is clamped to \<open>[0, 100]\<close>; the arithmetic is in \<^verbatim>\<open>int\<close>.\<close>

definition Avg :: "rgb \<Rightarrow> rgb \<Rightarrow> int \<Rightarrow> rgb" where
  "Avg L R Weight =
     (let W = (if Weight < 0 then 0 else if Weight > 100 then 100 else Weight)
      in \<lparr>r = word_of_int ((uint (r L) * W + uint (r R) * (100 - W)) div 100),
          g = word_of_int ((uint (g L) * W + uint (g R) * (100 - W)) div 100),
          b = word_of_int ((uint (b L) * W + uint (b R) * (100 - W)) div 100)\<rparr>)"

text \<open>\<^verbatim>\<open>rgb::mul(unsigned l, unsigned r)\<close>: \<^verbatim>\<open>x = l * r; return x > 25500 ? 255 : (x / 100);\<close>\<close>

definition mul :: "unsigned \<Rightarrow> unsigned \<Rightarrow> unsigned" where
  "mul l x = (let y = l * x in if y > 25500 then 255 else y div 100)"

text \<open>\<^verbatim>\<open>rgb::neg\<close>: the low 24 bits are inverted, that is, every component is.\<close>

definition neg :: "rgb \<Rightarrow> rgb" where
  "neg c = \<lparr>r = NOT (r c), g = NOT (g c), b = NOT (b c)\<rparr>"

text \<open>\<^verbatim>\<open>operator * (rgb L, int x)\<close>.\<close>

definition rgb_times :: "rgb \<Rightarrow> int \<Rightarrow> rgb" where
  "rgb_times L x =
     (let L1 = (if x \<ge> 0 then L else neg L);
          x1 = (if x \<ge> 0 then x else - x)
      in rgb_of_unsigned (mul (ucast (r L1)) (word_of_int x1))
                         (mul (ucast (g L1)) (word_of_int x1))
                         (mul (ucast (b L1)) (word_of_int x1)))"

definition setBack :: "rgb \<Rightarrow> wstring \<Rightarrow> wstring" where
  "setBack c Buf = SetBackColor Buf (uint (r c)) (uint (g c)) (uint (b c))"

definition setFront :: "rgb \<Rightarrow> wstring \<Rightarrow> wstring" where
  "setFront c Buf = SetFrontColor Buf (uint (r c)) (uint (g c)) (uint (b c))"

text \<open>\<^verbatim>\<open>rgb::value\<close>: the three bytes as the low 24 bits of a 32-bit value.\<close>

definition pack24 :: "uint8_t \<Rightarrow> uint8_t \<Rightarrow> uint8_t \<Rightarrow> unsigned" where
  "pack24 x y z = ucast x OR push_bit 8 (ucast y) OR push_bit 16 (ucast z)"

definition rgb_value :: "rgb \<Rightarrow> unsigned" where
  "rgb_value c = pack24 (r c) (g c) (b c)"

record color =
  F :: rgb
  B :: rgb

definition BLACK :: rgb where "BLACK = \<lparr>r = 0, g = 0, b = 0\<rparr>"
definition GRAY :: rgb where "GRAY = \<lparr>r = 128, g = 128, b = 128\<rparr>"
definition WHITE :: rgb where "WHITE = \<lparr>r = 255, g = 255, b = 255\<rparr>"
definition BLUE :: rgb where "BLUE = \<lparr>r = 0, g = 0, b = 255\<rparr>"

text \<open>\<^verbatim>\<open>color::apply(std::wstring&)\<close>: foreground first, then background.\<close>

definition color_apply :: "color \<Rightarrow> wstring \<Rightarrow> wstring" where
  "color_apply c Buffer = setBack (color.B c) (setFront (color.F c) Buffer)"

text \<open>\<^verbatim>\<open>color::blend(Level)\<close>: \<^verbatim>\<open>color{ rgb::Avg(B, F, Level), rgb::Avg(F, B, Level) }\<close>.\<close>

definition blend :: "color \<Rightarrow> int \<Rightarrow> color" where
  "blend c Level =
     \<lparr>color.F = Avg (color.B c) (color.F c) Level, color.B = Avg (color.F c) (color.B c) Level\<rparr>"

definition ListColors :: color where
  "ListColors = \<lparr>color.F = \<lparr>r = 0xff, g = 0xff, b = 0xff\<rparr>, color.B = \<lparr>r = 0x20, g = 0x20, b = 0x20\<rparr>\<rparr>"

definition ListFocusColors :: color where
  "ListFocusColors =
     \<lparr>color.F = \<lparr>r = 0xff, g = 0xff, b = 0xff\<rparr>, color.B = \<lparr>r = 0x4d, g = 0x4d, b = 0x4d\<rparr>\<rparr>"

definition ListSelectColors :: color where
  "ListSelectColors =
     \<lparr>color.F = \<lparr>r = 0xff, g = 0xff, b = 0xff\<rparr>, color.B = \<lparr>r = 0x77, g = 0x77, b = 0x77\<rparr>\<rparr>"

definition ListSelectFocusColors :: color where
  "ListSelectFocusColors =
     \<lparr>color.F = \<lparr>r = 0xff, g = 0xff, b = 0xff\<rparr>, color.B = \<lparr>r = 0x87, g = 0x87, b = 0x87\<rparr>\<rparr>"

definition InputColors :: color where
  "InputColors = \<lparr>color.F = Avg BLUE WHITE 30, color.B = rgb_times WHITE 20\<rparr>"

section \<open>cursor.h: cursor_data and cursor\<close>

text \<open>
  \<^verbatim>\<open>cursor_data\<close> packs a color and the attribute flags into 32 bits: three bytes
  \<^verbatim>\<open>R\<close>, \<^verbatim>\<open>G\<close>, \<^verbatim>\<open>B\<close>, the three-bit field \<^verbatim>\<open>SHAPE\<close> and five one-bit flags.  The
  member \<^verbatim>\<open>State\<close> of the source is the byte made of \<^verbatim>\<open>SHAPE\<close> and the five flags.
\<close>

record cursor_data =
  R :: uint8_t
  G :: uint8_t
  B :: uint8_t
  SHAPE :: "3 word"
  BLINK :: bool
  UNDER :: bool
  SHOW :: bool
  BOLD :: bool
  NEG :: bool

text \<open>\<^verbatim>\<open>operator ==\<close> on \<^verbatim>\<open>cursor_state\<close> compares the state byte, that is, all six fields.\<close>

definition State_eq :: "cursor_data \<Rightarrow> cursor_data \<Rightarrow> bool" where
  "State_eq x y \<longleftrightarrow>
     SHAPE x = SHAPE y \<and> BLINK x = BLINK y \<and> UNDER x = UNDER y \<and> SHOW x = SHOW y
     \<and> BOLD x = BOLD y \<and> NEG x = NEG y"

text \<open>\<^verbatim>\<open>cursor_data::rgb_value\<close>: \<^verbatim>\<open>value & 0x00ffffff\<close>, the three color bytes.\<close>

definition cursor_data_rgb_value :: "cursor_data \<Rightarrow> unsigned" where
  "cursor_data_rgb_value d = pack24 (R d) (G d) (cursor_data.B d)"

text \<open>\<^verbatim>\<open>cursor_data::rgb\<close>: \<^verbatim>\<open>mz::rgb{ R, G, B }\<close>.\<close>

definition cursor_data_rgb :: "cursor_data \<Rightarrow> rgb" where
  "cursor_data_rgb d = \<lparr>r = R d, g = G d, b = cursor_data.B d\<rparr>"

text \<open>\<^verbatim>\<open>cursor_data::set\<close>: \<^verbatim>\<open>R = RGB.r; G = RGB.g; B = RGB.b;\<close>\<close>

definition cursor_data_set :: "cursor_data \<Rightarrow> rgb \<Rightarrow> cursor_data" where
  "cursor_data_set d RGB = d\<lparr>R := r RGB, G := g RGB, cursor_data.B := b RGB\<rparr>"

text \<open>
  \<^verbatim>\<open>cursor_data::update\<close>: remembers the old color value, stores the new color and reports
  whether the two values differ.
\<close>

definition cursor_data_update :: "cursor_data \<Rightarrow> rgb \<Rightarrow> bool \<times> cursor_data" where
  "cursor_data_update d RGB =
     (let RGB_VAL = cursor_data_rgb_value d;
          d1 = cursor_data_set d RGB
      in (RGB_VAL \<noteq> rgb_value RGB, d1))"

record cursor =
  F :: cursor_data
  B :: cursor_data

text \<open>The default cursor: white text (\<^verbatim>\<open>0x00ffffff\<close>) on black, no attribute set.\<close>

definition cursor_default :: cursor where
  "cursor_default =
     \<lparr>cursor.F = \<lparr>R = 0xff, G = 0xff, cursor_data.B = 0xff, SHAPE = 0, BLINK = False,
                    UNDER = False, SHOW = False, BOLD = False, NEG = False\<rparr>,
      cursor.B = \<lparr>R = 0, G = 0, cursor_data.B = 0, SHAPE = 0, BLINK = False,
                    UNDER = False, SHOW = False, BOLD = False, NEG = False\<rparr>\<rparr>"

definition apply_show :: "cursor \<Rightarrow> wstring \<Rightarrow> wstring" where
  "apply_show c Buff = (if SHOW (cursor.F c) then SetShow Buff else SetHide Buff)"

definition apply_blink :: "cursor \<Rightarrow> wstring \<Rightarrow> wstring" where
  "apply_blink c Buff = (if BLINK (cursor.F c) then SetBlink Buff else ClrBlink Buff)"

definition apply_shape :: "cursor \<Rightarrow> wstring \<Rightarrow> wstring" where
  "apply_shape c Buff = SetShape Buff (uint (SHAPE (cursor.F c)))"

definition apply_bold :: "cursor \<Rightarrow> wstring \<Rightarrow> wstring" where
  "apply_bold c Buff = (if BOLD (cursor.F c) then SetBold Buff else ClrBold Buff)"

definition apply_negative :: "cursor \<Rightarrow> wstring \<Rightarrow> wstring" where
  "apply_negative c Buff = (if NEG (cursor.F c) then SetNegative Buff else ClrNegative Buff)"

definition apply_underline :: "cursor \<Rightarrow> wstring \<Rightarrow> wstring" where
  "apply_underline c Buff = (if UNDER (cursor.F c) then SetUnderline Buff else ClrUnderline Buff)"

definition apply_cursor :: "cursor \<Rightarrow> wstring \<Rightarrow> wstring" where
  "apply_cursor c Buff = apply_blink c (apply_shape c (apply_show c Buff))"

definition apply_text :: "cursor \<Rightarrow> wstring \<Rightarrow> wstring" where
  "apply_text c Buff = apply_underline c (apply_negative c (apply_bold c Buff))"

definition apply_color :: "cursor \<Rightarrow> wstring \<Rightarrow> wstring" where
  "apply_color c Buff =
     setBack (cursor_data_rgb (cursor.B c)) (setFront (cursor_data_rgb (cursor.F c)) Buff)"

text \<open>\<^verbatim>\<open>cursor::apply\<close>: cursor attributes, text attributes, colors.\<close>

definition cursor_apply :: "cursor \<Rightarrow> wstring \<Rightarrow> wstring" where
  "cursor_apply c Buff = apply_color c (apply_text c (apply_cursor c Buff))"

text \<open>
  The methods below change the cursor and append to the buffer; the model returns the new
  buffer together with the new cursor.
\<close>

definition set_back_rgb :: "cursor \<Rightarrow> wstring \<Rightarrow> rgb \<Rightarrow> wstring \<times> cursor" where
  "set_back_rgb c Buff RGB =
     (let c1 = c\<lparr>cursor.B := cursor_data_set (cursor.B c) RGB\<rparr>
      in (SetBackColor Buff (uint (R (cursor.B c1))) (uint (G (cursor.B c1)))
                            (uint (cursor_data.B (cursor.B c1))), c1))"

definition set_front_rgb :: "cursor \<Rightarrow> wstring \<Rightarrow> rgb \<Rightarrow> wstring \<times> cursor" where
  "set_front_rgb c Buff RGB =
     (let c1 = c\<lparr>cursor.F := cursor_data_set (cursor.F c) RGB\<rparr>
      in (SetFrontColor Buff (uint (R (cursor.F c1))) (uint (G (cursor.F c1)))
                             (uint (cursor_data.B (cursor.F c1))), c1))"

text \<open>\<^verbatim>\<open>cursor::set_front_rgb(rgb FrontRGB)\<close>, the overload that only stores the color.\<close>

definition set_front_rgb_only :: "cursor \<Rightarrow> rgb \<Rightarrow> cursor" where
  "set_front_rgb_only c FrontRGB = c\<lparr>cursor.F := cursor_data_set (cursor.F c) FrontRGB\<rparr>"

definition update_back_rgb :: "cursor \<Rightarrow> wstring \<Rightarrow> rgb \<Rightarrow> wstring \<times> cursor" where
  "update_back_rgb c Buff RGB =
     (let (changed, d) = cursor_data_update (cursor.B c) RGB;
          c1 = c\<lparr>cursor.B := d\<rparr>
      in if changed
         then (SetBackColor Buff (uint (R (cursor.B c1))) (uint (G (cursor.B c1)))
                                 (uint (cursor_data.B (cursor.B c1))), c1)
         else (Buff, c1))"

definition update_front_rgb :: "cursor \<Rightarrow> wstring \<Rightarrow> rgb \<Rightarrow> wstring \<times> cursor" where
  "update_front_rgb c Buff RGB =
     (let (changed, d) = cursor_data_update (cursor.F c) RGB;
          c1 = c\<lparr>cursor.F := d\<rparr>
      in if changed
         then (SetFrontColor Buff (uint (R (cursor.F c1))) (uint (G (cursor.F c1)))
                                  (uint (cursor_data.B (cursor.F c1))), c1)
         else (Buff, c1))"

text \<open>
  \<^verbatim>\<open>cursor::update_to(Buff, Rhs)\<close>: colors first; then, only when the state bytes differ, each
  of shape, visibility, blink, inverse, bold and underline is compared, stored and emitted
  in the order of the source.
\<close>

definition update_to :: "cursor \<Rightarrow> wstring \<Rightarrow> cursor \<Rightarrow> wstring \<times> cursor" where
  "update_to c Buff Rhs =
     (let (Buff1, c1) = update_back_rgb c Buff (cursor_data_rgb (cursor.B Rhs));
          (Buff2, c2) = update_front_rgb c1 Buff1 (cursor_data_rgb (cursor.F Rhs))
      in if \<not> State_eq (cursor.F c2) (cursor.F Rhs) then
           let (Buff3, c3) =
                 (if SHAPE (cursor.F c2) \<noteq> SHAPE (cursor.F Rhs)
                  then let c' = c2\<lparr>cursor.F := (cursor.F c2)\<lparr>SHAPE := SHAPE (cursor.F Rhs)\<rparr>\<rparr>
                       in (apply_shape c' Buff2, c')
                  else (Buff2, c2));
               (Buff4, c4) =
                 (if SHOW (cursor.F c3) \<noteq> SHOW (cursor.F Rhs)
                  then let c' = c3\<lparr>cursor.F := (cursor.F c3)\<lparr>SHOW := SHOW (cursor.F Rhs)\<rparr>\<rparr>
                       in (apply_show c' Buff3, c')
                  else (Buff3, c3));
               (Buff5, c5) =
                 (if BLINK (cursor.F c4) \<noteq> BLINK (cursor.F Rhs)
                  then let c' = c4\<lparr>cursor.F := (cursor.F c4)\<lparr>BLINK := BLINK (cursor.F Rhs)\<rparr>\<rparr>
                       in (apply_blink c' Buff4, c')
                  else (Buff4, c4));
               (Buff6, c6) =
                 (if NEG (cursor.F c5) \<noteq> NEG (cursor.F Rhs)
                  then let c' = c5\<lparr>cursor.F := (cursor.F c5)\<lparr>NEG := NEG (cursor.F Rhs)\<rparr>\<rparr>
                       in (apply_negative c' Buff5, c')
                  else (Buff5, c5));
               (Buff7, c7) =
                 (if BOLD (cursor.F c6) \<noteq> BOLD (cursor.F Rhs)
                  then let c' = c6\<lparr>cursor.F := (cursor.F c6)\<lparr>BOLD := BOLD (cursor.F Rhs)\<rparr>\<rparr>
                       in (apply_bold c' Buff6, c')
                  else (Buff6, c6))
           in (if UNDER (cursor.F c7) \<noteq> UNDER (cursor.F Rhs)
               then let c' = c7\<lparr>cursor.F := (cursor.F c7)\<lparr>UNDER := UNDER (cursor.F Rhs)\<rparr>\<rparr>
                    in (apply_underline c' Buff7, c')
               else (Buff7, c7))
         else (Buff2, c2))"

text \<open>
  A tracked cursor has converged to a target when its two colors and the attribute state of
  its foreground word are those of the target: the fields \<^verbatim>\<open>update_to\<close> compares.
\<close>

definition converged :: "cursor \<Rightarrow> cursor \<Rightarrow> bool" where
  "converged c Rhs \<longleftrightarrow>
     cursor_data_rgb (cursor.B c) = cursor_data_rgb (cursor.B Rhs)
     \<and> cursor_data_rgb (cursor.F c) = cursor_data_rgb (cursor.F Rhs)
     \<and> State_eq (cursor.F c) (cursor.F Rhs)"

section \<open>Errors and integer division\<close>

text \<open>
  The ways a call can fail to return: the exceptions the code throws or lets escape
  (\<^verbatim>\<open>std::logic_error\<close>, \<^verbatim>\<open>std::out_of_range\<close>, \<^verbatim>\<open>std::length_error\<close>,
  \<^verbatim>\<open>std::bad_alloc\<close>) and behaviour the language leaves undefined (an integer division by
  zero, an index past the end of a vector or string).
\<close>

datatype error = logic_error | out_of_range | length_error | bad_alloc | undefined_behaviour

text \<open>Division of \<^verbatim>\<open>int\<close> values truncates towards zero.\<close>

definition int_div :: "int \<Rightarrow> int \<Rightarrow> int" where
  "int_div x y = (if (x < 0) = (y < 0) then \<bar>x\<bar> div \<bar>y\<bar> else - (\<bar>x\<bar> div \<bar>y\<bar>))"

section \<open>ConsoleCMD.h: symbols\<close>

definition LHEAD :: wchar_t where "LHEAD = 0x82cb"
definition RHEAD :: wchar_t where "RHEAD = 0x83cb"
definition LLQUOTE :: wstring where "LLQUOTE = [0xABC2]"
definition RRQUOTE :: wstring where "RRQUOTE = [0xBBC2]"
definition FSQUARE :: wstring where "FSQUARE = [0x96E2, 0xA0]"
definition TRIUP :: wstring where "TRIUP = [0x96E2, 0xb2]"
definition TRIDOWN :: wstring where "TRIDOWN = [0x96E2, 0xbc]"

section \<open>coord.h: methods that write to a buffer and move the coordinate\<close>

text \<open>
  Each of these methods appends to the buffer and moves the coordinate it is called on; the
  model returns both.  \<^verbatim>\<open>push_back(Buff, const wchar_t(&L)[N])\<close> appends the whole array and
  advances one column; \<^verbatim>\<open>push_back(Buff, int wc)\<close> appends one character.
\<close>

definition push_back_array :: "coord \<Rightarrow> wstring \<Rightarrow> wstring \<Rightarrow> wstring \<times> coord" where
  "push_back_array c Buff L = (Buff @ L, c\<lparr>Col := Col c + 1\<rparr>)"

definition push_back :: "coord \<Rightarrow> wstring \<Rightarrow> int \<Rightarrow> wstring \<times> coord" where
  "push_back c Buff wc = (Buff @ [word_of_int wc], c\<lparr>Col := Col c + 1\<rparr>)"

text \<open>\<^verbatim>\<open>append(bf, size_t Count, wchar_t c)\<close>.\<close>

definition coord_append :: "coord \<Rightarrow> wstring \<Rightarrow> nat \<Rightarrow> wchar_t \<Rightarrow> wstring \<times> coord" where
  "coord_append c bf Count ch = (bf @ replicate Count ch, c\<lparr>Col := Col c + of_nat Count\<rparr>)"

text \<open>\<^verbatim>\<open>coord::move_left(Buff)\<close> and \<^verbatim>\<open>coord::move_down(Buff)\<close>.\<close>

definition coord_move_left :: "coord \<Rightarrow> wstring \<Rightarrow> wstring \<times> coord" where
  "coord_move_left c Buff = (MoveLeft Buff, c\<lparr>Col := Col c - 1\<rparr>)"

definition coord_move_down :: "coord \<Rightarrow> wstring \<Rightarrow> wstring \<times> coord" where
  "coord_move_down c Buff = (MoveDown Buff, c\<lparr>Row := Row c + 1\<rparr>)"

section \<open>WindowBox.h: scrollbars\<close>

record BasicScrollBar =
  BarLength :: int
  PreLength :: int
  PostLength :: int
  BackRGB :: rgb
  TopLeft :: coord
  ScrollColors :: color

text \<open>
  The thumb computation of \<^verbatim>\<open>HorizontalScrollBar::draw\<close> (the \<^verbatim>\<open>else\<close> branch, up to the
  adjustment at the beginning), as a function of \<^verbatim>\<open>BarLength\<close>, \<^verbatim>\<open>FirstItem\<close> and
  \<^verbatim>\<open>NumItems\<close>; it returns \<^verbatim>\<open>(thumbStart, thumbEnd)\<close>.  The caller has excluded
  \<^verbatim>\<open>NumItems = 0\<close>.
\<close>

definition HorizontalScrollBar_thumb :: "int \<Rightarrow> int \<Rightarrow> int \<Rightarrow> int \<times> int" where
  "HorizontalScrollBar_thumb BarLen FirstItem NumItems =
     (let thumbEnd0 = int_div ((FirstItem + BarLen) * BarLen) NumItems;
          thumbEnd1 = (if thumbEnd0 \<ge> BarLen
                       then BarLen - (if FirstItem + BarLen < NumItems then 1 else 0)
                       else thumbEnd0);
          (thumbStart2, thumbEnd2) =
            (if thumbEnd1 > 0
             then let ts = thumbEnd1 - int_div (BarLen * BarLen) NumItems;
                      ts1 = ts - (if ts = thumbEnd1 then 1 else 0)
                  in (if ts1 > 0 then ts1 else 0, thumbEnd1)
             else (0, 1))
      in if thumbStart2 = 0 \<and> FirstItem > 0 then (thumbStart2 + 1, thumbEnd2 + 1)
         else (thumbStart2, thumbEnd2))"

text \<open>One track cell of the horizontal bar: \<^verbatim>\<open>Loc.push_back(bf, FSQUARE)\<close>.\<close>

definition hcell :: "wstring \<times> coord \<Rightarrow> wstring \<times> coord" where
  "hcell p = push_back_array (snd p) (fst p) FSQUARE"

text \<open>
  \<^verbatim>\<open>HorizontalScrollBar::draw(bf, FirstItem, NumItems)\<close>.  A loop
  \<^verbatim>\<open>for (int i = a; i < b; i++)\<close> whose body does not read \<open>i\<close> runs its body
  \<open>nat (b - a)\<close> times.
\<close>

definition HorizontalScrollBar_draw ::
  "BasicScrollBar \<Rightarrow> wstring \<Rightarrow> int \<Rightarrow> int \<Rightarrow> error + wstring" where
  "HorizontalScrollBar_draw sb bf FirstItem NumItems =
     (let Loc = TopLeft sb;
          NumBars = (if BarLength sb > 0 then BarLength sb else 0);
          bf1 = coord_apply (setBack (BackRGB sb) (ClrUnderline (SetHide bf))) Loc;
          (bf2, Loc2) = (if PreLength sb > 0
                         then coord_append Loc bf1 (nat (PreLength sb)) (of_char CHR '' '')
                         else (bf1, Loc));
          post = (\<lambda>(b0, l0). if PostLength sb > 0
                    then fst (coord_append l0 b0 (nat (PostLength sb)) (of_char CHR '' ''))
                    else b0)
      in if NumItems \<le> BarLength sb then
           let bf3 = setFront (color.B (ScrollColors sb)) bf2;
               p4 = push_back Loc2 bf3 (uint LHEAD);
               p5 = (hcell ^^ nat (BarLength sb)) p4;
               p6 = push_back (snd p5) (fst p5) (uint RHEAD)
           in Inr (post p6)
         else if NumItems = 0 then Inl undefined_behaviour
         else
           let (thumbStart, thumbEnd) = HorizontalScrollBar_thumb (BarLength sb) FirstItem NumItems;
               Seq = cursor_default;
               (bf3, Seq3) = (if thumbStart > 0
                              then set_front_rgb Seq bf2 (color.F (ScrollColors sb))
                              else set_front_rgb Seq bf2 (color.B (ScrollColors sb)));
               (bf4, Loc4) = push_back Loc2 bf3 (uint LHEAD);
               (bf5, Seq5, Loc5) =
                 (if thumbStart > 0
                  then let (b0, s0) = update_front_rgb Seq3 bf4 (color.B (ScrollColors sb));
                           (b1, l1) = (hcell ^^ nat thumbStart) (b0, Loc4)
                       in (b1, s0, l1)
                  else (bf4, Seq3, Loc4));
               (bf6, Seq6, Loc6) =
                 (if thumbStart < thumbEnd
                  then let (b0, s0) = update_front_rgb Seq5 bf5 (color.F (ScrollColors sb));
                           (b1, l1) = (hcell ^^ nat (thumbEnd - thumbStart)) (b0, Loc5)
                       in (b1, s0, l1)
                  else (bf5, Seq5, Loc5));
               (bf7, Seq7, Loc7) =
                 (if thumbEnd < NumBars
                  then let (b0, s0) = update_front_rgb Seq6 bf6 (color.B (ScrollColors sb));
                           (b1, l1) = (hcell ^^ nat (NumBars - thumbEnd)) (b0, Loc6)
                       in (b1, s0, l1)
                  else (bf6, Seq6, Loc6));
               (bf8, Seq8) = (if thumbEnd < NumBars
                              then update_front_rgb Seq7 bf7 (color.F (ScrollColors sb))
                              else update_front_rgb Seq7 bf7 (color.B (ScrollColors sb)));
               p9 = push_back Loc7 bf8 (uint RHEAD)
           in Inr (post p9))"

text \<open>
  The thumb computation of \<^verbatim>\<open>VerticalScrollBar::draw\<close> (its \<^verbatim>\<open>else\<close> branch), with
  \<^verbatim>\<open>NumBars = BarLength - 2\<close>; it returns \<^verbatim>\<open>(thumbStart, thumbEnd)\<close>.
\<close>

definition VerticalScrollBar_thumb :: "int \<Rightarrow> int \<Rightarrow> int \<Rightarrow> int \<times> int" where
  "VerticalScrollBar_thumb BarLen FirstRow NumItems =
     (let NumBars = BarLen - 2;
          thumbEnd0 = int_div ((FirstRow + BarLen) * NumBars) NumItems;
          thumbEnd1 = (if thumbEnd0 \<ge> NumBars
                       then NumBars - (if FirstRow + BarLen < NumBars then 1 else 0)
                       else thumbEnd0);
          (thumbStart2, thumbEnd2) =
            (if thumbEnd1 > 0
             then let ts = thumbEnd1 - int_div (BarLen * NumBars) NumItems;
                      ts1 = ts - (if ts = thumbEnd1 then 1 else 0)
                  in (if ts1 > 0 then ts1 else 0, thumbEnd1)
             else (0, 1))
      in if thumbStart2 = 0 \<and> FirstRow > 0 then (thumbStart2 + 1, thumbEnd2 + 1)
         else (thumbStart2, thumbEnd2))"

text \<open>
  One track cell of the vertical bar:
  \<^verbatim>\<open>Loc.move_left(bf); Loc.move_down(bf); Loc.push_back(bf, ' ');\<close>
\<close>

definition vcell :: "wstring \<times> coord \<Rightarrow> wstring \<times> coord" where
  "vcell p =
     (let (b1, l1) = coord_move_left (snd p) (fst p);
          (b2, l2) = coord_move_down l1 b1
      in push_back l2 b2 (of_char CHR '' ''))"

text \<open>\<^verbatim>\<open>VerticalScrollBar::draw(bf, FirstRow, NumItems)\<close>.\<close>

definition VerticalScrollBar_draw ::
  "BasicScrollBar \<Rightarrow> wstring \<Rightarrow> int \<Rightarrow> int \<Rightarrow> error + wstring" where
  "VerticalScrollBar_draw sb bf FirstRow NumItems =
     (let Seq = cursor_default;
          bf1 = setBack (BackRGB sb) (ClrUnderline (SetHide bf));
          Loc = TopLeft sb;
          bf2 = coord_apply bf1 Loc;
          NumBars = BarLength sb - 2;
          down = (\<lambda>(b0, l0).
                    let (b1, l1) = coord_move_left l0 b0;
                        (b2, l2) = coord_move_down l1 b1
                    in fst (push_back_array l2 b2 TRIDOWN))
      in if NumItems < BarLength sb then
           let (bf3, Seq3) = set_front_rgb Seq bf2 (color.B (ScrollColors sb));
               (bf4, Loc4) = push_back_array Loc bf3 TRIUP;
               (bf5, Seq5) = set_back_rgb Seq3 bf4 (color.B (ScrollColors sb));
               (bf6, Loc6) = (vcell ^^ nat NumBars) (bf5, Loc4);
               (bf7, Seq7) = update_back_rgb Seq5 bf6 (BackRGB sb)
           in Inr (down (bf7, Loc6))
         else if NumItems = 0 then Inl undefined_behaviour
         else
           let (thumbStart, thumbEnd) = VerticalScrollBar_thumb (BarLength sb) FirstRow NumItems;
               Seq3 = (if thumbStart > 0
                       then set_front_rgb_only Seq (color.F (ScrollColors sb))
                       else set_front_rgb_only Seq (color.B (ScrollColors sb)));
               bf3 = cursor_apply Seq3 bf2;
               (bf4, Loc4) = push_back_array Loc bf3 TRIUP;
               (bf5, Seq5) = update_front_rgb Seq3 bf4 (color.F (ScrollColors sb));
               (bf6, Seq6) = update_back_rgb Seq5 bf5 (color.B (ScrollColors sb));
               (bf7, Loc7) = (vcell ^^ nat thumbStart) (bf6, Loc4);
               bf8 = SetNegative bf7;
               (bf9, Loc9) = (vcell ^^ nat (thumbEnd - thumbStart)) (bf8, Loc7);
               bf10 = ClrNegative bf9;
               (bf11, Loc11) = (vcell ^^ nat (NumBars - thumbEnd)) (bf10, Loc9);
               (bf12, Seq12) = update_back_rgb Seq6 bf11 (BackRGB sb);
               (bf13, Seq13) = (if thumbEnd = NumBars
                                then update_front_rgb Seq12 bf12 (color.B (ScrollColors sb))
                                else (bf12, Seq12))
           in Inr (down (bf13, Loc11)))"

text \<open>
  A vertical scrollbar as \<^verbatim>\<open>DirectoryDisplayBox::initialize\<close> configures it for a list area of
  six rows and fifty columns at the origin, and the text of one vertical track cell.
\<close>

definition vbar5 :: BasicScrollBar where
  "vbar5 = \<lparr>BarLength = 5, PreLength = 0, PostLength = 0, BackRGB = color.B ListColors,
             TopLeft = \<lparr>Row = 0, Col = 49\<rparr>, ScrollColors = blend ListColors 20\<rparr>"

definition vtrack_cell :: wstring where
  "vtrack_cell = MoveLeft [] @ MoveDown [] @ [of_char CHR '' '']"

section \<open>ConsoleCMD.h: key codes and character classes\<close>

definition RETURNKEY :: int where "RETURNKEY = 13"
definition ESCAPEKEY :: int where "ESCAPEKEY = 27"
definition SPACEKEY :: int where "SPACEKEY = 32"
definition BACKSPACEKEY :: int where "BACKSPACEKEY = 8"
definition HOMEKEY :: int where "HOMEKEY = push_bit 16 71 OR 224"
definition ENDKEY :: int where "ENDKEY = push_bit 16 79 OR 224"
definition LEFTKEY :: int where "LEFTKEY = push_bit 16 75 OR 224"
definition RIGHTKEY :: int where "RIGHTKEY = push_bit 16 77 OR 224"
definition INSERTKEY :: int where "INSERTKEY = push_bit 16 82 OR 224"
definition DELETEKEY :: int where "DELETEKEY = push_bit 16 83 OR 224"

definition IsDigitCharacter :: "int \<Rightarrow> bool" where
  "IsDigitCharacter c \<longleftrightarrow> c \<ge> of_char CHR ''0'' \<and> c \<le> of_char CHR ''9''"

definition IsLowerCase :: "int \<Rightarrow> bool" where
  "IsLowerCase c \<longleftrightarrow> c \<ge> of_char CHR ''a'' \<and> c \<le> of_char CHR ''z''"

definition IsUpperCase :: "int \<Rightarrow> bool" where
  "IsUpperCase c \<longleftrightarrow> c \<ge> of_char CHR ''A'' \<and> c \<le> of_char CHR ''Z''"

definition IsAlphaNumeric :: "int \<Rightarrow> bool" where
  "IsAlphaNumeric c \<longleftrightarrow> IsLowerCase c \<or> IsUpperCase c \<or> IsDigitCharacter c"

text \<open>
  \<^verbatim>\<open>IsFilenameCharacter\<close> (ConsoleCMD.cpp): alphanumeric, or one of the listed special
  characters
  \<^verbatim>\<open>~ ` ! @ # $ % ^ & ( ) - + _ = ; ' , .\<close> and the space.
\<close>

definition IsFilenameCharacter :: "int \<Rightarrow> bool" where
  "IsFilenameCharacter c \<longleftrightarrow>
     IsAlphaNumeric c
     \<or> c \<in> of_char ` {CHR ''~'', CHR 0x60, CHR ''!'', CHR ''@'', CHR ''#'', CHR ''$'', CHR ''%'',
                      CHR ''^'', CHR ''&'', CHR ''('', CHR '')'', CHR ''-'', CHR ''+'', CHR ''_'',
                      CHR ''='', CHR '';'', CHR 0x27, CHR '','', CHR ''.'', CHR '' ''}"

text \<open>
  \<^verbatim>\<open>IsDisplayCharacter\<close>: a filename character, or one of
  \<^verbatim>\<open>\ / : * ? " < > |\<close>.
\<close>

definition IsDisplayCharacter :: "int \<Rightarrow> bool" where
  "IsDisplayCharacter c \<longleftrightarrow>
     IsFilenameCharacter c
     \<or> c \<in> of_char ` {CHR 0x5C, CHR ''/'', CHR '':'', CHR ''*'', CHR ''?'', CHR 0x22, CHR ''<'',
                      CHR ''>'', CHR ''|''}"

section \<open>ConsoleBoxes.h: class BasicBox\<close>

text \<open>
  The base class of the widgets: the render buffer \<^verbatim>\<open>bf\<close>, the screen area and the colors.
  The widgets write to the terminal through \<^verbatim>\<open>mz::Write\<close>; the model keeps the characters
  written so far in the field \<open>stdout\<close> of the box that writes them.
\<close>

record BasicBox =
  bf :: wstring
  Area :: coord_box
  Color :: color
  stdout :: wstring

text \<open>\<^verbatim>\<open>mz::Write(std::wstring_view)\<close> and \<^verbatim>\<open>mz::Write(wchar_t)\<close> on the terminal of a box.\<close>

definition Write :: "wstring \<Rightarrow> 'a BasicBox_scheme \<Rightarrow> 'a BasicBox_scheme" where
  "Write sv s = s\<lparr>stdout := stdout s @ sv\<rparr>"

section \<open>DirectoryDisplayBox.h: struct name_column\<close>

record name_column =
  FirstIndex :: int
  BeginOffset :: int
  EndOffset :: int
  Selected :: bool

text \<open>\<^verbatim>\<open>name_column::size\<close>: \<^verbatim>\<open>EndOffset - BeginOffset\<close>.\<close>

definition name_column_size :: "name_column \<Rightarrow> int" where
  "name_column_size col = EndOffset col - name_column.BeginOffset col"

section \<open>InputControl.h: class InputControl\<close>

record InputControl = BasicBox +
  InsertOn :: bool
  BeginIndex :: int
  BeginOffset :: int
  MaxLength :: int
  Text :: wstring
  wc :: wchar_t

text \<open>\<^verbatim>\<open>box_length\<close>: the smaller of the width of the area and \<^verbatim>\<open>MaxLength\<close>.\<close>

definition box_length :: "InputControl \<Rightarrow> int" where
  "box_length s =
     (let BoxLength = num_cols (Area s)
      in if BoxLength \<le> MaxLength s then BoxLength else MaxLength s)"

text \<open>The cursor shape helpers, which write to the terminal.\<close>

definition write_bunder_shape :: "InputControl \<Rightarrow> InputControl" where
  "write_bunder_shape s = Write (ESC # wstr ''[3 q'') s"

definition write_bblock_shape :: "InputControl \<Rightarrow> InputControl" where
  "write_bblock_shape s = Write (ESC # wstr ''[1 q'') s"

definition write_bbar_shape :: "InputControl \<Rightarrow> InputControl" where
  "write_bbar_shape s = Write (ESC # wstr ''[5 q'') s"

definition write_right_bbar :: "InputControl \<Rightarrow> InputControl" where
  "write_right_bbar s = Write (ESC # wstr ''[C'' @ ESC # wstr ''[5 q'') s"

definition write_right_bbar_count :: "InputControl \<Rightarrow> int \<Rightarrow> InputControl" where
  "write_right_bbar_count s Count =
     Write (ESC # wstr ''['' @ format_d Count @ wstr ''C'' @ ESC # wstr ''[5 q'') s"

definition write_left :: "InputControl \<Rightarrow> InputControl" where
  "write_left s = Write (MoveLeft []) s"

definition write_left_and_shape :: "InputControl \<Rightarrow> InputControl" where
  "write_left_and_shape s =
     (if InsertOn s then Write (ESC # wstr ''[D'' @ ESC # wstr ''[1 q'') s
      else Write (ESC # wstr ''[D'' @ ESC # wstr ''[3 q'') s)"

definition write_shape :: "InputControl \<Rightarrow> InputControl" where
  "write_shape s = (if InsertOn s then write_bblock_shape s else write_bunder_shape s)"

text \<open>
  \<^verbatim>\<open>format_to(DisplayColor, DisplayCharacter)\<close> rebuilds \<^verbatim>\<open>bf\<close>: hide cursor, colors,
  position, then the visible part of the text (or that many mask characters) padded with
  spaces to the width of the area.

  The source computes in \<^verbatim>\<open>size_t\<close>: \<^verbatim>\<open>BoxLength = Area.num_cols()\<close>,
  \<^verbatim>\<open>RemLength = Text.size() - BeginIndex\<close>, clamped to \<^verbatim>\<open>BoxLength\<close>.  With
  \<^verbatim>\<open>0 \<le> BeginIndex \<le> Text.size()\<close> and a non-negative width these are the plain
  differences.  Outside that range the conversions wrap around: a negative width becomes a
  count that no string can hold, so the padding \<^verbatim>\<open>append\<close> throws
  \<^verbatim>\<open>std::length_error\<close>; \<^verbatim>\<open>substr(BeginIndex, RemLength)\<close> throws
  \<^verbatim>\<open>std::out_of_range\<close> when \<^verbatim>\<open>BeginIndex\<close>, as a \<^verbatim>\<open>size_t\<close>, exceeds the size (so also
  when it is negative); with a mask character no \<^verbatim>\<open>substr\<close> is taken, and a
  \<^verbatim>\<open>BeginIndex\<close> beyond the size wraps \<^verbatim>\<open>RemLength\<close> to a value that the clamp replaces by
  \<^verbatim>\<open>BoxLength\<close>.  The function is \<^verbatim>\<open>noexcept\<close>: an exception ends the program.
\<close>

definition format_to :: "InputControl \<Rightarrow> color \<Rightarrow> wchar_t \<Rightarrow> error + InputControl" where
  "format_to s DisplayColor DisplayCharacter =
     (let BoxLength = num_cols (Area s);
          sz = int (length (Text s));
          bf0 = coord_apply (color_apply DisplayColor (SetHide [])) (Top (Area s))
      in if DisplayCharacter \<noteq> 0 then
           (if BoxLength < 0 then Inl length_error
            else let RemLength = (if BeginIndex s > sz then BoxLength
                                  else min (sz - BeginIndex s) BoxLength)
                 in Inr (s\<lparr>bf := bf0 @ replicate (nat RemLength) DisplayCharacter
                                    @ replicate (nat (BoxLength - RemLength)) (of_char CHR '' '')\<rparr>))
         else
           (if BeginIndex s < 0 \<or> BeginIndex s > sz then Inl out_of_range
            else if BoxLength < 0 then Inl length_error
            else let RemLength = min (sz - BeginIndex s) BoxLength
                 in Inr (s\<lparr>bf := bf0 @ take (nat RemLength) (drop (nat (BeginIndex s)) (Text s))
                                    @ replicate (nat (BoxLength - RemLength)) (of_char CHR '' '')\<rparr>)))"

text \<open>\<^verbatim>\<open>print(DisplayColor, DisplayCharacter)\<close>: \<^verbatim>\<open>format_to\<close>, then write \<^verbatim>\<open>bf\<close>.\<close>

definition print :: "InputControl \<Rightarrow> color \<Rightarrow> wchar_t \<Rightarrow> error + InputControl" where
  "print s DisplayColor DisplayCharacter =
     (case format_to s DisplayColor DisplayCharacter of
        Inl e \<Rightarrow> Inl e
      | Inr s1 \<Rightarrow> Inr (Write (bf s1) s1))"

text \<open>
  \<^verbatim>\<open>display_cursor\<close>: position the terminal cursor at the input position, choose the shape,
  show the cursor.
\<close>

definition display_cursor :: "InputControl \<Rightarrow> InputControl" where
  "display_cursor s =
     (let BoxLength = box_length s;
          Loc = offset (Top (Area s)) 0 (BeginOffset s);
          s1 = s\<lparr>stdout := SetPos_int (stdout s) (sint (Row Loc) + 1) (sint (Col Loc) + 1)\<rparr>;
          s2 = (if BeginOffset s1 \<ge> BoxLength then write_bbar_shape s1
                else if InsertOn s1 then write_bblock_shape s1
                else write_bunder_shape s1)
      in s2\<lparr>stdout := SetShow (stdout s2)\<rparr>)"

definition print_and_display_cursor :: "InputControl \<Rightarrow> error + InputControl" where
  "print_and_display_cursor s =
     (case print s (Color s) (wc s) of
        Inl e \<Rightarrow> Inl e
      | Inr s1 \<Rightarrow> Inr (display_cursor s1))"

text \<open>
  The three loops that shift the text by one position.  Backspace:
  \<^verbatim>\<open>for (size_t i = BeginIndex + BeginOffset; i < Text.size(); i++) Text[i - 1] = Text[i];\<close>
\<close>

function backspace_shift :: "nat \<Rightarrow> wstring \<Rightarrow> wstring" where
  "backspace_shift i t =
     (if i < length t then backspace_shift (Suc i) (t[i - 1 := t ! i]) else t)"
  by pat_completeness auto
termination
  by (relation "measure (\<lambda>(i, t). length t - i)") auto

declare backspace_shift.simps [simp del]

text \<open>
  Delete:
  \<^verbatim>\<open>for (size_t i = EndIndex; i < Text.size() - 1; i++) Text[i] = Text[i + 1];\<close>
  (reached only with a non-empty text).
\<close>

function delete_shift :: "nat \<Rightarrow> wstring \<Rightarrow> wstring" where
  "delete_shift i t =
     (if i < length t - 1 then delete_shift (Suc i) (t[i := t ! (Suc i)]) else t)"
  by pat_completeness auto
termination
  by (relation "measure (\<lambda>(i, t). length t - i)") auto

declare delete_shift.simps [simp del]

text \<open>
  Insert:
  \<^verbatim>\<open>for (size_t i = Text.size() - 1; i > OffsetIndex; i--) Text[i] = Text[i - 1];\<close>
\<close>

fun insert_shift :: "nat \<Rightarrow> nat \<Rightarrow> wstring \<Rightarrow> wstring" where
  "insert_shift 0 k t = t"
| "insert_shift (Suc i) k t =
     (if Suc i > k then insert_shift i k (t[Suc i := t ! i]) else t)"

text \<open>
  \<^verbatim>\<open>process_control_keys(x)\<close>: the \<^verbatim>\<open>switch\<close> over the key codes, in the order of the source.
  It is private and called only by \<^verbatim>\<open>insert\<close>, after the validation of the state, so every
  index it uses is within the text.
\<close>

definition process_control_keys :: "InputControl \<Rightarrow> int \<Rightarrow> error + (bool \<times> InputControl)" where
  "process_control_keys s x =
     (let BoxLength = box_length s;
          EndIndex = BeginIndex s + BeginOffset s;
          done = (\<lambda>r. case r of Inl e \<Rightarrow> Inl e | Inr s' \<Rightarrow> Inr (True, s'))
      in
      if x = BACKSPACEKEY then
        (if BeginIndex s + BeginOffset s > 0 then
           let s1 = s\<lparr>Text := butlast (backspace_shift (nat (BeginIndex s + BeginOffset s)) (Text s))\<rparr>;
               s2 = s1\<lparr>BeginOffset := BeginOffset s1 - 1\<rparr>;
               s3 = (if BeginOffset s2 < 0
                     then s2\<lparr>BeginOffset := 0, BeginIndex := BeginIndex s2 - 1\<rparr>
                     else s2)
           in done (print_and_display_cursor s3)
         else Inr (True, s))
      else if x = HOMEKEY then
        (if BeginIndex s + BeginOffset s > BoxLength then
           done (print_and_display_cursor (s\<lparr>BeginIndex := 0, BeginOffset := 0\<rparr>))
         else if BeginIndex s + BeginOffset s > 0 then
           let s1 = s\<lparr>stdout := MoveLeft_plain (stdout s) (BeginOffset s)\<rparr>;
               s2 = (if BeginOffset s1 = BoxLength then write_shape s1 else s1)
           in Inr (True, s2\<lparr>BeginIndex := 0, BeginOffset := 0\<rparr>)
         else Inr (True, s))
      else if x = LEFTKEY then
        (if BeginOffset s = BoxLength then
           Inr (True, write_left_and_shape (s\<lparr>BeginOffset := BeginOffset s - 1\<rparr>))
         else if BeginOffset s > 0 then
           Inr (True, write_left (s\<lparr>BeginOffset := BeginOffset s - 1\<rparr>))
         else if BeginIndex s > 0 then
           done (print_and_display_cursor (s\<lparr>BeginIndex := BeginIndex s - 1\<rparr>))
         else Inr (True, s))
      else if x = RIGHTKEY then
        (if BeginIndex s + BeginOffset s < int (length (Text s)) then
           let s1 = s\<lparr>BeginOffset := BeginOffset s + 1\<rparr>
           in if BeginOffset s1 < BoxLength then
                Inr (True, s1\<lparr>stdout := MoveRight (stdout s1)\<rparr>)
              else if BeginOffset s1 = BoxLength then
                Inr (True, write_right_bbar s1)
              else
                done (print_and_display_cursor
                        (s1\<lparr>BeginIndex := BeginIndex s1 + 1, BeginOffset := BoxLength\<rparr>))
         else Inr (True, s))
      else if x = ENDKEY then
        (let textSize = int (length (Text s))
         in if BeginIndex s + BoxLength > textSize then
              (if BeginIndex s + BeginOffset s < textSize then
                 let s1 = s\<lparr>stdout := MoveRight_plain (stdout s)
                                          (textSize - BeginIndex s - BeginOffset s)\<rparr>
                 in Inr (True, s1\<lparr>BeginOffset := textSize - BeginIndex s1\<rparr>)
               else Inr (True, s))
            else if BeginIndex s + BoxLength < textSize then
              done (print_and_display_cursor
                      (s\<lparr>BeginIndex := textSize - BoxLength, BeginOffset := BoxLength\<rparr>))
            else if BeginIndex s + BoxLength = textSize then
              (if BeginOffset s < BoxLength then
                 let s1 = write_right_bbar_count s (BoxLength - BeginOffset s)
                 in Inr (True, s1\<lparr>BeginOffset := textSize - BeginIndex s1\<rparr>)
               else Inr (True, s))
            else Inr (True, s))
      else if x = INSERTKEY then
        (let s1 = s\<lparr>InsertOn := \<not> InsertOn s\<rparr>
         in if BeginOffset s1 < BoxLength then Inr (True, write_shape s1) else Inr (True, s1))
      else if x = DELETEKEY then
        (if EndIndex < int (length (Text s)) then
           done (print_and_display_cursor
                   (s\<lparr>Text := butlast (delete_shift (nat EndIndex) (Text s))\<rparr>))
         else Inr (True, s))
      else Inr (False, s))"

text \<open>
  \<^verbatim>\<open>insert(x)\<close>.  The validation at the top throws \<^verbatim>\<open>std::logic_error\<close>.  The variable
  \<^verbatim>\<open>Processed\<close> of the source is kept: the function returns \<^verbatim>\<open>Processed >= 0\<close>.
\<close>

definition insert :: "InputControl \<Rightarrow> int \<Rightarrow> error + (bool \<times> InputControl)" where
  "insert s0 x =
     (if BeginIndex s0 < 0
         \<or> BeginOffset s0 < 0
         \<or> BeginOffset s0 > num_cols (Area s0)
         \<or> BeginIndex s0 + BeginOffset s0 > int (length (Text s0))
         \<or> int (length (Text s0)) > MaxLength s0
      then Inl logic_error
      else
        case process_control_keys s0 x of
          Inl e \<Rightarrow> Inl e
        | Inr (True, s1) \<Rightarrow> Inr (True, s1)
        | Inr (False, s) \<Rightarrow>
            let OffsetIndex = BeginIndex s + BeginOffset s;
                BoxLength = box_length s;
                Processed0 = (0 :: int);
                textSize = int (length (Text s));
                finish = (\<lambda>(Processed, s'). 
                            if Processed > 0
                            then (case print_and_display_cursor s' of
                                    Inl e \<Rightarrow> Inl e
                                  | Inr s'' \<Rightarrow> Inr (Processed \<ge> 0, s''))
                            else Inr (Processed \<ge> 0, s'));
                done = (\<lambda>r. case r of Inl e \<Rightarrow> Inl e | Inr s' \<Rightarrow> Inr (True, s'))
            in
            if \<not> IsDisplayCharacter x then Inr (False, s)
            else if int (length (Text s)) < MaxLength s then
              (if OffsetIndex = int (length (Text s)) then
                 let s2 = s\<lparr>Text := Text s @ [word_of_int x]\<rparr>
                 in if BeginOffset s2 < BoxLength then
                      let s3 = (if wc s2 \<noteq> 0 then Write [wc s2] s2
                                else Write [last (Text s2)] s2);
                          s4 = s3\<lparr>BeginOffset := BeginOffset s3 + 1\<rparr>;
                          s5 = (if BeginOffset s4 = BoxLength then write_bbar_shape s4 else s4)
                      in Inr (True, s5)
                    else
                      done (print_and_display_cursor
                              (s2\<lparr>BeginIndex := BeginIndex s2 + 1, BeginOffset := BoxLength\<rparr>))
               else
                 let (Processed1, s2) =
                       (if InsertOn s then
                          (1, s\<lparr>Text := (Text s)[nat OffsetIndex := word_of_int x]\<rparr>)
                        else
                          let t1 = Text s @ [last (Text s)];
                              t2 = insert_shift (length t1 - 1) (nat OffsetIndex) t1
                          in (1, s\<lparr>Text := t2[nat OffsetIndex := word_of_int x]\<rparr>));
                     s3 = s2\<lparr>BeginOffset := BeginOffset s2 + 1\<rparr>;
                     (Processed2, s4) =
                       (if BeginOffset s3 \<ge> BoxLength
                        then (1, s3\<lparr>BeginIndex := BeginIndex s3 + (BeginOffset s3 - BoxLength),
                                      BeginOffset := BoxLength\<rparr>)
                        else (Processed1, s3))
                 in finish (Processed2, s4))
            else if InsertOn s \<and> OffsetIndex < textSize then
              (let s2 = s\<lparr>Text := (Text s)[nat OffsetIndex := word_of_int x]\<rparr>;
                   s3 = (if BeginOffset s2 < BoxLength
                         then s2\<lparr>BeginOffset := BeginOffset s2 + 1\<rparr>
                         else if BeginIndex s2 + BeginOffset s2 < MaxLength s2
                         then s2\<lparr>BeginIndex := BeginIndex s2 + 1\<rparr>
                         else s2)
               in done (print_and_display_cursor s3))
            else finish (Processed0, s))"

text \<open>
  The constructor \<^verbatim>\<open>InputControl()\<close>: default area and fields, \<^verbatim>\<open>InputColors\<close>, and a first
  \<^verbatim>\<open>format_to(Color, 0)\<close>; \<^verbatim>\<open>set_size(BoxLength, MaxTextLength)\<close> sets the width of the area
  and \<^verbatim>\<open>MaxLength\<close>.  The list of control keys the constructor fills in is not read by any
  function modelled here and is left out.
\<close>

definition InputControl_unformatted :: InputControl where
  "InputControl_unformatted =
     \<lparr>bf = [], Area = \<lparr>Top = \<lparr>Row = 1, Col = 1\<rparr>, Bottom = \<lparr>Row = 1, Col = 1\<rparr>\<rparr>,
      Color = InputColors, stdout = [],
      InsertOn = False, BeginIndex = 0, BeginOffset = 0, MaxLength = 0, Text = [], wc = 0\<rparr>"

definition InputControl_new :: "error + InputControl" where
  "InputControl_new = format_to InputControl_unformatted (Color InputControl_unformatted) 0"

definition InputControl_set_size :: "InputControl \<Rightarrow> int \<Rightarrow> int \<Rightarrow> InputControl" where
  "InputControl_set_size s BoxLength MaxTextLength =
     s\<lparr>Area := set_size (Area s) 1 BoxLength, MaxLength := MaxTextLength\<rparr>"

text \<open>
  The key loop of \<^verbatim>\<open>get\<close> without the two terminating keys: every key read is passed to
  \<^verbatim>\<open>insert\<close> and the result of \<^verbatim>\<open>insert\<close> is ignored.
\<close>

fun insert_keys :: "InputControl \<Rightarrow> int list \<Rightarrow> error + InputControl" where
  "insert_keys s [] = Inr s"
| "insert_keys s (x # xs) =
     (case insert s x of Inl e \<Rightarrow> Inl e | Inr (ok, s') \<Rightarrow> insert_keys s' xs)"

text \<open>
  The text-edit invariant that the validation at the top of \<^verbatim>\<open>insert\<close> checks.
\<close>

definition valid_state :: "InputControl \<Rightarrow> bool" where
  "valid_state s \<longleftrightarrow>
     BeginIndex s \<ge> 0 \<and> 0 \<le> BeginOffset s \<and> BeginOffset s \<le> num_cols (Area s)
     \<and> BeginIndex s + BeginOffset s \<le> int (length (Text s))
     \<and> int (length (Text s)) \<le> MaxLength s"

text \<open>
  The fixed-width field content that \<^verbatim>\<open>format_to\<close> produces when the state is valid, and the
  state \<^verbatim>\<open>print_and_display_cursor\<close> leaves then.
\<close>

definition visible_window :: "InputControl \<Rightarrow> wchar_t \<Rightarrow> wstring" where
  "visible_window s ch =
     (let BoxLength = num_cols (Area s);
          RemLength = min (int (length (Text s)) - BeginIndex s) BoxLength
      in (if ch \<noteq> 0 then replicate (nat RemLength) ch
          else take (nat RemLength) (drop (nat (BeginIndex s)) (Text s)))
         @ replicate (nat (BoxLength - RemLength)) (of_char CHR '' ''))"

definition rendered :: "InputControl \<Rightarrow> InputControl" where
  "rendered s =
     display_cursor
       (Write (coord_apply (color_apply (Color s) (SetHide [])) (Top (Area s)) @ visible_window s (wc s))
          (s\<lparr>bf := coord_apply (color_apply (Color s) (SetHide [])) (Top (Area s))
                    @ visible_window s (wc s)\<rparr>))"

text \<open>
  Two concrete fields: a field of width five holding \<^verbatim>\<open>"AB"\<close> with \<^verbatim>\<open>MaxLength = 2\<close> and
  the cursor on \<^verbatim>\<open>B\<close>, and the field a default-constructed control becomes after
  \<^verbatim>\<open>set_size(5, 10)\<close>.
\<close>

definition full_field :: InputControl where
  "full_field =
     InputControl_unformatted
       \<lparr>Area := \<lparr>Top = \<lparr>Row = 1, Col = 1\<rparr>, Bottom = \<lparr>Row = 1, Col = 5\<rparr>\<rparr>,
        MaxLength := 2, Text := wstr ''AB'', BeginOffset := 1\<rparr>"

definition field_5_10 :: InputControl where
  "field_5_10 = InputControl_set_size (projr InputControl_new) 5 10"

section \<open>std::wstring operations that can throw\<close>

text \<open>
  \<^verbatim>\<open>basic_string::replace(pos, count, str)\<close> throws \<^verbatim>\<open>std::out_of_range\<close> when \<^verbatim>\<open>pos\<close>
  exceeds the size and otherwise replaces the characters
  \<^verbatim>\<open>[pos, pos + min(count, size - pos))\<close> by \<^verbatim>\<open>str\<close>.  The position arrives as an \<^verbatim>\<open>int\<close>
  converted to \<^verbatim>\<open>size_t\<close>, so a negative position exceeds every size.
\<close>

definition wstring_replace :: "wstring \<Rightarrow> int \<Rightarrow> nat \<Rightarrow> wstring \<Rightarrow> error + wstring" where
  "wstring_replace t pos count str =
     (if pos < 0 \<or> pos > int (length t) then Inl out_of_range
      else Inr (take (nat pos) t @ str @ drop (nat pos + min count (length t - nat pos)) t))"

text \<open>
  \<^verbatim>\<open>basic_string_view::substr(pos, n)\<close> throws \<^verbatim>\<open>std::out_of_range\<close> when \<^verbatim>\<open>pos\<close> exceeds
  the size and otherwise returns \<^verbatim>\<open>min(n, size - pos)\<close> characters from \<^verbatim>\<open>pos\<close>; a
  negative \<^verbatim>\<open>int\<close> passed as \<^verbatim>\<open>n\<close> becomes a count larger than every size.
\<close>

definition wstring_substr :: "wstring \<Rightarrow> int \<Rightarrow> int \<Rightarrow> error + wstring" where
  "wstring_substr t pos n =
     (if pos < 0 \<or> pos > int (length t) then Inl out_of_range
      else Inr (if n < 0 then drop (nat pos) t else take (nat n) (drop (nat pos) t)))"

text \<open>Sequencing of calls that can fail: the first failure ends the sequence.\<close>

definition and_then :: "error + 'a \<Rightarrow> ('a \<Rightarrow> error + 'b) \<Rightarrow> error + 'b" where
  "and_then m f = (case m of Inl e \<Rightarrow> Inl e | Inr x \<Rightarrow> f x)"

section \<open>DirectoryDisplayBox.h: class DirectoryDisplayBox\<close>

record DirectoryDisplayBox = BasicBox +
  NameContainer :: wstring
  NameColumns :: "name_column list"
  LeftColumnSize :: int
  RightColumnSize :: int
  FocusColor :: color
  SelectColor :: color
  SelectFocusColor :: color
  vScroll :: BasicScrollBar
  hScroll :: BasicScrollBar
  TopIndex :: int
  FocusIndex :: int
  offsetColumn1 :: int
  offsetLeftSign :: int
  offsetColumn2 :: int
  offsetRightSign :: int
  TextLineLength :: int
  NumIndexes :: int
  CommInit :: wstring
  CommFocus :: wstring
  CommSelect :: wstring
  CommBoth :: wstring
  CommReturn :: wstring
  TempBuffer :: wstring

text \<open>
  \<^verbatim>\<open>initialize()\<close>, block by block as the source comments divide it.  First the width of
  the right column and the color schemes.
\<close>

definition initialize_colors :: "DirectoryDisplayBox \<Rightarrow> DirectoryDisplayBox" where
  "initialize_colors s =
     s\<lparr>RightColumnSize := num_cols (Area s) - LeftColumnSize s - 3,
       Color := ListColors, FocusColor := ListFocusColors,
       SelectColor := ListSelectColors, SelectFocusColor := ListSelectFocusColors\<rparr>"

text \<open>
  The four color markers: each color scheme is applied to an empty string, and every marker
  shorter than the longest is padded with null characters
  (\<^verbatim>\<open>if (c.size() < n) { c.append(n - c.size(), 0); }\<close>).
\<close>

definition pad_to :: "nat \<Rightarrow> wstring \<Rightarrow> wstring" where
  "pad_to n c = (if length c < n then c @ replicate (n - length c) 0 else c)"

definition initialize_markers :: "DirectoryDisplayBox \<Rightarrow> DirectoryDisplayBox" where
  "initialize_markers s =
     (let CommInit0 = color_apply (Color s) [];
          CommFocus0 = color_apply (FocusColor s) [];
          CommSelect0 = color_apply (SelectColor s) [];
          CommBoth0 = color_apply (SelectFocusColor s) [];
          ColorLength = max (max (max (length CommInit0) (length CommBoth0)) (length CommFocus0))
                            (length CommSelect0)
      in s\<lparr>CommInit := pad_to ColorLength CommInit0,
            CommBoth := pad_to ColorLength CommBoth0,
            CommFocus := pad_to ColorLength CommFocus0,
            CommSelect := pad_to ColorLength CommSelect0\<rparr>)"

text \<open>The position buffer and the sequence that returns to the start of the next line.\<close>

definition initialize_moves :: "DirectoryDisplayBox \<Rightarrow> DirectoryDisplayBox" where
  "initialize_moves s =
     (let TempBuffer0 = SetPos [] 1 1;
          CommReturn0 = MoveDown (MoveLeft_count [] (LeftColumnSize s + RightColumnSize s + 2));
          MoveLength = max (length TempBuffer0) (length CommReturn0)
      in s\<lparr>TempBuffer := pad_to MoveLength TempBuffer0,
            CommReturn := pad_to MoveLength CommReturn0\<rparr>)"

text \<open>The two scrollbars.\<close>

definition initialize_scrollbars :: "DirectoryDisplayBox \<Rightarrow> DirectoryDisplayBox" where
  "initialize_scrollbars s =
     s\<lparr>hScroll := (hScroll s)
          \<lparr>TopLeft := bottom_left (Area s), BackRGB := color.B (Color s),
           ScrollColors := blend (Color s) 20, BarLength := RightColumnSize s - 1,
           PreLength := LeftColumnSize s + 1, PostLength := 1\<rparr>,
       vScroll := (vScroll s)
          \<lparr>PostLength := 0, PreLength := 0, BackRGB := color.B (Color s),
           ScrollColors := blend (Color s) 20, BarLength := num_rows (Area s) - 1,
           TopLeft := top_right (Area s)\<rparr>\<rparr>"

text \<open>
  The template of one text line is assembled in \<^verbatim>\<open>bf\<close> to record the offsets and
  \<^verbatim>\<open>TextLineLength\<close>, and \<^verbatim>\<open>bf\<close> is cleared again.  \<^verbatim>\<open>bf.append(n, ' ')\<close> with a negative
  \<^verbatim>\<open>int\<close> as \<^verbatim>\<open>n\<close> asks for more characters than a string can hold and throws
  \<^verbatim>\<open>std::length_error\<close>.
\<close>

definition initialize_template :: "DirectoryDisplayBox \<Rightarrow> error + DirectoryDisplayBox" where
  "initialize_template s =
     (if LeftColumnSize s < 0 then Inl length_error
      else if RightColumnSize s < 0 then Inl length_error
      else
        let bf1 = CommInit s @ replicate (nat (LeftColumnSize s)) (of_char CHR '' '');
            bf2 = bf1 @ LLQUOTE;
            bf3 = bf2 @ replicate (nat (RightColumnSize s)) (of_char CHR '' '');
            bf4 = (bf3 @ RRQUOTE) @ CommReturn s
        in Inr (s\<lparr>offsetLeftSign := int (length bf1), offsetColumn2 := int (length bf2),
                  offsetRightSign := int (length bf3), TextLineLength := int (length bf4),
                  bf := []\<rparr>))"

definition initialize :: "DirectoryDisplayBox \<Rightarrow> error + DirectoryDisplayBox" where
  "initialize s0 =
     initialize_template
       ((initialize_scrollbars (initialize_moves (initialize_markers (initialize_colors s0))))
          \<lparr>NameContainer := [], bf := []\<rparr>)"

text \<open>
  \<^verbatim>\<open>add_item(sv)\<close> appends one text line to \<^verbatim>\<open>bf\<close>.  It throws \<^verbatim>\<open>std::bad_alloc\<close> before
  \<^verbatim>\<open>initialize\<close>; both of its branches take \<^verbatim>\<open>sv.substr(LeftColumnSize, ...)\<close>, which throws
  \<^verbatim>\<open>std::out_of_range\<close> when the item is shorter than the left column (or the column size
  is negative); a negative \<^verbatim>\<open>ColumnSizes\<close> converted to \<^verbatim>\<open>size_t\<close> exceeds every size.
\<close>

definition add_item :: "DirectoryDisplayBox \<Rightarrow> wstring \<Rightarrow> error + DirectoryDisplayBox" where
  "add_item s sv =
     (if CommReturn s = [] then Inl bad_alloc
      else
        let ColumnSizes = LeftColumnSize s + RightColumnSize s;
            n = int (length sv);
            col = \<lparr>FirstIndex = LeftColumnSize s,
                   name_column.BeginOffset = int (length (NameContainer s)),
                   EndOffset = 0, Selected = False\<rparr>;
            head = (if LeftColumnSize s < 0 then sv else take (nat (LeftColumnSize s)) sv);
            bf1 = (bf s @ CommInit s @ head) @ [of_char CHR '' ''];
            finish = (\<lambda>(b, nc).
                        Inr (s\<lparr>NumIndexes := NumIndexes s + 1,
                               NameColumns := NameColumns s @ [col\<lparr>EndOffset := int (length nc)\<rparr>],
                               NameContainer := nc,
                               bf := b @ CommReturn s\<rparr>))
        in if LeftColumnSize s < 0 \<or> LeftColumnSize s > n then Inl out_of_range
           else if ColumnSizes < 0 \<or> n \<le> ColumnSizes then
             (let bf2 = bf1 @ drop (nat (LeftColumnSize s)) sv
              in if ColumnSizes < 0 then Inl length_error
                 else
                   let bf3 = (if n < ColumnSizes
                              then bf2 @ replicate (nat (ColumnSizes - n)) (of_char CHR '' '')
                              else bf2)
                   in finish (bf3 @ [of_char CHR '' ''], NameContainer s))
           else
             (let bf2 = bf1 @ (if RightColumnSize s < 0 then drop (nat (LeftColumnSize s)) sv
                               else take (nat (RightColumnSize s)) (drop (nat (LeftColumnSize s)) sv));
                  nc = NameContainer s @ drop (nat (LeftColumnSize s)) sv
              in finish (bf2 @ RRQUOTE, nc)))"

text \<open>
  \<^verbatim>\<open>create()\<close>: reset the view, fill the lines up to the height of the list with empty items,
  and mark the first line as focused when there is an item.
\<close>

definition create_line :: "DirectoryDisplayBox \<Rightarrow> DirectoryDisplayBox" where
  "create_line s =
     s\<lparr>NameColumns := NameColumns s @
          [\<lparr>FirstIndex = LeftColumnSize s,
            name_column.BeginOffset = int (length (NameContainer s)),
            EndOffset = int (length (NameContainer s)), Selected = False\<rparr>],
       bf := bf s @ CommInit s
             @ replicate (nat (LeftColumnSize s + RightColumnSize s + 2)) (of_char CHR '' '')
             @ CommReturn s\<rparr>"

definition create :: "DirectoryDisplayBox \<Rightarrow> error + DirectoryDisplayBox" where
  "create s0 =
     (let s1 = s0\<lparr>TopIndex := 0, FocusIndex := 0\<rparr>;
          NumLines = num_rows (Area s1) - 1
      in if NumIndexes s1 < NumLines \<and> LeftColumnSize s1 + RightColumnSize s1 + 2 < 0
         then Inl length_error
         else
           let s2 = (create_line ^^ nat (NumLines - NumIndexes s1)) s1
           in if NumIndexes s2 > 0
              then and_then (wstring_replace (bf s2) 0 (length (CommFocus s2)) (CommFocus s2))
                     (\<lambda>b. Inr (s2\<lparr>bf := b\<rparr>))
              else Inr s2)"

text \<open>
  Fragments that every navigation operation repeats.  \<^verbatim>\<open>NameColumns[i]\<close> is an unchecked
  vector access; \<^verbatim>\<open>bf.replace(i * TextLineLength, Comm.size(), Comm)\<close> writes a color marker
  at the start of line \<open>i\<close>; the focused line loses its focus marker (\<^verbatim>\<open>CommSelect\<close> when
  selected, else \<^verbatim>\<open>CommInit\<close>) or gets it (\<^verbatim>\<open>CommBoth\<close> when selected, else
  \<^verbatim>\<open>CommFocus\<close>); a range of lines of \<^verbatim>\<open>bf\<close> is written to the terminal.
\<close>

definition column :: "DirectoryDisplayBox \<Rightarrow> int \<Rightarrow> error + name_column" where
  "column s i =
     (if 0 \<le> i \<and> i < int (length (NameColumns s)) then Inr (NameColumns s ! nat i)
      else Inl undefined_behaviour)"

definition write_marker :: "DirectoryDisplayBox \<Rightarrow> int \<Rightarrow> wstring \<Rightarrow> error + DirectoryDisplayBox" where
  "write_marker s i Comm =
     and_then (wstring_replace (bf s) (i * TextLineLength s) (length Comm) Comm)
       (\<lambda>b. Inr (s\<lparr>bf := b\<rparr>))"

definition unmark_focus :: "DirectoryDisplayBox \<Rightarrow> error + DirectoryDisplayBox" where
  "unmark_focus s =
     and_then (column s (FocusIndex s))
       (\<lambda>col. if Selected col then write_marker s (FocusIndex s) (CommSelect s)
               else write_marker s (FocusIndex s) (CommInit s))"

definition mark_focus :: "DirectoryDisplayBox \<Rightarrow> error + DirectoryDisplayBox" where
  "mark_focus s =
     and_then (column s (FocusIndex s))
       (\<lambda>col. if Selected col then write_marker s (FocusIndex s) (CommBoth s)
               else write_marker s (FocusIndex s) (CommFocus s))"

definition write_lines :: "DirectoryDisplayBox \<Rightarrow> int \<Rightarrow> int \<Rightarrow> error + DirectoryDisplayBox" where
  "write_lines s first count =
     and_then (wstring_substr (bf s) (TextLineLength s * first) (TextLineLength s * count))
       (\<lambda>sv. Inr (Write sv s))"

text \<open>
  The guarded redraw of the horizontal scrollbar:
  \<^verbatim>\<open>if (NameColumns[i].size() || NameColumns[j].size())\<close>
  \<^verbatim>\<open>hScroll.draw(TempBuffer, NameColumns[j].FirstIndex - LeftColumnSize, NameColumns[j].size());\<close>
\<close>

definition hScroll_if_sized :: "DirectoryDisplayBox \<Rightarrow> int \<Rightarrow> int \<Rightarrow> error + DirectoryDisplayBox" where
  "hScroll_if_sized s i j =
     and_then (column s i) (\<lambda>ci.
       and_then (if name_column_size ci \<noteq> 0 then Inr True
                 else and_then (column s j) (\<lambda>cj. Inr (name_column_size cj \<noteq> 0)))
         (\<lambda>sized.
            if sized then
              and_then (column s j) (\<lambda>cj.
                and_then (HorizontalScrollBar_draw (hScroll s) (TempBuffer s)
                            (FirstIndex cj - LeftColumnSize s) (name_column_size cj))
                  (\<lambda>t. Inr (s\<lparr>TempBuffer := t\<rparr>)))
            else Inr s))"

text \<open>The unguarded redraws of both scrollbars in the scrolling branches of the paging.\<close>

definition draw_scrollbars :: "DirectoryDisplayBox \<Rightarrow> error + DirectoryDisplayBox" where
  "draw_scrollbars s =
     and_then (VerticalScrollBar_draw (vScroll s) (TempBuffer s) (TopIndex s) (NumIndexes s))
       (\<lambda>t1. and_then (column s (FocusIndex s))
          (\<lambda>col. and_then (HorizontalScrollBar_draw (hScroll s) t1
                             (FirstIndex col - LeftColumnSize s) (name_column_size col))
             (\<lambda>t2. Inr (s\<lparr>TempBuffer := t2\<rparr>))))"

text \<open>
  \<^verbatim>\<open>c.apply(TempBuffer); mz::Write(TempBuffer);\<close> for a coordinate \<open>c\<close>, which is
  \<^verbatim>\<open>Area.Top\<close> or \<^verbatim>\<open>Area.Top.offset(d, 0)\<close>.
\<close>

definition position_and_write :: "DirectoryDisplayBox \<Rightarrow> coord \<Rightarrow> DirectoryDisplayBox" where
  "position_and_write s c =
     (let s1 = s\<lparr>TempBuffer := coord_apply (TempBuffer s) c\<rparr>
      in Write (TempBuffer s1) s1)"

text \<open>\<^verbatim>\<open>swap_select()\<close>: toggle the selection of the focused item and redraw its line.\<close>

definition swap_select :: "DirectoryDisplayBox \<Rightarrow> error + (bool \<times> DirectoryDisplayBox)" where
  "swap_select s =
     and_then (column s (FocusIndex s)) (\<lambda>col.
       let s1 = s\<lparr>NameColumns := (NameColumns s)[nat (FocusIndex s) := col\<lparr>Selected := \<not> Selected col\<rparr>]\<rparr>
       in and_then (mark_focus s1) (\<lambda>s2.
            let s3 = position_and_write (s2\<lparr>TempBuffer := []\<rparr>)
                       (offset (Top (Area s2)) (FocusIndex s2 - TopIndex s2) 0)
            in and_then (write_lines s3 (FocusIndex s3) 1) (\<lambda>s4.
                 and_then (column s4 (FocusIndex s4)) (\<lambda>col'. Inr (Selected col', s4)))))"

text \<open>
  \<^verbatim>\<open>page_up()\<close>.  The pause \<^verbatim>\<open>sleep_for\<close> at the boundary changes no state and is not
  modelled.
\<close>

definition page_up :: "DirectoryDisplayBox \<Rightarrow> error + (int \<times> DirectoryDisplayBox)" where
  "page_up s =
     (if NumIndexes s = 0 then Inr (- 1, s)
      else
        let NumPrintIndex = min (num_rows (Area s) - 1) (NumIndexes s)
        in if FocusIndex s > TopIndex s then
             and_then (hScroll_if_sized (s\<lparr>TempBuffer := []\<rparr>) (FocusIndex s) (TopIndex s)) (\<lambda>s1.
             and_then (unmark_focus s1) (\<lambda>s2.
             and_then (write_lines (position_and_write s2
                            (offset (Top (Area s2)) (FocusIndex s2 - TopIndex s2) 0))
                         (FocusIndex s2) 1) (\<lambda>s3.
             and_then (mark_focus (s3\<lparr>FocusIndex := TopIndex s3\<rparr>)) (\<lambda>s4.
             and_then (write_lines (position_and_write (s4\<lparr>TempBuffer := []\<rparr>) (Top (Area s4)))
                         (FocusIndex s4) 1) (\<lambda>s5.
               Inr (FocusIndex s5, s5))))))
           else if TopIndex s > 0 then
             and_then (unmark_focus s) (\<lambda>s1.
               let s2 = s1\<lparr>TopIndex := TopIndex s1 - (num_rows (Area s1) - 1)\<rparr>;
                   s3 = s2\<lparr>TopIndex := max 0 (TopIndex s2)\<rparr>;
                   s4 = s3\<lparr>FocusIndex := TopIndex s3\<rparr>
               in and_then (mark_focus s4) (\<lambda>s5.
                  and_then (draw_scrollbars (s5\<lparr>TempBuffer := []\<rparr>)) (\<lambda>s6.
                  and_then (write_lines (position_and_write s6 (Top (Area s6))) (TopIndex s6) NumPrintIndex) (\<lambda>s7.
                    Inr (FocusIndex s7, s7)))))
           else Inr (FocusIndex s, s))"

text \<open>\<^verbatim>\<open>page_down()\<close>.\<close>

definition page_down :: "DirectoryDisplayBox \<Rightarrow> error + (int \<times> DirectoryDisplayBox)" where
  "page_down s =
     (if NumIndexes s = 0 then Inr (- 1, s)
      else
        let NumPrintIndex0 = min (num_rows (Area s) - 1) (NumIndexes s);
            BottomIndex0 = TopIndex s + num_rows (Area s) - 2;
            BottomIndex = min BottomIndex0 (NumIndexes s - 1)
        in if FocusIndex s < BottomIndex then
             and_then (hScroll_if_sized (s\<lparr>TempBuffer := []\<rparr>) (FocusIndex s) BottomIndex) (\<lambda>s1.
             and_then (unmark_focus s1) (\<lambda>s2.
             and_then (write_lines (position_and_write s2
                            (offset (Top (Area s2)) (FocusIndex s2 - TopIndex s2) 0))
                         (FocusIndex s2) 1) (\<lambda>s3.
             and_then (mark_focus (s3\<lparr>FocusIndex := BottomIndex\<rparr>)) (\<lambda>s4.
             and_then (write_lines
                         (position_and_write (s4\<lparr>TempBuffer := []\<rparr>)
                            (offset (Top (Area s4)) (BottomIndex - TopIndex s4) 0))
                         (FocusIndex s4) 1) (\<lambda>s5.
               Inr (FocusIndex s5, s5))))))
           else if BottomIndex < NumIndexes s - 1 then
             and_then (unmark_focus s) (\<lambda>s1.
               let BottomIndex1 = BottomIndex + (num_rows (Area s1) - 2);
                   BottomIndex2 = min BottomIndex1 (NumIndexes s1 - 1);
                   s2 = s1\<lparr>FocusIndex := BottomIndex2\<rparr>
               in and_then (mark_focus s2) (\<lambda>s3.
                    let s4 = s3\<lparr>TopIndex := BottomIndex2 - (num_rows (Area s3) - 2)\<rparr>;
                        s5 = s4\<lparr>TopIndex := max 0 (TopIndex s4)\<rparr>;
                        NumPrintIndex = BottomIndex2 - TopIndex s5 + 1
                    in and_then (draw_scrollbars (s5\<lparr>TempBuffer := []\<rparr>)) (\<lambda>s6.
                       and_then (write_lines (position_and_write s6 (Top (Area s6))) (TopIndex s6) NumPrintIndex)
                         (\<lambda>s7. Inr (FocusIndex s7, s7)))))
           else Inr (FocusIndex s, s))"

text \<open>\<^verbatim>\<open>move_up()\<close>.\<close>

definition move_up :: "DirectoryDisplayBox \<Rightarrow> error + (int \<times> DirectoryDisplayBox)" where
  "move_up s =
     (if NumIndexes s = 0 then Inr (- 1, s)
      else
        let NumPrintIndex0 = (2 :: int)
        in if FocusIndex s > 0 then
             and_then (unmark_focus s) (\<lambda>s1.
             and_then (mark_focus (s1\<lparr>FocusIndex := FocusIndex s1 - 1\<rparr>)) (\<lambda>s2.
               let s3 = s2\<lparr>TempBuffer := []\<rparr>
               in and_then
                    (if TopIndex s3 > FocusIndex s3
                     then let s4 = s3\<lparr>TopIndex := FocusIndex s3\<rparr>
                          in and_then (VerticalScrollBar_draw (vScroll s4) (TempBuffer s4)
                                         (TopIndex s4) (NumIndexes s4))
                               (\<lambda>t. Inr (num_rows (Area s4) - 1, s4\<lparr>TempBuffer := t\<rparr>))
                     else Inr (NumPrintIndex0, s3))
                    (\<lambda>(NumPrintIndex, s5).
                       and_then (hScroll_if_sized s5 (FocusIndex s5 + 1) (FocusIndex s5)) (\<lambda>s6.
                       and_then (write_lines (position_and_write s6
                                      (offset (Top (Area s6)) (FocusIndex s6 - TopIndex s6) 0))
                                   (FocusIndex s6) NumPrintIndex) (\<lambda>s7.
                         Inr (FocusIndex s7, s7))))))
           else Inr (FocusIndex s, s))"

text \<open>\<^verbatim>\<open>move_down()\<close>; unlike its siblings it has no test for an empty list.\<close>

definition move_down :: "DirectoryDisplayBox \<Rightarrow> error + (int \<times> DirectoryDisplayBox)" where
  "move_down s =
     (let NumPrintIndex0 = (2 :: int);
          TopPrintIndex0 = FocusIndex s
      in if FocusIndex s + 1 < NumIndexes s then
           and_then (unmark_focus s) (\<lambda>s1.
           and_then (mark_focus (s1\<lparr>FocusIndex := FocusIndex s1 + 1\<rparr>)) (\<lambda>s2.
             let s3 = s2\<lparr>TempBuffer := []\<rparr>
             in and_then
                  (if FocusIndex s3 - TopIndex s3 \<ge> num_rows (Area s3) - 1
                   then let s4 = s3\<lparr>TopIndex := TopIndex s3 + 1\<rparr>
                        in and_then (VerticalScrollBar_draw (vScroll s4) (TempBuffer s4)
                                       (TopIndex s4) (NumIndexes s4))
                             (\<lambda>t. Inr (TopIndex s4, num_rows (Area s4) - 1, s4\<lparr>TempBuffer := t\<rparr>))
                   else Inr (TopPrintIndex0, NumPrintIndex0, s3))
                  (\<lambda>(TopPrintIndex, NumPrintIndex, s5).
                     and_then (hScroll_if_sized s5 (FocusIndex s5 - 1) (FocusIndex s5)) (\<lambda>s6.
                     and_then (write_lines (position_and_write s6
                                    (offset (Top (Area s6)) (TopPrintIndex - TopIndex s6) 0))
                                 TopPrintIndex NumPrintIndex) (\<lambda>s7.
                       Inr (FocusIndex s7, s7))))))
         else Inr (FocusIndex s, s))"

section \<open>Specification vocabulary for the directory list\<close>

text \<open>
  What \<^verbatim>\<open>bf.replace(p, m.size(), m)\<close> leaves when the \<open>length m\<close> characters from \<open>p\<close>
  exist: the characters before \<open>p\<close>, then \<open>m\<close>, then the characters after the replaced ones.
\<close>

definition patch :: "wstring \<Rightarrow> nat \<Rightarrow> wstring \<Rightarrow> wstring" where
  "patch t p m = take p t @ m @ drop (p + length m) t"

text \<open>
  Consistency of the line buffer with the layout: the four markers have one length, a marker
  fits into a text line, and every item has its \<^verbatim>\<open>name_column\<close> and its line in \<^verbatim>\<open>bf\<close>.  A box
  is wide enough when, in addition, the length of its horizontal scrollbar is not negative.
\<close>

definition dbox_buf :: "DirectoryDisplayBox \<Rightarrow> bool" where
  "dbox_buf s \<longleftrightarrow>
     0 \<le> TextLineLength s
     \<and> length (CommInit s) = length (CommFocus s)
     \<and> length (CommFocus s) = length (CommSelect s)
     \<and> length (CommSelect s) = length (CommBoth s)
     \<and> int (length (CommInit s)) \<le> TextLineLength s
     \<and> NumIndexes s \<le> int (length (NameColumns s))
     \<and> TextLineLength s * NumIndexes s \<le> int (length (bf s))"

definition dbox_wf :: "DirectoryDisplayBox \<Rightarrow> bool" where
  "dbox_wf s \<longleftrightarrow> dbox_buf s \<and> 0 \<le> BarLength (hScroll s)"

text \<open>The viewport invariant: \<open>0 \<le> TopIndex \<le> FocusIndex < NumIndexes\<close> and
  \<open>FocusIndex - TopIndex < Area.num_rows() - 1\<close>.\<close>

definition viewport_inv :: "DirectoryDisplayBox \<Rightarrow> bool" where
  "viewport_inv s \<longleftrightarrow>
     0 \<le> TopIndex s \<and> TopIndex s \<le> FocusIndex s \<and> FocusIndex s < NumIndexes s
     \<and> FocusIndex s - TopIndex s < num_rows (Area s) - 1"

text \<open>
  Two states with the same layout: the same area, items, line length, markers and scrollbars,
  and a line buffer of the same length.  A rendering step keeps the layout and both indexes.
\<close>

definition same_layout :: "DirectoryDisplayBox \<Rightarrow> DirectoryDisplayBox \<Rightarrow> bool" where
  "same_layout s s' \<longleftrightarrow>
     Area s' = Area s \<and> NumIndexes s' = NumIndexes s \<and> NameColumns s' = NameColumns s
     \<and> TextLineLength s' = TextLineLength s
     \<and> CommInit s' = CommInit s \<and> CommFocus s' = CommFocus s
     \<and> CommSelect s' = CommSelect s \<and> CommBoth s' = CommBoth s
     \<and> hScroll s' = hScroll s \<and> vScroll s' = vScroll s
     \<and> LeftColumnSize s' = LeftColumnSize s
     \<and> length (bf s') = length (bf s)"

definition render_step :: "DirectoryDisplayBox \<Rightarrow> DirectoryDisplayBox \<Rightarrow> bool" where
  "render_step s s' \<longleftrightarrow>
     same_layout s s' \<and> TopIndex s' = TopIndex s \<and> FocusIndex s' = FocusIndex s"

text \<open>The state \<open>s\<close> has the layout of \<open>s0\<close> and the given \<^verbatim>\<open>TopIndex\<close> and \<^verbatim>\<open>FocusIndex\<close>.\<close>

definition tracks :: "DirectoryDisplayBox \<Rightarrow> int \<Rightarrow> int \<Rightarrow> DirectoryDisplayBox \<Rightarrow> bool" where
  "tracks s0 tp fc s \<longleftrightarrow> same_layout s0 s \<and> TopIndex s = tp \<and> FocusIndex s = fc"

text \<open>
  The outcome of a navigation operation called in state \<open>s\<close>: it returns, the layout is the
  one of \<open>s\<close> (in particular \<^verbatim>\<open>NumIndexes\<close> and \<^verbatim>\<open>Area\<close>), and the viewport invariant holds.
\<close>

definition keeps_viewport ::
  "DirectoryDisplayBox \<Rightarrow> error + (int \<times> DirectoryDisplayBox) \<Rightarrow> bool" where
  "keeps_viewport s res =
     (case res of Inl e \<Rightarrow> False
      | Inr (n, s') \<Rightarrow> same_layout s s' \<and> viewport_inv s')"

text \<open>
  The part of the state that the viewport invariant reads, and the outcome of a navigation
  operation that is required whenever the call returns: \<^verbatim>\<open>NumIndexes\<close> and \<^verbatim>\<open>Area\<close> are
  unchanged and the invariant holds.
\<close>

definition view :: "DirectoryDisplayBox \<Rightarrow> coord_box \<times> int \<times> int \<times> int" where
  "view s = (Area s, NumIndexes s, TopIndex s, FocusIndex s)"

definition viewport_after ::
  "DirectoryDisplayBox \<Rightarrow> error + (int \<times> DirectoryDisplayBox) \<Rightarrow> bool" where
  "viewport_after s res =
     (case res of Inl e \<Rightarrow> True
      | Inr (n, s') \<Rightarrow> NumIndexes s' = NumIndexes s \<and> Area s' = Area s \<and> viewport_inv s')"

text \<open>
  The state after \<^verbatim>\<open>initialize\<close> that \<^verbatim>\<open>add_item\<close> and \<^verbatim>\<open>create\<close> rely on, and the line buffer
  and item list filled with \<open>n\<close> lines.
\<close>

definition laid_out :: "DirectoryDisplayBox \<Rightarrow> bool" where
  "laid_out s \<longleftrightarrow>
     length (CommInit s) = length (CommFocus s)
     \<and> length (CommFocus s) = length (CommSelect s)
     \<and> length (CommSelect s) = length (CommBoth s)
     \<and> TextLineLength s = int (length (CommInit s)) + LeftColumnSize s + RightColumnSize s + 2
                            + int (length (CommReturn s))
     \<and> 0 \<le> LeftColumnSize s \<and> 0 \<le> RightColumnSize s"

definition filled :: "DirectoryDisplayBox \<Rightarrow> int \<Rightarrow> bool" where
  "filled s n \<longleftrightarrow>
     int (length (bf s)) = TextLineLength s * n \<and> int (length (NameColumns s)) = n
     \<and> 0 \<le> NumIndexes s \<and> NumIndexes s \<le> n"

text \<open>
  A list box as \<^verbatim>\<open>DirectoryDisplayBox(coord_box displayArea)\<close> constructs it, for an area of
  11 rows and 50 columns: every member has its default member initializer (a color is white
  on black), and the members of the scrollbars that have none are zero and black;
  \<^verbatim>\<open>initialize\<close> assigns all of them.  Then the box after \<^verbatim>\<open>initialize\<close>, and that box holding 30
  unselected items, each with a blank text line, with the first line on top and the focus on
  the sixth.
\<close>

definition dbox_fresh :: DirectoryDisplayBox where
  "dbox_fresh =
     \<lparr>bf = [], Area = \<lparr>Top = \<lparr>Row = 1, Col = 1\<rparr>, Bottom = \<lparr>Row = 11, Col = 50\<rparr>\<rparr>,
      Color = \<lparr>color.F = WHITE, color.B = BLACK\<rparr>, stdout = [],
      NameContainer = [], NameColumns = [], LeftColumnSize = 14, RightColumnSize = 0,
      FocusColor = \<lparr>color.F = WHITE, color.B = BLACK\<rparr>,
      SelectColor = \<lparr>color.F = WHITE, color.B = BLACK\<rparr>,
      SelectFocusColor = \<lparr>color.F = WHITE, color.B = BLACK\<rparr>,
      vScroll = \<lparr>BarLength = 0, PreLength = 0, PostLength = 0, BackRGB = BLACK,
                 TopLeft = \<lparr>Row = 0, Col = 0\<rparr>,
                 ScrollColors = \<lparr>color.F = WHITE, color.B = BLACK\<rparr>\<rparr>,
      hScroll = \<lparr>BarLength = 0, PreLength = 0, PostLength = 0, BackRGB = BLACK,
                 TopLeft = \<lparr>Row = 0, Col = 0\<rparr>,
                 ScrollColors = \<lparr>color.F = WHITE, color.B = BLACK\<rparr>\<rparr>,
      TopIndex = 0, FocusIndex = 0, offsetColumn1 = 0, offsetLeftSign = 0, offsetColumn2 = 0,
      offsetRightSign = 0, TextLineLength = 0, NumIndexes = 0,
      CommInit = [], CommFocus = [], CommSelect = [], CommBoth = [], CommReturn = [],
      TempBuffer = []\<rparr>"

definition dbox_init :: DirectoryDisplayBox where
  "dbox_init = projr (initialize dbox_fresh)"

definition blank_lines :: "DirectoryDisplayBox \<Rightarrow> nat \<Rightarrow> wstring" where
  "blank_lines s n = replicate (nat (TextLineLength s) * n) (of_char CHR '' '')"

definition dbox30 :: DirectoryDisplayBox where
  "dbox30 =
     dbox_init\<lparr>bf := blank_lines dbox_init 30,
       NameColumns := replicate 30 \<lparr>FirstIndex = 14, name_column.BeginOffset = 0,
                                     EndOffset = 0, Selected = False\<rparr>,
       NumIndexes := 30, TopIndex := 0, FocusIndex := 5\<rparr>"

text \<open>
  Two list boxes over areas of 17 columns, the narrowest for which \<^verbatim>\<open>initialize\<close> succeeds
  with the default \<^verbatim>\<open>LeftColumnSize\<close> of 14.  The first has 3 rows and is built by
  \<^verbatim>\<open>initialize\<close>, \<^verbatim>\<open>add_item\<close> of a name of 15 characters, \<^verbatim>\<open>add_item\<close> of a name of 14
  characters, and \<^verbatim>\<open>create\<close>.
\<close>

definition fresh_3x17 :: DirectoryDisplayBox where
  "fresh_3x17 = dbox_fresh\<lparr>Area := \<lparr>Top = \<lparr>Row = 1, Col = 1\<rparr>, Bottom = \<lparr>Row = 3, Col = 17\<rparr>\<rparr>\<rparr>"

definition built_3x17 :: "error + DirectoryDisplayBox" where
  "built_3x17 =
     and_then (initialize fresh_3x17) (\<lambda>s1.
     and_then (add_item s1 (wstr ''ABCDEFGHIJKLMNO'')) (\<lambda>s2.
     and_then (add_item s2 (wstr ''ABCDEFGHIJKLMN'')) create))"

text \<open>
  The second has 11 rows and 30 items, of which only the sixth has a name longer than the
  left column; it is built by \<^verbatim>\<open>initialize\<close>, 30 calls of \<^verbatim>\<open>add_item\<close> and \<^verbatim>\<open>create\<close>, and then
  the focus is moved to the sixth item by five calls of \<^verbatim>\<open>move_down\<close>.
\<close>

definition fresh_11x17 :: DirectoryDisplayBox where
  "fresh_11x17 = dbox_fresh\<lparr>Area := \<lparr>Top = \<lparr>Row = 1, Col = 1\<rparr>, Bottom = \<lparr>Row = 11, Col = 17\<rparr>\<rparr>\<rparr>"

fun add_items :: "DirectoryDisplayBox \<Rightarrow> wstring list \<Rightarrow> error + DirectoryDisplayBox" where
  "add_items s [] = Inr s"
| "add_items s (x # xs) = and_then (add_item s x) (\<lambda>s'. add_items s' xs)"

fun move_down_times :: "nat \<Rightarrow> DirectoryDisplayBox \<Rightarrow> error + DirectoryDisplayBox" where
  "move_down_times 0 s = Inr s"
| "move_down_times (Suc n) s = and_then (move_down s) (\<lambda>(k, s'). move_down_times n s')"

definition items30 :: "wstring list" where
  "items30 = replicate 5 (wstr ''ABCDEFGHIJKLMN'') @ [wstr ''ABCDEFGHIJKLMNO'']
             @ replicate 24 (wstr ''ABCDEFGHIJKLMN'')"

definition created_11x17 :: "error + DirectoryDisplayBox" where
  "created_11x17 =
     and_then (initialize fresh_11x17) (\<lambda>s1. and_then (add_items s1 items30) create)"

definition built_11x17 :: "error + DirectoryDisplayBox" where
  "built_11x17 = and_then created_11x17 (move_down_times 5)"

chapter \<open>Verified properties\<close>

section \<open>Color arithmetic\<close>

lemma unat_u8_bound: "unat (x :: uint8_t) < 256"
  using unsigned_less [of x, where 'a = nat] by simp

lemma unat_ucast_8_32: "unat (ucast (x :: uint8_t) :: unsigned) = unat x"
  using unat_u8_bound [of x] by (simp add: unsigned_ucast_eq take_bit_eq_mod)

lemma unat_avg_component:
  "unat (ucast (avg (ucast (x :: uint8_t)) (ucast (y :: uint8_t))) :: uint8_t) =
     (unat x + unat y) div 2"
proof -
  have bx: "unat x < 256" and by': "unat y < 256"
    by (rule unat_u8_bound)+
  then have s: "unat (ucast x + ucast y :: unsigned) = unat x + unat y"
    by (simp add: unat_word_ariths unat_ucast_8_32)
  have "unat (avg (ucast x) (ucast y)) = (unat x + unat y) div 2"
    by (simp add: avg_def unat_div s)
  moreover have "(unat x + unat y) div 2 < 256"
    using bx by' by simp
  ultimately show ?thesis
    by (simp add: unsigned_ucast_eq take_bit_eq_mod)
qed

lemma avg_component_idem:
  "(ucast (avg (ucast (x :: uint8_t)) (ucast x)) :: uint8_t) = x"
proof -
  have "unat (ucast (avg (ucast x) (ucast x)) :: uint8_t) = unat x"
    by (simp add: unat_avg_component)
  then show ?thesis
    by (simp only: word_unat_eq_iff)
qed

lemma rgb_plus_commute: "rgb_plus c1 c2 = rgb_plus c2 c1"
  by (simp add: rgb_plus_def rgb_of_unsigned_def avg_def add.commute)

lemma rgb_plus_idem: "rgb_plus c1 c1 = c1"
  by (simp add: rgb_plus_def rgb_of_unsigned_def avg_component_idem)

text \<open>
  Claim C10.  For all colors \<open>L\<close> and \<open>R\<close>, every component of \<open>L + R\<close> is the truncated
  integer average of the two components; the operator is commutative and idempotent; and it
  is neither the modular nor the saturating sum of the components (the two differ from it at
  \<open>L = R = (1, 1, 1)\<close>).
\<close>

theorem rgb_plus_average:
  "unat (r (rgb_plus c1 c2)) = (unat (r c1) + unat (r c2)) div 2
   \<and> unat (g (rgb_plus c1 c2)) = (unat (g c1) + unat (g c2)) div 2
   \<and> unat (b (rgb_plus c1 c2)) = (unat (b c1) + unat (b c2)) div 2
   \<and> rgb_plus c1 c2 = rgb_plus c2 c1
   \<and> rgb_plus c1 c1 = c1
   \<and> (\<exists>X Y. r (rgb_plus X Y) \<noteq> r X + r Y
            \<and> unat (r (rgb_plus X Y)) \<noteq> min 255 (unat (r X) + unat (r Y)))"
proof -
  let ?o = "\<lparr>r = 1, g = 1, b = 1\<rparr>"
  have "r (rgb_plus ?o ?o) \<noteq> r ?o + r ?o \<and> unat (r (rgb_plus ?o ?o)) \<noteq> min 255 (unat (r ?o) + unat (r ?o))"
    by (simp add: rgb_plus_idem)
  then have e: "\<exists>X Y. r (rgb_plus X Y) \<noteq> r X + r Y
            \<and> unat (r (rgb_plus X Y)) \<noteq> min 255 (unat (r X) + unat (r Y))"
    by blast
  have a: "unat (r (rgb_plus c1 c2)) = (unat (r c1) + unat (r c2)) div 2"
     "unat (g (rgb_plus c1 c2)) = (unat (g c1) + unat (g c2)) div 2"
     "unat (b (rgb_plus c1 c2)) = (unat (b c1) + unat (b c2)) div 2"
    by (simp_all add: rgb_plus_def rgb_of_unsigned_def unat_avg_component)
  show ?thesis
    using a e rgb_plus_commute [of c1 c2] rgb_plus_idem [of c1] by blast
qed

section \<open>Geometry\<close>

text \<open>
  Claim C4, as stated, fails: a rectangle whose bottom lies above and left of its top is its
  own self-intersection, while \<open>normalize\<close> grows the bottom to the top.
\<close>

theorem intersect_self_normalize_counterexample:
  "intersect box_2211 box_2211 \<noteq> coord_box_normalize box_2211 1 1"
  by (simp add: box_2211_def intersect_def coord_box_normalize_def coord_normalize_def Let_def)

lemma intersect_self: "intersect bx bx = bx"
  by (simp add: intersect_def)

lemma sint_zero_short: "sint (x::short) = 0 \<longleftrightarrow> x = 0"
  by (rule signed_eq_0_iff)

lemma clamp_short_fix: "(if 0 < sint (x::short) then x else 0) = x \<longleftrightarrow> 0 \<le> sint x"
  by (auto simp: order_le_less sint_zero_short)

lemma coord_normalize_id: "coord_normalize c = c \<longleftrightarrow> 0 \<le> sint (Row c) \<and> 0 \<le> sint (Col c)"
proof -
  have "coord_normalize c = c \<longleftrightarrow>
      (if 0 < sint (Row c) then Row c else 0) = Row c \<and> (if 0 < sint (Col c) then Col c else 0) = Col c"
    by (cases c) (simp add: coord_normalize_def)
  then show ?thesis
    by (simp only: clamp_short_fix)
qed

lemma normalize_default_Top: "Top (coord_box_normalize bx 1 1) = coord_normalize (Top bx)"
  by (simp add: coord_box_normalize_def Let_def)

lemma normalize_default_Bottom:
  "Bottom (coord_box_normalize bx 1 1) =
     \<lparr>Row = (if sint (Row (coord_normalize (Top bx))) > sint (Row (coord_normalize (Bottom bx)))
             then Row (coord_normalize (Top bx)) else Row (coord_normalize (Bottom bx))),
      Col = (if sint (Col (coord_normalize (Top bx))) > sint (Col (coord_normalize (Bottom bx)))
             then Col (coord_normalize (Top bx)) else Col (coord_normalize (Bottom bx)))\<rparr>"
  by (simp add: coord_box_normalize_def Let_def)

lemma bottom_component_fix:
  assumes "0 \<le> sint (t::short)"
  shows "(if sint t > sint (if 0 < sint (x::short) then x else 0) then t
          else (if 0 < sint x then x else 0)) = x \<longleftrightarrow> sint t \<le> sint x"
  using assms by (auto simp: word_eq_iff_signed [where 'a = int])

lemma normalize_default_Bottom_Row:
  "Row (Bottom (coord_box_normalize bx 1 1)) =
     (if sint (Row (coord_normalize (Top bx))) >
           sint (if 0 < sint (Row (Bottom bx)) then Row (Bottom bx) else 0)
      then Row (coord_normalize (Top bx))
      else (if 0 < sint (Row (Bottom bx)) then Row (Bottom bx) else 0))"
  by (simp add: normalize_default_Bottom coord_normalize_def)

lemma normalize_default_Bottom_Col:
  "Col (Bottom (coord_box_normalize bx 1 1)) =
     (if sint (Col (coord_normalize (Top bx))) >
           sint (if 0 < sint (Col (Bottom bx)) then Col (Bottom bx) else 0)
      then Col (coord_normalize (Top bx))
      else (if 0 < sint (Col (Bottom bx)) then Col (Bottom bx) else 0))"
  by (simp add: normalize_default_Bottom coord_normalize_def)

lemma normalize_fixpoint:
  "coord_box_normalize bx 1 1 = bx \<longleftrightarrow>
     0 \<le> sint (Row (Top bx)) \<and> 0 \<le> sint (Col (Top bx))
     \<and> sint (Row (Top bx)) \<le> sint (Row (Bottom bx)) \<and> sint (Col (Top bx)) \<le> sint (Col (Bottom bx))"
proof -
  have eq: "coord_box_normalize bx 1 1 = bx \<longleftrightarrow>
      Top (coord_box_normalize bx 1 1) = Top bx
      \<and> Row (Bottom (coord_box_normalize bx 1 1)) = Row (Bottom bx)
      \<and> Col (Bottom (coord_box_normalize bx 1 1)) = Col (Bottom bx)"
    by (auto intro: coord_box.equality coord.equality)
  show ?thesis
  proof (cases "0 \<le> sint (Row (Top bx)) \<and> 0 \<le> sint (Col (Top bx))")
    case True
    then have t: "coord_normalize (Top bx) = Top bx"
      by (simp add: coord_normalize_id)
    have "Row (Bottom (coord_box_normalize bx 1 1)) = Row (Bottom bx) \<longleftrightarrow>
        sint (Row (Top bx)) \<le> sint (Row (Bottom bx))"
      unfolding normalize_default_Bottom_Row t using True
      by (intro bottom_component_fix) simp
    moreover have "Col (Bottom (coord_box_normalize bx 1 1)) = Col (Bottom bx) \<longleftrightarrow>
        sint (Col (Top bx)) \<le> sint (Col (Bottom bx))"
      unfolding normalize_default_Bottom_Col t using True
      by (intro bottom_component_fix) simp
    ultimately show ?thesis
      using True by (simp add: eq normalize_default_Top t)
  next
    case False
    then have "coord_normalize (Top bx) \<noteq> Top bx"
      by (simp add: coord_normalize_id)
    then have "coord_box_normalize bx 1 1 \<noteq> bx"
      by (simp add: eq normalize_default_Top)
    then show ?thesis
      using False by blast
  qed
qed

lemma disjoint_intersect_empty:
  "disjoint bx1 bx2 \<Longrightarrow> num_cols (intersect bx1 bx2) \<le> 0 \<or> num_rows (intersect bx1 bx2) \<le> 0"
  unfolding disjoint_def num_cols_def num_rows_def intersect_def Let_def
  by (auto split: if_splits)


text \<open>
  Claim C4, amended.  \<open>R.intersect(R)\<close> is \<open>R\<close> itself; it equals \<open>R.normalize()\<close> exactly when
  the top of \<open>R\<close> is non-negative and its bottom is not above or left of its top; and the
  intersection of two disjoint rectangles has \<open>num_cols \<le> 0\<close> or \<open>num_rows \<le> 0\<close>.
\<close>

theorem intersect_self_and_disjoint:
  "intersect bx bx = bx
   \<and> ((intersect bx bx = coord_box_normalize bx 1 1) =
        (0 \<le> sint (Row (Top bx)) \<and> 0 \<le> sint (Col (Top bx))
         \<and> sint (Row (Top bx)) \<le> sint (Row (Bottom bx))
         \<and> sint (Col (Top bx)) \<le> sint (Col (Bottom bx))))
   \<and> (disjoint bx1 bx2 \<longrightarrow> num_cols (intersect bx1 bx2) \<le> 0 \<or> num_rows (intersect bx1 bx2) \<le> 0)"
proof -
  have "(intersect bx bx = coord_box_normalize bx 1 1) = (coord_box_normalize bx 1 1 = bx)"
    by (auto simp: intersect_self)
  then show ?thesis
    using intersect_self [of bx] normalize_fixpoint [of bx] disjoint_intersect_empty [of bx1 bx2]
    by blast
qed

text \<open>The amended claim C4 at two concrete disjoint rectangles.\<close>

theorem intersect_self_and_disjoint_witness:
  "disjoint box_0419 box_5090
   \<and> intersect box_0419 box_0419 = coord_box_normalize box_0419 1 1
   \<and> (num_cols (intersect box_0419 box_5090) \<le> 0 \<or> num_rows (intersect box_0419 box_5090) \<le> 0)"
proof -
  have d: "disjoint box_0419 box_5090"
    by (simp add: disjoint_def box_0419_def box_5090_def)
  have w: "0 \<le> sint (Row (Top box_0419)) \<and> 0 \<le> sint (Col (Top box_0419))
         \<and> sint (Row (Top box_0419)) \<le> sint (Row (Bottom box_0419))
         \<and> sint (Col (Top box_0419)) \<le> sint (Col (Bottom box_0419))"
    by (simp add: box_0419_def)
  show ?thesis
    using d w intersect_self_and_disjoint [of box_0419 box_0419 box_5090] by blast
qed

section \<open>Attribute state: idempotence of update_to\<close>

lemma cursor_data_update_same:
  "cursor_data_rgb d = x \<Longrightarrow> cursor_data_update d x = (False, d)"
  by (auto simp: cursor_data_update_def cursor_data_rgb_def cursor_data_rgb_value_def
      rgb_value_def cursor_data_set_def Let_def)

lemma update_back_rgb_same:
  "cursor_data_rgb (cursor.B c) = x \<Longrightarrow> update_back_rgb c Buff x = (Buff, c)"
  by (simp add: update_back_rgb_def cursor_data_update_same)

lemma update_front_rgb_same:
  "cursor_data_rgb (cursor.F c) = x \<Longrightarrow> update_front_rgb c Buff x = (Buff, c)"
  by (simp add: update_front_rgb_def cursor_data_update_same)

lemma update_to_converged: "converged c Rhs \<Longrightarrow> update_to c Buff Rhs = (Buff, c)"
  by (simp add: converged_def update_to_def update_back_rgb_same update_front_rgb_same)

lemma cursor_data_rgb_set [simp]: "cursor_data_rgb (cursor_data_set d x) = x"
  by (simp add: cursor_data_rgb_def cursor_data_set_def)

lemma snd_update_back_rgb:
  "snd (update_back_rgb c Buff x) = c\<lparr>cursor.B := cursor_data_set (cursor.B c) x\<rparr>"
  by (simp add: update_back_rgb_def cursor_data_update_def Let_def)

lemma snd_update_front_rgb:
  "snd (update_front_rgb c Buff x) = c\<lparr>cursor.F := cursor_data_set (cursor.F c) x\<rparr>"
  by (simp add: update_front_rgb_def cursor_data_update_def Let_def)

lemma update_back_rgb_result:
  "update_back_rgb c Buff x = (Buff1, c1) \<Longrightarrow> c1 = c\<lparr>cursor.B := cursor_data_set (cursor.B c) x\<rparr>"
  using snd_update_back_rgb [of c Buff x] by simp

lemma update_front_rgb_result:
  "update_front_rgb c Buff x = (Buff1, c1) \<Longrightarrow> c1 = c\<lparr>cursor.F := cursor_data_set (cursor.F c) x\<rparr>"
  using snd_update_front_rgb [of c Buff x] by simp

lemma update_to_converges:
  assumes u: "update_to c Buff Rhs = (Buff', c')"
  shows "converged c' Rhs"
proof -
  obtain Buff1 c1 where s1: "update_back_rgb c Buff (cursor_data_rgb (cursor.B Rhs)) = (Buff1, c1)"
    by (cases "update_back_rgb c Buff (cursor_data_rgb (cursor.B Rhs))")
  obtain Buff2 c2 where s2: "update_front_rgb c1 Buff1 (cursor_data_rgb (cursor.F Rhs)) = (Buff2, c2)"
    by (cases "update_front_rgb c1 Buff1 (cursor_data_rgb (cursor.F Rhs))")
  have e1: "c1 = c\<lparr>cursor.B := cursor_data_set (cursor.B c) (cursor_data_rgb (cursor.B Rhs))\<rparr>"
    using s1 by (rule update_back_rgb_result)
  have e2: "c2 = c1\<lparr>cursor.F := cursor_data_set (cursor.F c1) (cursor_data_rgb (cursor.F Rhs))\<rparr>"
    using s2 by (rule update_front_rgb_result)
  have rgbs: "cursor_data_rgb (cursor.B c2) = cursor_data_rgb (cursor.B Rhs)"
    "cursor_data_rgb (cursor.F c2) = cursor_data_rgb (cursor.F Rhs)"
    by (simp_all add: e1 e2)
  show ?thesis
  proof (cases "State_eq (cursor.F c2) (cursor.F Rhs)")
    case True
    have "update_to c Buff Rhs = (Buff2, c2)"
      by (simp only: update_to_def Let_def s1 s2 prod.case True not_True_eq_False if_False)
    then show ?thesis
      using u rgbs True by (simp add: converged_def)
  next
    case False
    obtain Buff3 c3 where s3:
      "(if SHAPE (cursor.F c2) \<noteq> SHAPE (cursor.F Rhs)
        then ((apply_shape (c2\<lparr>cursor.F := (cursor.F c2)\<lparr>SHAPE := SHAPE (cursor.F Rhs)\<rparr>\<rparr>) Buff2,
              c2\<lparr>cursor.F := (cursor.F c2)\<lparr>SHAPE := SHAPE (cursor.F Rhs)\<rparr>\<rparr>))
        else (Buff2, c2)) = (Buff3, c3)"
      by (cases "SHAPE (cursor.F c2) \<noteq> SHAPE (cursor.F Rhs)") simp_all
    have e3: "c3 = c2\<lparr>cursor.F := (cursor.F c2)\<lparr>SHAPE := SHAPE (cursor.F Rhs)\<rparr>\<rparr>"
      using s3 by (cases "SHAPE (cursor.F c2) \<noteq> SHAPE (cursor.F Rhs)") simp_all
    obtain Buff4 c4 where s4:
      "(if SHOW (cursor.F c3) \<noteq> SHOW (cursor.F Rhs)
        then ((apply_show (c3\<lparr>cursor.F := (cursor.F c3)\<lparr>SHOW := SHOW (cursor.F Rhs)\<rparr>\<rparr>) Buff3,
              c3\<lparr>cursor.F := (cursor.F c3)\<lparr>SHOW := SHOW (cursor.F Rhs)\<rparr>\<rparr>))
        else (Buff3, c3)) = (Buff4, c4)"
      by (cases "SHOW (cursor.F c3) \<noteq> SHOW (cursor.F Rhs)") simp_all
    have e4: "c4 = c3\<lparr>cursor.F := (cursor.F c3)\<lparr>SHOW := SHOW (cursor.F Rhs)\<rparr>\<rparr>"
      using s4 by (cases "SHOW (cursor.F c3) \<noteq> SHOW (cursor.F Rhs)") simp_all
    obtain Buff5 c5 where s5:
      "(if BLINK (cursor.F c4) \<noteq> BLINK (cursor.F Rhs)
        then ((apply_blink (c4\<lparr>cursor.F := (cursor.F c4)\<lparr>BLINK := BLINK (cursor.F Rhs)\<rparr>\<rparr>) Buff4,
              c4\<lparr>cursor.F := (cursor.F c4)\<lparr>BLINK := BLINK (cursor.F Rhs)\<rparr>\<rparr>))
        else (Buff4, c4)) = (Buff5, c5)"
      by (cases "BLINK (cursor.F c4) \<noteq> BLINK (cursor.F Rhs)") simp_all
    have e5: "c5 = c4\<lparr>cursor.F := (cursor.F c4)\<lparr>BLINK := BLINK (cursor.F Rhs)\<rparr>\<rparr>"
      using s5 by (cases "BLINK (cursor.F c4) \<noteq> BLINK (cursor.F Rhs)") simp_all
    obtain Buff6 c6 where s6:
      "(if NEG (cursor.F c5) \<noteq> NEG (cursor.F Rhs)
        then ((apply_negative (c5\<lparr>cursor.F := (cursor.F c5)\<lparr>NEG := NEG (cursor.F Rhs)\<rparr>\<rparr>) Buff5,
              c5\<lparr>cursor.F := (cursor.F c5)\<lparr>NEG := NEG (cursor.F Rhs)\<rparr>\<rparr>))
        else (Buff5, c5)) = (Buff6, c6)"
      by (cases "NEG (cursor.F c5) \<noteq> NEG (cursor.F Rhs)") simp_all
    have e6: "c6 = c5\<lparr>cursor.F := (cursor.F c5)\<lparr>NEG := NEG (cursor.F Rhs)\<rparr>\<rparr>"
      using s6 by (cases "NEG (cursor.F c5) \<noteq> NEG (cursor.F Rhs)") simp_all
    obtain Buff7 c7 where s7:
      "(if BOLD (cursor.F c6) \<noteq> BOLD (cursor.F Rhs)
        then ((apply_bold (c6\<lparr>cursor.F := (cursor.F c6)\<lparr>BOLD := BOLD (cursor.F Rhs)\<rparr>\<rparr>) Buff6,
              c6\<lparr>cursor.F := (cursor.F c6)\<lparr>BOLD := BOLD (cursor.F Rhs)\<rparr>\<rparr>))
        else (Buff6, c6)) = (Buff7, c7)"
      by (cases "BOLD (cursor.F c6) \<noteq> BOLD (cursor.F Rhs)") simp_all
    have e7: "c7 = c6\<lparr>cursor.F := (cursor.F c6)\<lparr>BOLD := BOLD (cursor.F Rhs)\<rparr>\<rparr>"
      using s7 by (cases "BOLD (cursor.F c6) \<noteq> BOLD (cursor.F Rhs)") simp_all
    obtain Buff8 c8 where s8:
      "(if UNDER (cursor.F c7) \<noteq> UNDER (cursor.F Rhs)
        then ((apply_underline (c7\<lparr>cursor.F := (cursor.F c7)\<lparr>UNDER := UNDER (cursor.F Rhs)\<rparr>\<rparr>) Buff7,
              c7\<lparr>cursor.F := (cursor.F c7)\<lparr>UNDER := UNDER (cursor.F Rhs)\<rparr>\<rparr>))
        else (Buff7, c7)) = (Buff8, c8)"
      by (cases "UNDER (cursor.F c7) \<noteq> UNDER (cursor.F Rhs)") simp_all
    have e8: "c8 = c7\<lparr>cursor.F := (cursor.F c7)\<lparr>UNDER := UNDER (cursor.F Rhs)\<rparr>\<rparr>"
      using s8 by (cases "UNDER (cursor.F c7) \<noteq> UNDER (cursor.F Rhs)") simp_all
    have "update_to c Buff Rhs = (Buff8, c8)"
      by (simp only: update_to_def Let_def s1 s2 prod.case False not_False_eq_True if_True
          s3 s4 s5 s6 s7 s8)
    then have c': "c' = c8"
      using u by simp
    have "cursor.B c8 = cursor.B c2"
      by (simp add: e3 e4 e5 e6 e7 e8)
    moreover have "cursor_data_rgb (cursor.F c8) = cursor_data_rgb (cursor.F c2)"
      by (simp add: e3 e4 e5 e6 e7 e8 cursor_data_rgb_def)
    moreover have "State_eq (cursor.F c8) (cursor.F Rhs)"
      by (simp add: e3 e4 e5 e6 e7 e8 State_eq_def)
    ultimately show ?thesis
      using rgbs by (simp add: converged_def c')
  qed
qed

text \<open>
  Claim C5.  For every cursor state and every target, a second \<open>update_to\<close> with the same
  target, called on the buffer and the cursor the first call left, returns that buffer
  unchanged (nothing is appended) and that cursor unchanged.
\<close>

theorem update_to_twice:
  "(case update_to c Buff Rhs of (Buff1, c1) \<Rightarrow> update_to c1 Buff1 Rhs = (Buff1, c1))"
  by (auto simp: update_to_converged dest: update_to_converges split: prod.splits)

section \<open>Scrollbars\<close>

lemma pack24_low: "(ucast (pack24 x y z) :: uint8_t) = x"
  by (rule bit_word_eqI) (auto simp: pack24_def bit_simps dest: bit_imp_le_length)

lemma pack24_mid: "(ucast (drop_bit 8 (pack24 x y z)) :: uint8_t) = y"
  by (rule bit_word_eqI) (auto simp: pack24_def bit_simps dest: bit_imp_le_length)

lemma pack24_high: "(ucast (drop_bit 16 (pack24 x y z)) :: uint8_t) = z"
  by (rule bit_word_eqI) (auto simp: pack24_def bit_simps dest: bit_imp_le_length)

lemma pack24_inject: "pack24 x y z = pack24 x' y' z' \<longleftrightarrow> x = x' \<and> y = y' \<and> z = z'"
  by (metis pack24_low pack24_mid pack24_high)


lemma cursor_data_update_eq:
  "cursor_data_update d x = (cursor_data_rgb d \<noteq> x, cursor_data_set d x)"
  by (cases x)
    (auto simp: cursor_data_update_def cursor_data_rgb_value_def rgb_value_def pack24_inject
      cursor_data_rgb_def Let_def)

lemma update_back_rgb_eq:
  "update_back_rgb c Buff x =
     (if cursor_data_rgb (cursor.B c) = x then Buff else setBack x Buff,
      c\<lparr>cursor.B := cursor_data_set (cursor.B c) x\<rparr>)"
  by (simp add: update_back_rgb_def cursor_data_update_eq setBack_def cursor_data_set_def)

lemma update_front_rgb_eq:
  "update_front_rgb c Buff x =
     (if cursor_data_rgb (cursor.F c) = x then Buff else setFront x Buff,
      c\<lparr>cursor.F := cursor_data_set (cursor.F c) x\<rparr>)"
  by (simp add: update_front_rgb_def cursor_data_update_eq setFront_def cursor_data_set_def)

lemma set_back_rgb_eq:
  "set_back_rgb c Buff x = (setBack x Buff, c\<lparr>cursor.B := cursor_data_set (cursor.B c) x\<rparr>)"
  by (simp add: set_back_rgb_def setBack_def cursor_data_set_def Let_def)

lemma set_front_rgb_eq:
  "set_front_rgb c Buff x = (setFront x Buff, c\<lparr>cursor.F := cursor_data_set (cursor.F c) x\<rparr>)"
  by (simp add: set_front_rgb_def setFront_def cursor_data_set_def Let_def)

text \<open>
  What holds of claim C6 in both scrollbars: with \<open>firstVisible = 0\<close> the computed
  \<open>thumbStart\<close> is \<open>0\<close>; the horizontal bar draws a uniform track in the track color
  whenever \<open>NumItems \<le> BarLength\<close>, the vertical bar whenever \<open>NumItems < BarLength\<close>.
\<close>

lemma HorizontalScrollBar_thumb_first: "fst (HorizontalScrollBar_thumb BarLen 0 NumItems) = 0"
  by (auto simp: HorizontalScrollBar_thumb_def Let_def split: if_splits)

lemma VerticalScrollBar_thumb_first: "fst (VerticalScrollBar_thumb BarLen 0 NumItems) = 0"
  by (auto simp: VerticalScrollBar_thumb_def Let_def split: if_splits)

lemma hcell_funpow: "fst ((hcell ^^ n) p) = fst p @ concat (replicate n FSQUARE)"
proof (induction n)
  case 0
  show ?case by simp
next
  case (Suc n)
  have "fst ((hcell ^^ Suc n) p) = fst ((hcell ^^ n) p) @ FSQUARE"
    by (simp add: hcell_def push_back_array_def)
  also have "\<dots> = fst p @ concat (replicate n FSQUARE) @ FSQUARE"
    by (simp add: Suc.IH)
  also have "concat (replicate n FSQUARE) @ FSQUARE = concat (replicate (Suc n) FSQUARE)"
    by (induction n) simp_all
  finally show ?case .
qed

lemma vcell_funpow: "fst ((vcell ^^ n) p) = fst p @ concat (replicate n vtrack_cell)"
proof (induction n)
  case 0
  show ?case by simp
next
  case (Suc n)
  have "fst ((vcell ^^ Suc n) p) = fst ((vcell ^^ n) p) @ vtrack_cell"
    by (simp add: vcell_def vtrack_cell_def coord_move_left_def coord_move_down_def push_back_def
        MoveLeft_def MoveDown_def)
  also have "\<dots> = fst p @ concat (replicate n vtrack_cell) @ vtrack_cell"
    by (simp add: Suc.IH)
  also have "concat (replicate n vtrack_cell) @ vtrack_cell = concat (replicate (Suc n) vtrack_cell)"
    by (induction n) simp_all
  finally show ?case .
qed

lemma HorizontalScrollBar_draw_inactive:
  assumes "NumItems \<le> BarLength sb"
  shows "HorizontalScrollBar_draw sb buf FirstItem NumItems =
     Inr (coord_apply (setBack (BackRGB sb) (ClrUnderline (SetHide buf))) (TopLeft sb)
          @ replicate (nat (PreLength sb)) (of_char CHR '' '')
          @ setFront (color.B (ScrollColors sb)) []
          @ [LHEAD] @ concat (replicate (nat (BarLength sb)) FSQUARE) @ [RHEAD]
          @ replicate (nat (PostLength sb)) (of_char CHR '' ''))"
  using assms
  by (simp add: HorizontalScrollBar_draw_def Let_def split_def coord_append_def push_back_def
      hcell_funpow setFront_def SetFrontColor_def)

lemma VerticalScrollBar_draw_inactive:
  assumes "NumItems < BarLength sb"
  shows "VerticalScrollBar_draw sb buf FirstRow NumItems =
     Inr (coord_apply (setBack (BackRGB sb) (ClrUnderline (SetHide buf))) (TopLeft sb)
          @ setFront (color.B (ScrollColors sb)) [] @ TRIUP
          @ setBack (color.B (ScrollColors sb)) []
          @ concat (replicate (nat (BarLength sb - 2)) vtrack_cell)
          @ (if color.B (ScrollColors sb) = BackRGB sb then [] else setBack (BackRGB sb) [])
          @ MoveLeft [] @ MoveDown [] @ TRIDOWN)"
  using assms
  by (simp add: VerticalScrollBar_draw_def Let_def split_def set_front_rgb_eq set_back_rgb_eq
      update_back_rgb_eq vcell_funpow push_back_array_def coord_move_left_def coord_move_down_def
      setFront_def SetFrontColor_def setBack_def SetBackColor_def MoveLeft_def MoveDown_def
      cursor_data_rgb_set)

text \<open>
  Claim C6 at the input where the code departs from it.  With as many items as the bar is
  long (\<open>NumItems = BarLength = 5\<close>) the vertical \<open>draw\<close> does not take its inactive branch:
  it computes the thumb \<open>(0, 3)\<close>, the whole track, and draws the three track cells in
  inverse video between \<open>SetNegative\<close> and \<open>ClrNegative\<close>; called with \<open>FirstRow = 2\<close> it
  computes the thumb \<open>(1, 4)\<close>, one plain cell followed by three thumb cells on a track of
  three.
\<close>

theorem VerticalScrollBar_draw_items_equal_bar:
  "VerticalScrollBar_thumb 5 0 5 = (0, 3)
   \<and> VerticalScrollBar_thumb 5 2 5 = (1, 4)
   \<and> VerticalScrollBar_draw vbar5 [] 0 5 =
       Inr (coord_apply (setBack (BackRGB vbar5) (ClrUnderline (SetHide []))) (TopLeft vbar5)
            @ cursor_apply (set_front_rgb_only cursor_default (color.B (ScrollColors vbar5))) []
            @ TRIUP
            @ setFront (color.F (ScrollColors vbar5)) []
            @ setBack (color.B (ScrollColors vbar5)) []
            @ SetNegative [] @ vtrack_cell @ vtrack_cell @ vtrack_cell @ ClrNegative []
            @ setBack (BackRGB vbar5) []
            @ setFront (color.B (ScrollColors vbar5)) []
            @ MoveLeft [] @ MoveDown [] @ TRIDOWN)"
  by code_simp

section \<open>Text edit controller\<close>

lemmas char_class_defs =
  IsDisplayCharacter_def IsFilenameCharacter_def IsAlphaNumeric_def IsUpperCase_def
  IsLowerCase_def IsDigitCharacter_def

lemmas key_defs =
  BACKSPACEKEY_def HOMEKEY_def ENDKEY_def LEFTKEY_def RIGHTKEY_def INSERTKEY_def DELETEKEY_def

lemma IsDisplayCharacter_range: "IsDisplayCharacter x \<Longrightarrow> 32 \<le> x \<and> x \<le> 126"
  by (auto simp: char_class_defs)

lemma process_control_keys_other:
  assumes "32 \<le> x" "x \<le> 126"
  shows "process_control_keys s x = Inr (False, s)"
  using assms by (simp add: process_control_keys_def key_defs Let_def)

lemma format_to_valid:
  assumes "0 \<le> BeginIndex s" "BeginIndex s \<le> int (length (Text s))" "0 \<le> num_cols (Area s)"
  shows "format_to s c ch =
     Inr (s\<lparr>bf := coord_apply (color_apply c (SetHide [])) (Top (Area s)) @ visible_window s ch\<rparr>)"
  using assms by (simp add: format_to_def visible_window_def Let_def)

lemma print_and_display_cursor_valid:
  assumes "0 \<le> BeginIndex s" "BeginIndex s \<le> int (length (Text s))" "0 \<le> num_cols (Area s)"
  shows "print_and_display_cursor s = Inr (rendered s)"
  using assms
  by (simp add: print_and_display_cursor_def print_def format_to_valid rendered_def Write_def)

lemma rendered_fields [simp]:
  "Text (rendered s) = Text s" "BeginIndex (rendered s) = BeginIndex s"
  "BeginOffset (rendered s) = BeginOffset s" "MaxLength (rendered s) = MaxLength s"
  "InsertOn (rendered s) = InsertOn s" "wc (rendered s) = wc s" "Area (rendered s) = Area s"
  "Color (rendered s) = Color s"
  "bf (rendered s) =
     coord_apply (color_apply (Color s) (SetHide [])) (Top (Area s)) @ visible_window s (wc s)"
  by (simp_all add: rendered_def display_cursor_def Write_def Let_def write_bbar_shape_def
      write_bblock_shape_def write_bunder_shape_def)

lemma insert_rejected:
  assumes "valid_state s" "IsDisplayCharacter x" "int (length (Text s)) = MaxLength s"
    "BeginIndex s + BeginOffset s < int (length (Text s))" "\<not> InsertOn s"
  shows "insert s x = Inr (True, s)"
  using assms IsDisplayCharacter_range [of x]
  by (simp add: insert_def valid_state_def process_control_keys_other Let_def)

lemma insert_overwrite_full:
  assumes "valid_state s" "IsDisplayCharacter x" "int (length (Text s)) = MaxLength s"
    "BeginIndex s + BeginOffset s < int (length (Text s))" "InsertOn s"
  shows "\<exists>s'. insert s x = Inr (True, s')
           \<and> Text s' = (Text s)[nat (BeginIndex s + BeginOffset s) := word_of_int x]"
  using assms IsDisplayCharacter_range [of x]
  by (simp add: insert_def valid_state_def process_control_keys_other Let_def
      print_and_display_cursor_valid)

lemma insert_append_inside:
  assumes "valid_state s" "IsDisplayCharacter x" "int (length (Text s)) < MaxLength s"
    "BeginIndex s + BeginOffset s = int (length (Text s))" "BeginOffset s < box_length s"
    "wc s = 0"
  shows "insert s x =
     Inr (True, (if BeginOffset s + 1 = box_length s then write_bbar_shape else (\<lambda>u. u))
                  ((Write [word_of_int x] (s\<lparr>Text := Text s @ [word_of_int x]\<rparr>))
                     \<lparr>BeginOffset := BeginOffset s + 1\<rparr>))"
  using assms IsDisplayCharacter_range [of x]
  by (simp add: insert_def valid_state_def process_control_keys_other Let_def box_length_def
      Write_def)

lemma insert_append_scroll:
  assumes "valid_state s" "IsDisplayCharacter x" "int (length (Text s)) < MaxLength s"
    "BeginIndex s + BeginOffset s = int (length (Text s))" "BeginOffset s = box_length s"
  shows "insert s x =
     Inr (True, rendered (s\<lparr>Text := Text s @ [word_of_int x], BeginIndex := BeginIndex s + 1,
                              BeginOffset := box_length s\<rparr>))"
  using assms IsDisplayCharacter_range [of x]
  by (simp add: insert_def valid_state_def process_control_keys_other Let_def box_length_def
      print_and_display_cursor_valid)


text \<open>
  Claim C1 at an input where the code departs from it: the field holds \<^verbatim>\<open>"AB"\<close>, is full
  (\<^verbatim>\<open>MaxLength = 2\<close>), the cursor is on \<^verbatim>\<open>B\<close> and insert mode is active.  Typing \<^verbatim>\<open>C\<close>
  leaves the field as it was, but \<open>insert\<close> returns \<open>True\<close>, not \<open>False\<close>.  In overwrite mode
  the same key replaces \<^verbatim>\<open>B\<close> and returns \<open>True\<close>, as the claim says.
\<close>

theorem insert_at_capacity_returns_true:
  "valid_state full_field
   \<and> int (length (Text full_field)) = MaxLength full_field
   \<and> BeginIndex full_field + BeginOffset full_field < int (length (Text full_field))
   \<and> \<not> InsertOn full_field
   \<and> IsDisplayCharacter (of_char CHR ''C'')
   \<and> insert full_field (of_char CHR ''C'') = Inr (True, full_field)
   \<and> (\<exists>s'. insert (full_field\<lparr>InsertOn := True\<rparr>) (of_char CHR ''C'') = Inr (True, s')
             \<and> Text s' = wstr ''AC'')"
proof -
  have v: "valid_state full_field" "valid_state (full_field\<lparr>InsertOn := True\<rparr>)"
    by (simp_all add: valid_state_def full_field_def InputControl_unformatted_def num_cols_def
        wstr_def)
  have d: "IsDisplayCharacter (of_char CHR ''C'')"
    by (simp add: char_class_defs)
  have f: "int (length (Text full_field)) = MaxLength full_field"
    "BeginIndex full_field + BeginOffset full_field < int (length (Text full_field))"
    "\<not> InsertOn full_field"
    by (simp_all add: full_field_def InputControl_unformatted_def wstr_def)
  have r: "insert full_field (of_char CHR ''C'') = Inr (True, full_field)"
    using v(1) d f by (rule insert_rejected)
  have "\<exists>s'. insert (full_field\<lparr>InsertOn := True\<rparr>) (of_char CHR ''C'') = Inr (True, s')
      \<and> Text s' = (Text (full_field\<lparr>InsertOn := True\<rparr>))
            [nat (BeginIndex (full_field\<lparr>InsertOn := True\<rparr>)
                  + BeginOffset (full_field\<lparr>InsertOn := True\<rparr>)) := word_of_int (of_char CHR ''C'')]"
    using v(2) d f by (intro insert_overwrite_full) simp_all
  then have o: "\<exists>s'. insert (full_field\<lparr>InsertOn := True\<rparr>) (of_char CHR ''C'') = Inr (True, s')
      \<and> Text s' = wstr ''AC''"
    by (simp add: full_field_def InputControl_unformatted_def wstr_def)
  show ?thesis
    using v(1) d f r o by blast
qed

lemma IsDisplayCharacter_upper: "65 \<le> x \<Longrightarrow> x \<le> 90 \<Longrightarrow> IsDisplayCharacter x"
  by (simp add: char_class_defs)

text \<open>
  Claim C7.  In a field five columns wide with \<^verbatim>\<open>MaxLength = 10\<close>, empty, in insert mode and
  without a mask character, typing \<^verbatim>\<open>A\<close> to \<^verbatim>\<open>G\<close> returns normally with
  \<^verbatim>\<open>Text = "ABCDEFG"\<close> and \<^verbatim>\<open>BeginIndex = 2\<close>, and the render buffer is the positioning
  prefix followed by exactly \<^verbatim>\<open>"CDEFG"\<close>.
\<close>

theorem typing_ABCDEFG:
  assumes "num_cols (Area s) = 5" "MaxLength s = 10" "Text s = []" "BeginIndex s = 0"
    "BeginOffset s = 0" "\<not> InsertOn s" "wc s = 0"
  shows "\<exists>s'. insert_keys s (map of_char ''ABCDEFG'') = Inr s'
           \<and> Text s' = wstr ''ABCDEFG'' \<and> BeginIndex s' = 2
           \<and> bf s' = coord_apply (color_apply (Color s) (SetHide [])) (Top (Area s))
                       @ wstr ''CDEFG''"
  using assms
  by (simp add: insert_append_inside insert_append_scroll valid_state_def box_length_def
      Write_def write_bbar_shape_def IsDisplayCharacter_upper visible_window_def wstr_def)


text \<open>Claim C7 at the field a default-constructed control becomes after \<^verbatim>\<open>set_size(5, 10)\<close>.\<close>

theorem typing_ABCDEFG_witness:
  "num_cols (Area field_5_10) = 5 \<and> MaxLength field_5_10 = 10 \<and> Text field_5_10 = []
   \<and> BeginIndex field_5_10 = 0 \<and> BeginOffset field_5_10 = 0 \<and> \<not> InsertOn field_5_10
   \<and> wc field_5_10 = 0
   \<and> (\<exists>s'. insert_keys field_5_10 (map of_char ''ABCDEFG'') = Inr s'
           \<and> Text s' = wstr ''ABCDEFG'' \<and> BeginIndex s' = 2
           \<and> bf s' = coord_apply (color_apply (Color field_5_10) (SetHide []))
                         (Top (Area field_5_10)) @ wstr ''CDEFG'')"
proof -
  have n: "InputControl_new =
      Inr (InputControl_unformatted
             \<lparr>bf := coord_apply (color_apply (Color InputControl_unformatted) (SetHide []))
                      (Top (Area InputControl_unformatted))
                    @ visible_window InputControl_unformatted 0\<rparr>)"
    unfolding InputControl_new_def
    by (rule format_to_valid) (simp_all add: InputControl_unformatted_def num_cols_def)
  have h: "num_cols (Area field_5_10) = 5" "MaxLength field_5_10 = 10" "Text field_5_10 = []"
    "BeginIndex field_5_10 = 0" "BeginOffset field_5_10 = 0" "\<not> InsertOn field_5_10"
    "wc field_5_10 = 0"
    by (simp_all add: field_5_10_def n InputControl_set_size_def InputControl_unformatted_def
        set_size_def coord_plus_def coord_minus_def coord_of_int_def num_cols_def)
  show ?thesis
    using h typing_ABCDEFG [OF h] by blast
qed

lemma length_backspace_shift [simp]: "length (backspace_shift i t) = length t"
  by (induction i t rule: backspace_shift.induct) (subst backspace_shift.simps, simp)

lemma length_delete_shift [simp]: "length (delete_shift i t) = length t"
  by (induction i t rule: delete_shift.induct) (subst delete_shift.simps, simp)

lemma length_insert_shift [simp]: "length (insert_shift i k t) = length t"
  by (induction i k t rule: insert_shift.induct) simp_all

lemma key_values:
  "BACKSPACEKEY = 8" "HOMEKEY = 4653280" "ENDKEY = 5177568" "LEFTKEY = 4915424"
  "RIGHTKEY = 5046496" "INSERTKEY = 5374176" "DELETEKEY = 5439712"
  by (simp_all add: key_defs)

lemma process_control_keys_BACKSPACEKEY:
  assumes "valid_state s"
  shows "\<exists>s'. process_control_keys s BACKSPACEKEY = Inr (True, s')"
  using assms
  unfolding process_control_keys_def valid_state_def box_length_def Let_def
  by (simp add: key_values print_and_display_cursor_valid)

lemma process_control_keys_HOMEKEY:
  assumes "valid_state s"
  shows "\<exists>s'. process_control_keys s HOMEKEY = Inr (True, s')"
  using assms
  unfolding process_control_keys_def valid_state_def box_length_def Let_def
  by (simp add: key_values print_and_display_cursor_valid)

lemma process_control_keys_LEFTKEY:
  assumes "valid_state s"
  shows "\<exists>s'. process_control_keys s LEFTKEY = Inr (True, s')"
  using assms
  unfolding process_control_keys_def valid_state_def box_length_def Let_def
  by (simp add: key_values print_and_display_cursor_valid)

lemma process_control_keys_RIGHTKEY:
  assumes "valid_state s"
  shows "\<exists>s'. process_control_keys s RIGHTKEY = Inr (True, s')"
  using assms
  unfolding process_control_keys_def valid_state_def box_length_def Let_def
  by (simp add: key_values print_and_display_cursor_valid)

lemma process_control_keys_ENDKEY:
  assumes "valid_state s"
  shows "\<exists>s'. process_control_keys s ENDKEY = Inr (True, s')"
  using assms
  unfolding process_control_keys_def valid_state_def box_length_def Let_def
  by (simp add: key_values print_and_display_cursor_valid)

lemma process_control_keys_INSERTKEY:
  assumes "valid_state s"
  shows "\<exists>s'. process_control_keys s INSERTKEY = Inr (True, s')"
  using assms
  unfolding process_control_keys_def valid_state_def box_length_def Let_def
  by (simp add: key_values print_and_display_cursor_valid)

lemma process_control_keys_DELETEKEY:
  assumes "valid_state s"
  shows "\<exists>s'. process_control_keys s DELETEKEY = Inr (True, s')"
  using assms
  unfolding process_control_keys_def valid_state_def box_length_def Let_def
  by (simp add: key_values print_and_display_cursor_valid)

lemma process_control_keys_total:
  assumes "valid_state s"
  shows "\<exists>ok s'. process_control_keys s x = Inr (ok, s') \<and> (ok \<or> s' = s)"
proof -
  consider "x = BACKSPACEKEY" | "x = HOMEKEY" | "x = LEFTKEY" | "x = RIGHTKEY" | "x = ENDKEY"
    | "x = INSERTKEY" | "x = DELETEKEY"
    | "x \<noteq> BACKSPACEKEY" "x \<noteq> HOMEKEY" "x \<noteq> LEFTKEY" "x \<noteq> RIGHTKEY" "x \<noteq> ENDKEY"
      "x \<noteq> INSERTKEY" "x \<noteq> DELETEKEY"
    by blast
  then show ?thesis
  proof cases
    case 8
    then have "process_control_keys s x = Inr (False, s)"
      by (simp add: process_control_keys_def Let_def)
    then show ?thesis by blast
  qed (use assms process_control_keys_BACKSPACEKEY process_control_keys_HOMEKEY
        process_control_keys_LEFTKEY process_control_keys_RIGHTKEY process_control_keys_ENDKEY
        process_control_keys_INSERTKEY process_control_keys_DELETEKEY in blast)+
qed


text \<open>
  Claim C9.  From every state that satisfies the text-edit invariant, \<open>insert\<close> returns
  normally for every key code: neither the \<^verbatim>\<open>std::logic_error\<close> of the validation nor any
  other failure is reached.
\<close>

theorem insert_total:
  assumes "valid_state s"
  shows "(\<exists>res. insert s x = Inr res) \<and> insert s x \<noteq> Inl logic_error"
proof -
  have "\<exists>res. insert s x = Inr res"
  proof -
    obtain b s1 where p: "process_control_keys s x = Inr (b, s1)" and same: "b \<or> s1 = s"
      using process_control_keys_total [OF assms] by blast
    have v: "\<not> (BeginIndex s < 0 \<or> BeginOffset s < 0 \<or> BeginOffset s > num_cols (Area s)
        \<or> BeginIndex s + BeginOffset s > int (length (Text s))
        \<or> int (length (Text s)) > MaxLength s)"
      using assms by (auto simp: valid_state_def)
    show ?thesis
    proof (cases b)
      case True
      then have "insert s x = Inr (True, s1)"
        using p v by (simp add: insert_def)
      then show ?thesis by blast
    next
      case False
      then have p': "process_control_keys s x = Inr (False, s)"
        using same p by simp
      show ?thesis
      proof (cases "IsDisplayCharacter x")
        case False
        then have "insert s x = Inr (False, s)"
          using p' v by (simp add: insert_def Let_def)
        then show ?thesis by blast
      next
        case True
        show ?thesis
          using assms p' v True unfolding insert_def valid_state_def box_length_def Let_def
          by (simp add: print_and_display_cursor_valid) blast
      qed
    qed
  qed
  then show ?thesis
    by auto
qed

text \<open>Claim C9 at the full two-character field and the key \<^verbatim>\<open>C\<close>.\<close>

theorem insert_total_witness:
  "valid_state full_field
   \<and> (\<exists>res. insert full_field (of_char CHR ''C'') = Inr res)
   \<and> insert full_field (of_char CHR ''C'') \<noteq> Inl logic_error"
proof -
  have v: "valid_state full_field"
    by (simp add: valid_state_def full_field_def InputControl_unformatted_def num_cols_def
        wstr_def)
  show ?thesis
    using v insert_total [OF v, of "of_char CHR ''C''"] by blast
qed

section \<open>Directory list: color markers of one width\<close>

lemma and_then_Inr [simp]: "and_then (Inr x) f = f x"
  by (simp add: and_then_def)

lemma and_then_Inl [simp]: "and_then (Inl e) f = Inl e"
  by (simp add: and_then_def)

lemma wstring_replace_same_width:
  assumes "0 \<le> pos" "nat pos + length m \<le> length t" "count = length m"
  shows "wstring_replace t pos count m = Inr (patch t (nat pos) m)"
  using assms by (simp add: wstring_replace_def patch_def min_def)

lemma length_patch: "p + length m \<le> length t \<Longrightarrow> length (patch t p m) = length t"
  by (simp add: patch_def)

lemma nth_patch_outside:
  assumes "p + length m \<le> length t" "k < length t" "k < p \<or> p + length m \<le> k"
  shows "patch t p m ! k = t ! k"
proof (cases "k < p")
  case True
  then show ?thesis
    using assms by (simp add: patch_def nth_append)
next
  case False
  then have k: "p + length m \<le> k"
    using assms(3) by simp
  have "patch t p m = (take p t @ m) @ drop (p + length m) t"
    by (simp add: patch_def)
  moreover have "length (take p t @ m) = p + length m"
    using assms(1) by simp
  ultimately have "patch t p m ! k = drop (p + length m) t ! (k - (p + length m))"
    using k by (simp only: nth_append) simp
  also have "\<dots> = t ! k"
    using k assms by simp
  finally show ?thesis .
qed

lemma read_back_patch:
  assumes "p + length m \<le> length t"
  shows "take (length m) (drop p (patch t p m)) = m"
  using assms by (simp add: patch_def)

lemma length_pad_to: "length (pad_to n c) = max (length c) n"
  by (simp add: pad_to_def)

lemma initialize_layout:
  assumes "initialize s0 = Inr s"
  shows "length (CommInit s) = length (CommFocus s)"
    and "length (CommFocus s) = length (CommSelect s)"
    and "length (CommSelect s) = length (CommBoth s)"
    and "TextLineLength s =
           int (length (CommInit s)) + LeftColumnSize s + RightColumnSize s + 2
           + int (length (CommReturn s))"
    and "0 \<le> LeftColumnSize s" and "0 \<le> RightColumnSize s"
    and "BarLength (hScroll s) = RightColumnSize s - 1"
    and "bf s = []"
  using assms
  by (auto simp: initialize_def initialize_template_def initialize_scrollbars_def
      initialize_moves_def initialize_markers_def initialize_colors_def Let_def length_pad_to
      LLQUOTE_def RRQUOTE_def split: if_splits)

lemma nat_int_mult: "nat (int x * int y) = x * y"
  by (simp add: nat_mult_distrib)

lemma row_offsets_outside:
  fixes T cl n i j d :: nat
  assumes "cl \<le> T" "i < n" "j < n" "d < T" "j \<noteq> i \<or> cl \<le> d"
  shows "T * j + d < T * n" and "T * j + d < T * i \<or> T * i + cl \<le> T * j + d"
proof -
  have "T * j + d < T * j + T"
    using assms(4) by simp
  also have "\<dots> = T * Suc j"
    by simp
  also have "\<dots> \<le> T * n"
    using assms(3) by (intro mult_le_mono2) simp
  finally show "T * j + d < T * n" .
  show "T * j + d < T * i \<or> T * i + cl \<le> T * j + d"
  proof (cases "j < i")
    case True
    have "T * j + d < T * Suc j"
      using assms(4) by simp
    also have "\<dots> \<le> T * i"
      using True by (intro mult_le_mono2) simp
    finally show ?thesis by simp
  next
    case False
    show ?thesis
    proof (cases "j = i")
      case True
      then show ?thesis
        using assms(5) by simp
    next
      case False
      then have "Suc i \<le> j"
        using \<open>\<not> j < i\<close> by simp
      then have "T * Suc i \<le> T * j"
        by (intro mult_le_mono2)
      then show ?thesis
        using assms(1) by simp
    qed
  qed
qed

lemma marker_patch_in_rows:
  fixes buf m :: wstring and T n i :: nat
  assumes len: "length buf = T * n" and i: "i < n" and cl: "length m \<le> T"
  shows "wstring_replace buf (int (T * i)) (length m) m = Inr (patch buf (T * i) m)"
    and "length (patch buf (T * i) m) = length buf"
    and "take (length m) (drop (T * i) (patch buf (T * i) m)) = m"
    and "\<forall>j d. j < n \<longrightarrow> d < T \<longrightarrow> (j \<noteq> i \<or> length m \<le> d) \<longrightarrow>
           patch buf (T * i) m ! (T * j + d) = buf ! (T * j + d)"
proof -
  have "T * i + T = T * Suc i"
    by simp
  also have "\<dots> \<le> T * n"
    using i by (intro mult_le_mono2) simp
  finally have fit: "T * i + length m \<le> length buf"
    using cl len by simp
  show "wstring_replace buf (int (T * i)) (length m) m = Inr (patch buf (T * i) m)"
    using fit wstring_replace_same_width [of "int (T * i)" m buf] by (simp add: nat_int_mult)
  show "length (patch buf (T * i) m) = length buf"
    using fit by (rule length_patch)
  show "take (length m) (drop (T * i) (patch buf (T * i) m)) = m"
    using fit by (rule read_back_patch)
  show "\<forall>j d. j < n \<longrightarrow> d < T \<longrightarrow> (j \<noteq> i \<or> length m \<le> d) \<longrightarrow>
           patch buf (T * i) m ! (T * j + d) = buf ! (T * j + d)"
  proof (intro allI impI)
    fix j d
    assume j: "j < n" and d: "d < T" and o: "j \<noteq> i \<or> length m \<le> d"
    have "T * j + d < length buf"
      and "T * j + d < T * i \<or> T * i + length m \<le> T * j + d"
      using row_offsets_outside [OF cl i j d o] len by simp_all
    then show "patch buf (T * i) m ! (T * j + d) = buf ! (T * j + d)"
      using fit by (intro nth_patch_outside) simp_all
  qed
qed

lemma markers_same_width:
  assumes "initialize s0 = Inr s"
  shows "length (CommInit s) = length (CommFocus s)
    \<and> length (CommFocus s) = length (CommSelect s)
    \<and> length (CommSelect s) = length (CommBoth s)
    \<and> (\<forall>buf n i m.
          int (length buf) = TextLineLength s * int n \<longrightarrow> i < n \<longrightarrow>
          m \<in> {CommInit s, CommFocus s, CommSelect s, CommBoth s} \<longrightarrow>
          (\<exists>buf'. wstring_replace buf (TextLineLength s * int i) (length m) m = Inr buf'
             \<and> length buf' = length buf
             \<and> take (length m) (drop (nat (TextLineLength s * int i)) buf') = m
             \<and> (\<forall>j d. j < n \<longrightarrow> int d < TextLineLength s \<longrightarrow> (j \<noteq> i \<or> length m \<le> d) \<longrightarrow>
                   buf' ! (nat (TextLineLength s * int j) + d)
                   = buf ! (nat (TextLineLength s * int j) + d))))"
proof -
  note lay = initialize_layout [OF assms]
  define T where "T = nat (TextLineLength s)"
  have T: "TextLineLength s = int T"
    using lay(4-6) by (simp add: T_def)
  have cl: "length (CommInit s) \<le> T"
    using lay(4-6) by (simp add: T_def)
  have "\<exists>buf'. wstring_replace buf (TextLineLength s * int i) (length m) m = Inr buf'
             \<and> length buf' = length buf
             \<and> take (length m) (drop (nat (TextLineLength s * int i)) buf') = m
             \<and> (\<forall>j d. j < n \<longrightarrow> int d < TextLineLength s \<longrightarrow> (j \<noteq> i \<or> length m \<le> d) \<longrightarrow>
                   buf' ! (nat (TextLineLength s * int j) + d)
                   = buf ! (nat (TextLineLength s * int j) + d))"
    if len: "int (length buf) = TextLineLength s * int n" and i: "i < n"
      and m: "m \<in> {CommInit s, CommFocus s, CommSelect s, CommBoth s}"
    for buf n i m
  proof -
    have lm: "length m \<le> T"
      using m cl lay(1-3) by auto
    have lb: "length buf = T * n"
      using len unfolding T by (metis nat_int of_nat_mult)
    show ?thesis
      using marker_patch_in_rows [OF lb i lm]
      unfolding T by (intro exI [of _ "patch buf (T * i) m"]) (simp add: nat_int_mult)
  qed
  then show ?thesis
    using lay(1-3) by blast
qed

lemma initialize_total:
  assumes "0 \<le> LeftColumnSize s0" "0 \<le> num_cols (Area s0) - LeftColumnSize s0 - 3"
  shows "\<exists>s. initialize s0 = Inr s"
  using assms
  by (simp add: initialize_def initialize_template_def initialize_scrollbars_def
      initialize_moves_def initialize_markers_def initialize_colors_def Let_def)

lemma initialize_frame:
  assumes "initialize s0 = Inr s"
  shows "Area s = Area s0" "LeftColumnSize s = LeftColumnSize s0"
    "RightColumnSize s = num_cols (Area s0) - LeftColumnSize s0 - 3"
    "NumIndexes s = NumIndexes s0" "NameColumns s = NameColumns s0"
    "TopIndex s = TopIndex s0" "FocusIndex s = FocusIndex s0"
  using assms
  by (auto simp: initialize_def initialize_template_def initialize_scrollbars_def
      initialize_moves_def initialize_markers_def initialize_colors_def Let_def
      split: if_splits)

lemma dbox_fresh_area: "num_rows (Area dbox_fresh) = 11" "num_cols (Area dbox_fresh) = 50"
  "LeftColumnSize dbox_fresh = 14"
  by (simp_all add: dbox_fresh_def num_rows_def num_cols_def)

lemma dbox_init_eq: "initialize dbox_fresh = Inr dbox_init"
proof -
  obtain s where "initialize dbox_fresh = Inr s"
    using initialize_total [of dbox_fresh] by (auto simp: dbox_fresh_area)
  then show ?thesis
    by (simp add: dbox_init_def)
qed

lemma dbox_init_layout:
  "Area dbox_init = Area dbox_fresh" "LeftColumnSize dbox_init = 14"
  "RightColumnSize dbox_init = 33" "BarLength (hScroll dbox_init) = 32"
  "length (CommInit dbox_init) = length (CommFocus dbox_init)"
  "length (CommFocus dbox_init) = length (CommSelect dbox_init)"
  "length (CommSelect dbox_init) = length (CommBoth dbox_init)"
  "TextLineLength dbox_init
     = int (length (CommInit dbox_init)) + 49 + int (length (CommReturn dbox_init))"
  using initialize_frame [OF dbox_init_eq] initialize_layout [OF dbox_init_eq]
  by (simp_all add: dbox_fresh_area)

lemma dbox30_lines:
  "TextLineLength dbox30 = TextLineLength dbox_init"
  "int (length (bf dbox30)) = TextLineLength dbox_init * int 30"
  "0 < TextLineLength dbox_init"
  using dbox_init_layout(8) by (simp_all add: dbox30_def blank_lines_def)

text \<open>
  Claim C2.  After \<open>initialize\<close> the four color markers \<open>CommInit\<close>, \<open>CommFocus\<close>,
  \<open>CommSelect\<close> and \<open>CommBoth\<close> have one length; and in every state with that line length
  whose buffer \<open>bf\<close> holds \<open>n\<close> lines, writing any of the four markers at the start of line
  \<open>i < n\<close> (the \<open>bf.replace(i * TextLineLength, Comm.size(), Comm)\<close> of \<open>swap_select\<close> and of the
  navigation operations) succeeds, leaves the length of \<open>bf\<close> unchanged, reads back as the
  marker written, and leaves every character of every other line, and every character of
  line \<open>i\<close> behind the marker, as it was.
\<close>

theorem marker_patch_non_interference:
  assumes "initialize s0 = Inr s"
  shows "length (CommInit s) = length (CommFocus s)
    \<and> length (CommFocus s) = length (CommSelect s)
    \<and> length (CommSelect s) = length (CommBoth s)
    \<and> (\<forall>t n i m.
          TextLineLength t = TextLineLength s \<longrightarrow>
          int (length (bf t)) = TextLineLength s * int n \<longrightarrow> i < n \<longrightarrow>
          m \<in> {CommInit s, CommFocus s, CommSelect s, CommBoth s} \<longrightarrow>
          (\<exists>t'. write_marker t (int i) m = Inr t'
             \<and> length (bf t') = length (bf t)
             \<and> take (length m) (drop (nat (int i * TextLineLength s)) (bf t')) = m
             \<and> (\<forall>j d. j < n \<longrightarrow> int d < TextLineLength s \<longrightarrow> (j \<noteq> i \<or> length m \<le> d) \<longrightarrow>
                   bf t' ! (nat (int j * TextLineLength s) + d)
                   = bf t ! (nat (int j * TextLineLength s) + d))))"
proof -
  note m = markers_same_width [OF assms]
  have "\<exists>t'. write_marker t (int i) m = Inr t'
             \<and> length (bf t') = length (bf t)
             \<and> take (length m) (drop (nat (int i * TextLineLength s)) (bf t')) = m
             \<and> (\<forall>j d. j < n \<longrightarrow> int d < TextLineLength s \<longrightarrow> (j \<noteq> i \<or> length m \<le> d) \<longrightarrow>
                   bf t' ! (nat (int j * TextLineLength s) + d)
                   = bf t ! (nat (int j * TextLineLength s) + d))"
    if tl: "TextLineLength t = TextLineLength s"
      and len: "int (length (bf t)) = TextLineLength s * int n" and i: "i < n"
      and mm: "m \<in> {CommInit s, CommFocus s, CommSelect s, CommBoth s}"
    for t n i m
  proof -
    obtain buf' where r: "wstring_replace (bf t) (TextLineLength s * int i) (length m) m = Inr buf'"
      and l: "length buf' = length (bf t)"
      and k: "take (length m) (drop (nat (TextLineLength s * int i)) buf') = m"
      and o: "\<forall>j d. j < n \<longrightarrow> int d < TextLineLength s \<longrightarrow> (j \<noteq> i \<or> length m \<le> d) \<longrightarrow>
                   buf' ! (nat (TextLineLength s * int j) + d)
                   = bf t ! (nat (TextLineLength s * int j) + d)"
      using m len i mm by blast
    have "write_marker t (int i) m = Inr (t\<lparr>bf := buf'\<rparr>)"
      using r by (simp add: write_marker_def tl mult.commute)
    then show ?thesis
      using l k o by (simp add: mult.commute)
  qed
  then show ?thesis
    using m by blast
qed

theorem marker_patch_non_interference_witness:
  "initialize dbox_fresh = Inr dbox_init
   \<and> length (CommInit dbox_init) = length (CommFocus dbox_init)
   \<and> length (CommFocus dbox_init) = length (CommSelect dbox_init)
   \<and> length (CommSelect dbox_init) = length (CommBoth dbox_init)
   \<and> (\<exists>t'. write_marker dbox30 3 (CommFocus dbox_init) = Inr t'
         \<and> length (bf t') = length (bf dbox30)
         \<and> take (length (CommFocus dbox_init)) (drop (nat (3 * TextLineLength dbox_init)) (bf t'))
             = CommFocus dbox_init
         \<and> bf t' ! (nat (4 * TextLineLength dbox_init) + 0)
             = bf dbox30 ! (nat (4 * TextLineLength dbox_init) + 0))"
proof -
  note m = marker_patch_non_interference [OF dbox_init_eq]
  have q: "\<exists>t'. write_marker dbox30 (int 3) (CommFocus dbox_init) = Inr t'
             \<and> length (bf t') = length (bf dbox30)
             \<and> take (length (CommFocus dbox_init))
                  (drop (nat (int 3 * TextLineLength dbox_init)) (bf t')) = CommFocus dbox_init
             \<and> (\<forall>j d. j < 30 \<longrightarrow> int d < TextLineLength dbox_init \<longrightarrow>
                   (j \<noteq> 3 \<or> length (CommFocus dbox_init) \<le> d) \<longrightarrow>
                   bf t' ! (nat (int j * TextLineLength dbox_init) + d)
                   = bf dbox30 ! (nat (int j * TextLineLength dbox_init) + d))"
    using m dbox30_lines(1,2) by (elim conjE allE [of _ dbox30] allE [of _ 30] allE [of _ 3]
        allE [of _ "CommFocus dbox_init"]) simp
  then obtain t' where w: "write_marker dbox30 (int 3) (CommFocus dbox_init) = Inr t'"
    and l: "length (bf t') = length (bf dbox30)"
    and k: "take (length (CommFocus dbox_init))
                  (drop (nat (int 3 * TextLineLength dbox_init)) (bf t')) = CommFocus dbox_init"
    and o: "\<forall>j d. j < 30 \<longrightarrow> int d < TextLineLength dbox_init \<longrightarrow>
                   (j \<noteq> 3 \<or> length (CommFocus dbox_init) \<le> d) \<longrightarrow>
                   bf t' ! (nat (int j * TextLineLength dbox_init) + d)
                   = bf dbox30 ! (nat (int j * TextLineLength dbox_init) + d)"
    by blast
  have "bf t' ! (nat (int 4 * TextLineLength dbox_init) + 0)
      = bf dbox30 ! (nat (int 4 * TextLineLength dbox_init) + 0)"
    using o dbox30_lines(3) by (elim allE [of _ 4] allE [of _ 0]) simp
  then show ?thesis
    using dbox_init_eq m w l k by simp
qed

section \<open>Directory list: navigation\<close>

lemma same_layout_refl [simp]: "same_layout s s"
  by (simp add: same_layout_def)

lemma same_layout_trans: "same_layout s s1 \<Longrightarrow> same_layout s1 s2 \<Longrightarrow> same_layout s s2"
  by (simp add: same_layout_def)

lemma dbox_wf_buf: "dbox_wf s \<Longrightarrow> dbox_buf s"
  by (simp add: dbox_wf_def)

lemma same_layout_buf: "same_layout s s' \<Longrightarrow> dbox_buf s \<Longrightarrow> dbox_buf s'"
  by (simp add: same_layout_def dbox_buf_def)

lemma same_layout_wf: "same_layout s s' \<Longrightarrow> dbox_wf s \<Longrightarrow> dbox_wf s'"
  by (simp add: same_layout_def dbox_wf_def dbox_buf_def)

lemma same_layout_index_updates [simp]:
  "same_layout s (s'\<lparr>FocusIndex := x\<rparr>) = same_layout s s'"
  "same_layout s (s'\<lparr>TopIndex := x\<rparr>) = same_layout s s'"
  "same_layout s (s'\<lparr>TempBuffer := t\<rparr>) = same_layout s s'"
  "same_layout (s\<lparr>FocusIndex := x\<rparr>) s' = same_layout s s'"
  "same_layout (s\<lparr>TopIndex := x\<rparr>) s' = same_layout s s'"
  "same_layout (s\<lparr>TempBuffer := t\<rparr>) s' = same_layout s s'"
  by (simp_all add: same_layout_def)

lemma dbox_buf_index_updates [simp]:
  "dbox_buf (s\<lparr>FocusIndex := x\<rparr>) = dbox_buf s"
  "dbox_buf (s\<lparr>TopIndex := x\<rparr>) = dbox_buf s"
  "dbox_buf (s\<lparr>TempBuffer := t\<rparr>) = dbox_buf s"
  by (simp_all add: dbox_buf_def)

lemma dbox_wf_index_updates [simp]:
  "dbox_wf (s\<lparr>FocusIndex := x\<rparr>) = dbox_wf s"
  "dbox_wf (s\<lparr>TopIndex := x\<rparr>) = dbox_wf s"
  "dbox_wf (s\<lparr>TempBuffer := t\<rparr>) = dbox_wf s"
  by (simp_all add: dbox_wf_def dbox_buf_def)

lemma row_fits:
  assumes "dbox_buf s" "0 \<le> i" "i < NumIndexes s"
  shows "0 \<le> i * TextLineLength s"
    and "nat (i * TextLineLength s) + length (CommInit s) \<le> length (bf s)"
proof -
  have t: "0 \<le> TextLineLength s" and c: "int (length (CommInit s)) \<le> TextLineLength s"
    and b: "TextLineLength s * NumIndexes s \<le> int (length (bf s))"
    using assms(1) by (simp_all add: dbox_buf_def)
  show p: "0 \<le> i * TextLineLength s"
    using t assms(2) by simp
  have "i * TextLineLength s + TextLineLength s = TextLineLength s * (i + 1)"
    by (simp add: algebra_simps)
  also have "\<dots> \<le> TextLineLength s * NumIndexes s"
    using t assms(3) by (intro mult_left_mono) simp_all
  finally have "i * TextLineLength s + int (length (CommInit s)) \<le> int (length (bf s))"
    using c b by simp
  then show "nat (i * TextLineLength s) + length (CommInit s) \<le> length (bf s)"
    using p by simp
qed

lemma line_start_fits:
  assumes "dbox_buf s" "0 \<le> i" "i \<le> NumIndexes s"
  shows "0 \<le> TextLineLength s * i" and "TextLineLength s * i \<le> int (length (bf s))"
proof -
  have t: "0 \<le> TextLineLength s"
    and b: "TextLineLength s * NumIndexes s \<le> int (length (bf s))"
    using assms(1) by (simp_all add: dbox_buf_def)
  show "0 \<le> TextLineLength s * i"
    using t assms(2) by simp
  have "TextLineLength s * i \<le> TextLineLength s * NumIndexes s"
    using t assms(3) by (intro mult_left_mono)
  then show "TextLineLength s * i \<le> int (length (bf s))"
    using b by simp
qed

lemma write_marker_step:
  assumes "dbox_buf s" "0 \<le> i" "i < NumIndexes s" "length Comm = length (CommInit s)"
  shows "write_marker s i Comm = Inr (s\<lparr>bf := patch (bf s) (nat (i * TextLineLength s)) Comm\<rparr>)"
    and "length (patch (bf s) (nat (i * TextLineLength s)) Comm) = length (bf s)"
proof -
  note f = row_fits [OF assms(1-3)]
  show "write_marker s i Comm = Inr (s\<lparr>bf := patch (bf s) (nat (i * TextLineLength s)) Comm\<rparr>)"
    using f assms(4) by (simp add: write_marker_def wstring_replace_same_width)
  show "length (patch (bf s) (nat (i * TextLineLength s)) Comm) = length (bf s)"
    using f assms(4) by (simp add: length_patch)
qed

lemma column_valid:
  assumes "dbox_buf s" "0 \<le> i" "i < NumIndexes s"
  shows "column s i = Inr (NameColumns s ! nat i)"
  using assms by (simp add: column_def dbox_buf_def)

lemma unmark_focus_step:
  assumes "dbox_buf s" "0 \<le> FocusIndex s" "FocusIndex s < NumIndexes s"
  shows "\<exists>s'. unmark_focus s = Inr s' \<and> render_step s s'"
proof -
  let ?m = "if Selected (NameColumns s ! nat (FocusIndex s)) then CommSelect s else CommInit s"
  have l: "length ?m = length (CommInit s)"
    using assms(1) by (simp add: dbox_buf_def)
  have "unmark_focus s = write_marker s (FocusIndex s) ?m"
    by (simp add: unmark_focus_def column_valid [OF assms])
  then show ?thesis
    using write_marker_step [OF assms l]
    by (simp add: render_step_def same_layout_def)
qed

lemma mark_focus_step:
  assumes "dbox_buf s" "0 \<le> FocusIndex s" "FocusIndex s < NumIndexes s"
  shows "\<exists>s'. mark_focus s = Inr s' \<and> render_step s s'"
proof -
  let ?m = "if Selected (NameColumns s ! nat (FocusIndex s)) then CommBoth s else CommFocus s"
  have l: "length ?m = length (CommInit s)"
    using assms(1) by (simp add: dbox_buf_def)
  have "mark_focus s = write_marker s (FocusIndex s) ?m"
    by (simp add: mark_focus_def column_valid [OF assms])
  then show ?thesis
    using write_marker_step [OF assms l]
    by (simp add: render_step_def same_layout_def)
qed

lemma write_lines_step:
  assumes "dbox_buf s" "0 \<le> first" "first \<le> NumIndexes s"
  shows "\<exists>s'. write_lines s first count = Inr s' \<and> render_step s s'"
  using line_start_fits [OF assms]
  by (simp add: write_lines_def wstring_substr_def Write_def render_step_def same_layout_def)

lemma position_and_write_step [simp]: "render_step s (position_and_write s c)"
  by (simp add: position_and_write_def Write_def Let_def render_step_def same_layout_def)

lemma HorizontalScrollBar_draw_total:
  assumes "0 \<le> BarLength sb"
  shows "\<exists>t. HorizontalScrollBar_draw sb buf f n = Inr t"
  using assms by (simp add: HorizontalScrollBar_draw_def Let_def split_def)

lemma HorizontalScrollBar_draw_items:
  assumes "n \<noteq> 0"
  shows "\<exists>t. HorizontalScrollBar_draw sb buf f n = Inr t"
  using assms by (simp add: HorizontalScrollBar_draw_def Let_def split_def)

lemma HorizontalScrollBar_draw_no_items:
  assumes "BarLength sb < 0"
  shows "HorizontalScrollBar_draw sb buf f 0 = Inl undefined_behaviour"
  using assms by (simp add: HorizontalScrollBar_draw_def Let_def split_def)

lemma VerticalScrollBar_draw_total:
  assumes "n \<noteq> 0"
  shows "\<exists>t. VerticalScrollBar_draw sb buf f n = Inr t"
  using assms by (simp add: VerticalScrollBar_draw_def Let_def split_def)

lemma render_step_refl [simp]: "render_step s s"
  by (simp add: render_step_def)

lemma render_step_TempBuffer [simp]: "render_step s (s\<lparr>TempBuffer := t\<rparr>)"
  by (simp add: render_step_def)

lemma render_step_trans: "render_step s s1 \<Longrightarrow> render_step s1 s2 \<Longrightarrow> render_step s s2"
  by (auto simp: render_step_def intro: same_layout_trans)

lemma hScroll_if_sized_drawn:
  assumes "dbox_buf s" "0 \<le> i" "i < NumIndexes s" "0 \<le> j" "j < NumIndexes s"
    and "0 \<le> BarLength (hScroll s) \<or> name_column_size (NameColumns s ! nat i) = 0
         \<or> name_column_size (NameColumns s ! nat j) \<noteq> 0"
  shows "\<exists>s'. hScroll_if_sized s i j = Inr s' \<and> render_step s s'"
proof -
  let ?ci = "NameColumns s ! nat i" and ?cj = "NameColumns s ! nat j"
  note c = column_valid [OF assms(1) assms(2,3)] column_valid [OF assms(1) assms(4,5)]
  show ?thesis
  proof (cases "name_column_size ?ci = 0 \<and> name_column_size ?cj = 0")
    case True
    then have "hScroll_if_sized s i j = Inr s"
      by (simp add: hScroll_if_sized_def c)
    then show ?thesis
      by simp
  next
    case False
    have "0 \<le> BarLength (hScroll s) \<or> name_column_size ?cj \<noteq> 0"
      using assms(6) False by blast
    then obtain t where d: "HorizontalScrollBar_draw (hScroll s) (TempBuffer s)
        (FirstIndex ?cj - LeftColumnSize s) (name_column_size ?cj) = Inr t"
      using HorizontalScrollBar_draw_total HorizontalScrollBar_draw_items by blast
    have "hScroll_if_sized s i j = Inr (s\<lparr>TempBuffer := t\<rparr>)"
      using False by (auto simp: hScroll_if_sized_def c d)
    then show ?thesis
      by simp
  qed
qed

lemma hScroll_if_sized_step:
  assumes "dbox_wf s" "0 \<le> i" "i < NumIndexes s" "0 \<le> j" "j < NumIndexes s"
  shows "\<exists>s'. hScroll_if_sized s i j = Inr s' \<and> render_step s s'"
  using hScroll_if_sized_drawn [OF dbox_wf_buf [OF assms(1)] assms(2-5)] assms(1)
  by (simp add: dbox_wf_def)

lemma draw_scrollbars_step:
  assumes "dbox_wf s" "0 \<le> FocusIndex s" "FocusIndex s < NumIndexes s"
  shows "\<exists>s'. draw_scrollbars s = Inr s' \<and> render_step s s'"
proof -
  have "NumIndexes s \<noteq> 0"
    using assms by simp
  then obtain t1 where v: "VerticalScrollBar_draw (vScroll s) (TempBuffer s) (TopIndex s)
      (NumIndexes s) = Inr t1"
    using VerticalScrollBar_draw_total by blast
  let ?c = "NameColumns s ! nat (FocusIndex s)"
  obtain t2 where h: "HorizontalScrollBar_draw (hScroll s) t1
      (FirstIndex ?c - LeftColumnSize s) (name_column_size ?c) = Inr t2"
    using HorizontalScrollBar_draw_total assms(1) unfolding dbox_wf_def dbox_buf_def by blast
  have "draw_scrollbars s = Inr (s\<lparr>TempBuffer := t2\<rparr>)"
    by (simp add: draw_scrollbars_def v h column_valid [OF dbox_wf_buf [OF assms(1)] assms(2,3)])
  then show ?thesis
    by simp
qed

lemma render_step_fields:
  assumes "render_step s s'"
  shows "TopIndex s' = TopIndex s" "FocusIndex s' = FocusIndex s" "NumIndexes s' = NumIndexes s"
    "Area s' = Area s" "same_layout s s'"
  using assms by (simp_all add: render_step_def same_layout_def)

lemma render_step_wf: "render_step s s' \<Longrightarrow> dbox_wf s \<Longrightarrow> dbox_wf s'"
  by (auto simp: render_step_def intro: same_layout_wf)

lemma tracks_start [simp]: "tracks s (TopIndex s) (FocusIndex s) s"
  by (simp add: tracks_def)

lemma tracks_render: "tracks s0 tp fc s \<Longrightarrow> render_step s s' \<Longrightarrow> tracks s0 tp fc s'"
  by (auto simp: tracks_def render_step_def intro: same_layout_trans)

lemma tracks_updates [simp]:
  "tracks s0 tp fc (s\<lparr>TempBuffer := t\<rparr>) = tracks s0 tp fc s"
  "tracks s0 tp fc (s\<lparr>FocusIndex := fc2\<rparr>) = (same_layout s0 s \<and> TopIndex s = tp \<and> fc2 = fc)"
  "tracks s0 tp fc (s\<lparr>TopIndex := tp2\<rparr>) = (same_layout s0 s \<and> tp2 = tp \<and> FocusIndex s = fc)"
  by (auto simp: tracks_def)

lemma tracks_fields:
  assumes "tracks s0 tp fc s"
  shows "TopIndex s = tp" "FocusIndex s = fc" "NumIndexes s = NumIndexes s0" "Area s = Area s0"
    "same_layout s0 s"
  using assms by (simp_all add: tracks_def same_layout_def)

lemma tracks_buf: "tracks s0 tp fc s \<Longrightarrow> dbox_buf s0 \<Longrightarrow> dbox_buf s"
  by (auto simp: tracks_def intro: same_layout_buf)

lemma tracks_wf: "tracks s0 tp fc s \<Longrightarrow> dbox_wf s0 \<Longrightarrow> dbox_wf s"
  by (auto simp: tracks_def intro: same_layout_wf)

lemma tracks_position_and_write:
  "tracks s0 tp fc s \<Longrightarrow> tracks s0 tp fc (position_and_write s c)"
  by (erule tracks_render) (rule position_and_write_step)

lemma unmark_focus_tracks:
  assumes "dbox_buf s0" "tracks s0 tp fc s" "0 \<le> fc" "fc < NumIndexes s0"
  shows "\<exists>s'. unmark_focus s = Inr s' \<and> tracks s0 tp fc s'"
  using unmark_focus_step [of s] tracks_fields [OF assms(2)] tracks_buf [OF assms(2,1)] assms
  by (auto intro: tracks_render)

lemma mark_focus_tracks:
  assumes "dbox_buf s0" "tracks s0 tp fc s" "0 \<le> fc" "fc < NumIndexes s0"
  shows "\<exists>s'. mark_focus s = Inr s' \<and> tracks s0 tp fc s'"
  using mark_focus_step [of s] tracks_fields [OF assms(2)] tracks_buf [OF assms(2,1)] assms
  by (auto intro: tracks_render)

lemma write_lines_tracks:
  assumes "dbox_buf s0" "tracks s0 tp fc s" "0 \<le> first" "first \<le> NumIndexes s0"
  shows "\<exists>s'. write_lines s first count = Inr s' \<and> tracks s0 tp fc s'"
  using write_lines_step [of s first count] tracks_fields [OF assms(2)]
    tracks_buf [OF assms(2,1)] assms
  by (auto intro: tracks_render)

lemma hScroll_if_sized_tracks:
  assumes "dbox_wf s0" "tracks s0 tp fc s" "0 \<le> i" "i < NumIndexes s0" "0 \<le> j" "j < NumIndexes s0"
  shows "\<exists>s'. hScroll_if_sized s i j = Inr s' \<and> tracks s0 tp fc s'"
  using hScroll_if_sized_step [of s i j] tracks_fields [OF assms(2)]
    tracks_wf [OF assms(2,1)] assms
  by (auto intro: tracks_render)

lemma hScroll_if_sized_drawn_tracks:
  assumes "dbox_buf s0" "tracks s0 tp fc s" "0 \<le> i" "i < NumIndexes s0" "0 \<le> j" "j < NumIndexes s0"
    and "0 \<le> BarLength (hScroll s0) \<or> name_column_size (NameColumns s0 ! nat i) = 0
         \<or> name_column_size (NameColumns s0 ! nat j) \<noteq> 0"
  shows "\<exists>s'. hScroll_if_sized s i j = Inr s' \<and> tracks s0 tp fc s'"
proof -
  have l: "same_layout s0 s"
    using assms(2) by (simp add: tracks_def)
  then have e: "NumIndexes s = NumIndexes s0" "hScroll s = hScroll s0"
    "NameColumns s = NameColumns s0"
    by (simp_all add: same_layout_def)
  obtain s' where "hScroll_if_sized s i j = Inr s'" and "render_step s s'"
    using hScroll_if_sized_drawn [OF tracks_buf [OF assms(2,1)], of i j] assms(3-7)
    unfolding e by blast
  then show ?thesis
    using tracks_render [OF assms(2)] by blast
qed

lemma draw_scrollbars_tracks:
  assumes "dbox_wf s0" "tracks s0 tp fc s" "0 \<le> fc" "fc < NumIndexes s0"
  shows "\<exists>s'. draw_scrollbars s = Inr s' \<and> tracks s0 tp fc s'"
  using draw_scrollbars_step [of s] tracks_fields [OF assms(2)] tracks_wf [OF assms(2,1)] assms
  by (auto intro: tracks_render)

lemma page_down_within:
  assumes wf: "dbox_wf s" and inv: "viewport_inv s"
    and br: "FocusIndex s < min (TopIndex s + num_rows (Area s) - 2) (NumIndexes s - 1)"
  shows "\<exists>s'. page_down s = Inr (FocusIndex s', s')
          \<and> tracks s (TopIndex s) (min (TopIndex s + num_rows (Area s) - 2) (NumIndexes s - 1)) s'"
proof -
  let ?B = "min (TopIndex s + num_rows (Area s) - 2) (NumIndexes s - 1)"
  let ?tp = "TopIndex s" and ?fc = "FocusIndex s"
  have i: "0 \<le> ?fc" "?fc < NumIndexes s" "?fc \<le> NumIndexes s" "0 \<le> ?B" "?B < NumIndexes s"
    "?B \<le> NumIndexes s"
    using inv br by (simp_all add: viewport_inv_def)
  have u0: "tracks s ?tp ?fc (s\<lparr>TempBuffer := []\<rparr>)"
    by simp
  obtain s1 where 1: "hScroll_if_sized (s\<lparr>TempBuffer := []\<rparr>) ?fc ?B = Inr s1"
    and t1: "tracks s ?tp ?fc s1"
    using hScroll_if_sized_tracks [OF wf u0 i(1) i(2) i(4) i(5)] by blast
  obtain s2 where 2: "unmark_focus s1 = Inr s2" and t2: "tracks s ?tp ?fc s2"
    using unmark_focus_tracks [OF dbox_wf_buf [OF wf] t1 i(1) i(2)] by blast
  let ?p2 = "position_and_write s2 (offset (Top (Area s2)) (FocusIndex s2 - TopIndex s2) 0)"
  obtain s3 where 3: "write_lines ?p2 (FocusIndex s2) 1 = Inr s3" and t3: "tracks s ?tp ?fc s3"
    using write_lines_tracks [OF dbox_wf_buf [OF wf] tracks_position_and_write [OF t2], of "FocusIndex s2"]
      i(1) i(3) unfolding tracks_fields(2) [OF t2] by blast
  have u3: "tracks s ?tp ?B (s3\<lparr>FocusIndex := ?B\<rparr>)"
    using t3 by (simp add: tracks_def)
  obtain s4 where 4: "mark_focus (s3\<lparr>FocusIndex := ?B\<rparr>) = Inr s4" and t4: "tracks s ?tp ?B s4"
    using mark_focus_tracks [OF dbox_wf_buf [OF wf] u3 i(4) i(5)] by blast
  let ?p4 = "position_and_write (s4\<lparr>TempBuffer := []\<rparr>)
      (offset (Top (Area s4)) (?B - TopIndex s4) 0)"
  have u4: "tracks s ?tp ?B (s4\<lparr>TempBuffer := []\<rparr>)"
    using t4 by simp
  obtain s5 where 5: "write_lines ?p4 (FocusIndex s4) 1 = Inr s5" and t5: "tracks s ?tp ?B s5"
    using write_lines_tracks [OF dbox_wf_buf [OF wf] tracks_position_and_write [OF u4], of "FocusIndex s4"]
      i(4) i(6) unfolding tracks_fields(2) [OF t4] by blast
  have c: "(NumIndexes s = 0) = False" "(?fc < ?B) = True"
    using i br by simp_all
  have "page_down s = Inr (FocusIndex s5, s5)"
    unfolding page_down_def Let_def
    by (simp only: c if_False if_True 1 2 3 4 5 and_then_Inr)
  then show ?thesis
    using t5 by blast
qed

lemma page_down_scroll:
  assumes wf: "dbox_wf s" and inv: "viewport_inv s"
    and br: "\<not> FocusIndex s < min (TopIndex s + num_rows (Area s) - 2) (NumIndexes s - 1)"
      "min (TopIndex s + num_rows (Area s) - 2) (NumIndexes s - 1) < NumIndexes s - 1"
  shows "\<exists>s'. page_down s = Inr (FocusIndex s', s')
          \<and> tracks s
               (max 0 (min (min (TopIndex s + num_rows (Area s) - 2) (NumIndexes s - 1)
                            + (num_rows (Area s) - 2)) (NumIndexes s - 1)
                       - (num_rows (Area s) - 2)))
               (min (min (TopIndex s + num_rows (Area s) - 2) (NumIndexes s - 1)
                     + (num_rows (Area s) - 2)) (NumIndexes s - 1)) s'"
proof -
  let ?B = "min (TopIndex s + num_rows (Area s) - 2) (NumIndexes s - 1)"
  let ?tp = "TopIndex s" and ?fc = "FocusIndex s"
  have i: "0 \<le> ?fc" "?fc < NumIndexes s" "0 < NumIndexes s" "0 \<le> ?tp"
    "1 \<le> num_rows (Area s) - 1"
    using inv by (simp_all add: viewport_inv_def)
  obtain s1 where 1: "unmark_focus s = Inr s1" and t1: "tracks s ?tp ?fc s1"
    using unmark_focus_tracks [OF dbox_wf_buf [OF wf] tracks_start i(1) i(2)] by blast
  note a1 = tracks_fields [OF t1]
  let ?B2 = "min (?B + (num_rows (Area s1) - 2)) (NumIndexes s1 - 1)"
  have b2: "0 \<le> ?B2" "?B2 < NumIndexes s"
    using i unfolding a1 by simp_all
  have u1: "tracks s ?tp ?B2 (s1\<lparr>FocusIndex := ?B2\<rparr>)"
    using a1(1,5) by (simp only: tracks_updates simp_thms)
  obtain s3 where 3: "mark_focus (s1\<lparr>FocusIndex := ?B2\<rparr>) = Inr s3" and t3: "tracks s ?tp ?B2 s3"
    using mark_focus_tracks [OF dbox_wf_buf [OF wf] u1 b2] by blast
  note a3 = tracks_fields [OF t3]
  let ?s4 = "s3\<lparr>TopIndex := ?B2 - (num_rows (Area s3) - 2)\<rparr>"
  let ?s5 = "?s4\<lparr>TopIndex := max 0 (TopIndex ?s4)\<rparr>"
  let ?T2 = "max 0 (?B2 - (num_rows (Area s3) - 2))"
  have e5: "?s5 = s3\<lparr>TopIndex := ?T2\<rparr>"
    by simp
  have u5: "tracks s ?T2 ?B2 (?s5\<lparr>TempBuffer := []\<rparr>)"
    unfolding e5 using a3(2,5) by (simp only: tracks_updates simp_thms)
  obtain s6 where 6: "draw_scrollbars (?s5\<lparr>TempBuffer := []\<rparr>) = Inr s6"
    and t6: "tracks s ?T2 ?B2 s6"
    using draw_scrollbars_tracks [OF wf u5 b2] by blast
  note a6 = tracks_fields [OF t6]
  have top: "0 \<le> ?T2" "?T2 \<le> NumIndexes s"
    using b2 i unfolding a1 a3 by simp_all
  have e6: "TopIndex ?s5 = TopIndex s6"
    unfolding a6 by simp
  obtain s7 where 7: "write_lines (position_and_write s6 (Top (Area s6))) (TopIndex s6)
      (?B2 - TopIndex ?s5 + 1) = Inr s7" and t7: "tracks s ?T2 ?B2 s7"
    using write_lines_tracks [OF dbox_wf_buf [OF wf] tracks_position_and_write [OF t6] top]
    unfolding a6(1) by blast
  have c: "(NumIndexes s = 0) = False" "(?fc < ?B) = False" "(?B < NumIndexes s - 1) = True"
    using i(3) br by simp_all
  have "page_down s = Inr (FocusIndex s7, s7)"
    unfolding page_down_def Let_def
    by (simp only: c if_False if_True 1 3 6 7 and_then_Inr)
  then show ?thesis
    using t7 unfolding a1 a3 by blast
qed

lemma page_down_at_end:
  assumes "NumIndexes s \<noteq> 0"
    and "\<not> FocusIndex s < min (TopIndex s + num_rows (Area s) - 2) (NumIndexes s - 1)"
    and "\<not> min (TopIndex s + num_rows (Area s) - 2) (NumIndexes s - 1) < NumIndexes s - 1"
  shows "page_down s = Inr (FocusIndex s, s)"
  unfolding page_down_def Let_def using assms by (simp only: if_False if_True simp_thms)

lemma page_up_within:
  assumes wf: "dbox_wf s" and inv: "viewport_inv s"
    and br: "TopIndex s < FocusIndex s"
  shows "\<exists>s'. page_up s = Inr (FocusIndex s', s') \<and> tracks s (TopIndex s) (TopIndex s) s'"
proof -
  let ?tp = "TopIndex s" and ?fc = "FocusIndex s"
  have i: "0 \<le> ?fc" "?fc < NumIndexes s" "?fc \<le> NumIndexes s" "0 \<le> ?tp" "?tp < NumIndexes s"
    "?tp \<le> NumIndexes s"
    using inv br by (simp_all add: viewport_inv_def)
  have u0: "tracks s ?tp ?fc (s\<lparr>TempBuffer := []\<rparr>)"
    by simp
  obtain s1 where 1: "hScroll_if_sized (s\<lparr>TempBuffer := []\<rparr>) ?fc ?tp = Inr s1"
    and t1: "tracks s ?tp ?fc s1"
    using hScroll_if_sized_tracks [OF wf u0 i(1) i(2) i(4) i(5)] by blast
  obtain s2 where 2: "unmark_focus s1 = Inr s2" and t2: "tracks s ?tp ?fc s2"
    using unmark_focus_tracks [OF dbox_wf_buf [OF wf] t1 i(1) i(2)] by blast
  let ?p2 = "position_and_write s2 (offset (Top (Area s2)) (FocusIndex s2 - TopIndex s2) 0)"
  obtain s3 where 3: "write_lines ?p2 (FocusIndex s2) 1 = Inr s3" and t3: "tracks s ?tp ?fc s3"
    using write_lines_tracks [OF dbox_wf_buf [OF wf] tracks_position_and_write [OF t2], of "FocusIndex s2"]
      i(1) i(3) unfolding tracks_fields(2) [OF t2] by blast
  note a3 = tracks_fields [OF t3]
  have u3: "tracks s ?tp ?tp (s3\<lparr>FocusIndex := TopIndex s3\<rparr>)"
    using a3(1,5) by (simp only: tracks_updates simp_thms)
  obtain s4 where 4: "mark_focus (s3\<lparr>FocusIndex := TopIndex s3\<rparr>) = Inr s4"
    and t4: "tracks s ?tp ?tp s4"
    using mark_focus_tracks [OF dbox_wf_buf [OF wf] u3 i(4) i(5)] by blast
  have u4: "tracks s ?tp ?tp (s4\<lparr>TempBuffer := []\<rparr>)"
    using t4 by simp
  obtain s5 where 5: "write_lines (position_and_write (s4\<lparr>TempBuffer := []\<rparr>) (Top (Area s4)))
      (FocusIndex s4) 1 = Inr s5" and t5: "tracks s ?tp ?tp s5"
    using write_lines_tracks [OF dbox_wf_buf [OF wf] tracks_position_and_write [OF u4], of "FocusIndex s4"]
      i(4) i(6) unfolding tracks_fields(2) [OF t4] by blast
  have c: "(NumIndexes s = 0) = False" "(?tp < ?fc) = True"
    using i br by simp_all
  have "page_up s = Inr (FocusIndex s5, s5)"
    unfolding page_up_def Let_def
    by (simp only: c if_False if_True 1 2 3 4 5 and_then_Inr)
  then show ?thesis
    using t5 by blast
qed

lemma page_up_scroll:
  assumes wf: "dbox_wf s" and inv: "viewport_inv s"
    and br: "\<not> TopIndex s < FocusIndex s" "0 < TopIndex s"
  shows "\<exists>s'. page_up s = Inr (FocusIndex s', s')
          \<and> tracks s (max 0 (TopIndex s - (num_rows (Area s) - 1)))
               (max 0 (TopIndex s - (num_rows (Area s) - 1))) s'"
proof -
  let ?tp = "TopIndex s" and ?fc = "FocusIndex s"
  have i: "0 \<le> ?fc" "?fc < NumIndexes s" "0 < NumIndexes s" "0 \<le> ?tp" "?tp < NumIndexes s"
    "1 \<le> num_rows (Area s) - 1"
    using inv by (simp_all add: viewport_inv_def)
  obtain s1 where 1: "unmark_focus s = Inr s1" and t1: "tracks s ?tp ?fc s1"
    using unmark_focus_tracks [OF dbox_wf_buf [OF wf] tracks_start i(1) i(2)] by blast
  note a1 = tracks_fields [OF t1]
  let ?s2 = "s1\<lparr>TopIndex := TopIndex s1 - (num_rows (Area s1) - 1)\<rparr>"
  let ?s3 = "?s2\<lparr>TopIndex := max 0 (TopIndex ?s2)\<rparr>"
  let ?s4 = "?s3\<lparr>FocusIndex := TopIndex ?s3\<rparr>"
  let ?T2 = "max 0 (?tp - (num_rows (Area s) - 1))"
  have e4: "?s4 = s1\<lparr>TopIndex := ?T2, FocusIndex := ?T2\<rparr>"
    unfolding a1 by (simp add: a1)
  have t2: "0 \<le> ?T2" "?T2 < NumIndexes s" "?T2 \<le> NumIndexes s"
    using i by simp_all
  have u4: "tracks s ?T2 ?T2 ?s4"
    unfolding e4 using a1(5) by (simp add: tracks_def)
  obtain s5 where 5: "mark_focus ?s4 = Inr s5" and t5: "tracks s ?T2 ?T2 s5"
    using mark_focus_tracks [OF dbox_wf_buf [OF wf] u4 t2(1) t2(2)] by blast
  have u5: "tracks s ?T2 ?T2 (s5\<lparr>TempBuffer := []\<rparr>)"
    using t5 by simp
  obtain s6 where 6: "draw_scrollbars (s5\<lparr>TempBuffer := []\<rparr>) = Inr s6"
    and t6: "tracks s ?T2 ?T2 s6"
    using draw_scrollbars_tracks [OF wf u5 t2(1) t2(2)] by blast
  note a6 = tracks_fields [OF t6]
  obtain s7 where 7: "write_lines (position_and_write s6 (Top (Area s6))) (TopIndex s6)
      (min (num_rows (Area s) - 1) (NumIndexes s)) = Inr s7" and t7: "tracks s ?T2 ?T2 s7"
    using write_lines_tracks [OF dbox_wf_buf [OF wf] tracks_position_and_write [OF t6] t2(1) t2(3)]
    unfolding a6(1) by blast
  have c: "(NumIndexes s = 0) = False" "(?tp < ?fc) = False" "(0 < ?tp) = True"
    using i(3) br by simp_all
  have "page_up s = Inr (FocusIndex s7, s7)"
    unfolding page_up_def Let_def
    by (simp only: c if_False if_True 1 5 6 7 and_then_Inr)
  then show ?thesis
    using t7 by blast
qed

lemma page_up_at_start:
  assumes "NumIndexes s \<noteq> 0" "\<not> TopIndex s < FocusIndex s" "\<not> 0 < TopIndex s"
  shows "page_up s = Inr (FocusIndex s, s)"
  unfolding page_up_def Let_def using assms by (simp only: if_False if_True simp_thms)

lemma move_up_effect:
  assumes wf: "dbox_wf s" and inv: "viewport_inv s" and br: "0 < FocusIndex s"
  shows "\<exists>s'. move_up s = Inr (FocusIndex s', s')
          \<and> tracks s (min (TopIndex s) (FocusIndex s - 1)) (FocusIndex s - 1) s'"
proof -
  let ?tp = "TopIndex s" and ?fc = "FocusIndex s"
  have i: "0 \<le> ?fc" "?fc < NumIndexes s" "NumIndexes s \<noteq> 0" "0 \<le> ?tp"
    "0 \<le> ?fc - 1" "?fc - 1 < NumIndexes s" "?fc - 1 \<le> NumIndexes s"
    "0 \<le> ?fc - 1 + 1" "?fc - 1 + 1 < NumIndexes s"
    using inv br by (simp_all add: viewport_inv_def)
  obtain s1 where 1: "unmark_focus s = Inr s1" and t1: "tracks s ?tp ?fc s1"
    using unmark_focus_tracks [OF dbox_wf_buf [OF wf] tracks_start i(1) i(2)] by blast
  note a1 = tracks_fields [OF t1]
  have u1: "tracks s ?tp (?fc - 1) (s1\<lparr>FocusIndex := FocusIndex s1 - 1\<rparr>)"
    using a1(1,2,5) by (simp only: tracks_updates simp_thms)
  obtain s2 where 2: "mark_focus (s1\<lparr>FocusIndex := FocusIndex s1 - 1\<rparr>) = Inr s2"
    and t2: "tracks s ?tp (?fc - 1) s2"
    using mark_focus_tracks [OF dbox_wf_buf [OF wf] u1 i(5) i(6)] by blast
  note a2 = tracks_fields [OF t2]
  let ?s3 = "s2\<lparr>TempBuffer := []\<rparr>"
  have t3: "tracks s ?tp (?fc - 1) ?s3"
    using t2 by simp
  show ?thesis
  proof (cases "?fc - 1 < ?tp")
    case True
    let ?s4 = "?s3\<lparr>TopIndex := FocusIndex ?s3\<rparr>"
    have t4: "tracks s (?fc - 1) (?fc - 1) ?s4"
      using a2 by (simp add: tracks_def)
    have n4: "NumIndexes ?s4 \<noteq> 0"
      using i(3) a2(3) by simp
    obtain t where v: "VerticalScrollBar_draw (vScroll ?s4) (TempBuffer ?s4) (TopIndex ?s4)
        (NumIndexes ?s4) = Inr t"
      using VerticalScrollBar_draw_total [OF n4] by blast
    let ?s5 = "?s4\<lparr>TempBuffer := t\<rparr>"
    have t5: "tracks s (?fc - 1) (?fc - 1) ?s5"
      using t4 by (simp only: tracks_updates)
    have f5: "FocusIndex ?s5 = ?fc - 1"
      using a2 by simp
    obtain s6 where 6: "hScroll_if_sized ?s5 (FocusIndex ?s5 + 1) (FocusIndex ?s5) = Inr s6"
      and t6: "tracks s (?fc - 1) (?fc - 1) s6"
      using hScroll_if_sized_tracks [OF wf t5 i(8) i(9) i(5) i(6)] unfolding f5 by blast
    note a6 = tracks_fields [OF t6]
    obtain s7 where 7: "write_lines (position_and_write s6
        (offset (Top (Area s6)) (FocusIndex s6 - TopIndex s6) 0)) (FocusIndex s6)
        (num_rows (Area ?s4) - 1) = Inr s7" and t7: "tracks s (?fc - 1) (?fc - 1) s7"
      using write_lines_tracks [OF dbox_wf_buf [OF wf] tracks_position_and_write [OF t6] i(5) i(7)]
      unfolding a6(2) by blast
    have c: "(NumIndexes s = 0) = False" "(0 < ?fc) = True"
      "(FocusIndex ?s3 < TopIndex ?s3) = True"
      using i br True a2 by simp_all
    have "move_up s = Inr (FocusIndex s7, s7)"
      unfolding move_up_def Let_def
      by (simp only: c if_False if_True 1 2 v 6 7 and_then_Inr prod.case)
    moreover have "min ?tp (?fc - 1) = ?fc - 1"
      using True by simp
    ultimately show ?thesis
      using t7 by auto
  next
    case False
    have f3: "FocusIndex ?s3 = ?fc - 1"
      using a2 by simp
    obtain s6 where 6: "hScroll_if_sized ?s3 (FocusIndex ?s3 + 1) (FocusIndex ?s3) = Inr s6"
      and t6: "tracks s ?tp (?fc - 1) s6"
      using hScroll_if_sized_tracks [OF wf t3 i(8) i(9) i(5) i(6)] unfolding f3 by blast
    note a6 = tracks_fields [OF t6]
    obtain s7 where 7: "write_lines (position_and_write s6
        (offset (Top (Area s6)) (FocusIndex s6 - TopIndex s6) 0)) (FocusIndex s6) 2 = Inr s7"
      and t7: "tracks s ?tp (?fc - 1) s7"
      using write_lines_tracks [OF dbox_wf_buf [OF wf] tracks_position_and_write [OF t6] i(5) i(7)]
      unfolding a6(2) by blast
    have c: "(NumIndexes s = 0) = False" "(0 < ?fc) = True"
      "(FocusIndex ?s3 < TopIndex ?s3) = False"
      using i br False a2 by simp_all
    have "move_up s = Inr (FocusIndex s7, s7)"
      unfolding move_up_def Let_def
      by (simp only: c if_False if_True 1 2 6 7 and_then_Inr prod.case)
    moreover have "min ?tp (?fc - 1) = ?tp"
      using False by simp
    ultimately show ?thesis
      using t7 by auto
  qed
qed

lemma move_up_at_start:
  assumes "NumIndexes s \<noteq> 0" "\<not> 0 < FocusIndex s"
  shows "move_up s = Inr (FocusIndex s, s)"
  unfolding move_up_def Let_def using assms by (simp only: if_False if_True simp_thms)

lemma move_down_drawn:
  assumes bw: "dbox_buf s" and inv: "viewport_inv s" and br: "FocusIndex s + 1 < NumIndexes s"
    and dr: "0 \<le> BarLength (hScroll s)
         \<or> name_column_size (NameColumns s ! nat (FocusIndex s + 1 - 1)) = 0
         \<or> name_column_size (NameColumns s ! nat (FocusIndex s + 1)) \<noteq> 0"
  shows "\<exists>s'. move_down s = Inr (FocusIndex s', s')
          \<and> tracks s (if num_rows (Area s) - 1 \<le> FocusIndex s + 1 - TopIndex s
                        then TopIndex s + 1 else TopIndex s) (FocusIndex s + 1) s'"
proof -
  let ?tp = "TopIndex s" and ?fc = "FocusIndex s"
  have i: "0 \<le> ?fc" "?fc < NumIndexes s" "NumIndexes s \<noteq> 0" "0 \<le> ?tp"
    "0 \<le> ?fc + 1" "?fc + 1 < NumIndexes s" "?fc \<le> NumIndexes s"
    "0 \<le> ?fc + 1 - 1" "?fc + 1 - 1 < NumIndexes s" "0 \<le> ?tp + 1" "?tp + 1 \<le> NumIndexes s"
    using inv br by (simp_all add: viewport_inv_def)
  obtain s1 where 1: "unmark_focus s = Inr s1" and t1: "tracks s ?tp ?fc s1"
    using unmark_focus_tracks [OF bw tracks_start i(1) i(2)] by blast
  note a1 = tracks_fields [OF t1]
  have u1: "tracks s ?tp (?fc + 1) (s1\<lparr>FocusIndex := FocusIndex s1 + 1\<rparr>)"
    using a1(1,2,5) by (simp only: tracks_updates simp_thms)
  obtain s2 where 2: "mark_focus (s1\<lparr>FocusIndex := FocusIndex s1 + 1\<rparr>) = Inr s2"
    and t2: "tracks s ?tp (?fc + 1) s2"
    using mark_focus_tracks [OF bw u1 i(5) i(6)] by blast
  note a2 = tracks_fields [OF t2]
  let ?s3 = "s2\<lparr>TempBuffer := []\<rparr>"
  have t3: "tracks s ?tp (?fc + 1) ?s3"
    using t2 by simp
  show ?thesis
  proof (cases "num_rows (Area s) - 1 \<le> ?fc + 1 - ?tp")
    case True
    let ?s4 = "?s3\<lparr>TopIndex := TopIndex ?s3 + 1\<rparr>"
    have t4: "tracks s (?tp + 1) (?fc + 1) ?s4"
      using a2 by (simp add: tracks_def)
    have n4: "NumIndexes ?s4 \<noteq> 0"
      using i(3) a2(3) by simp
    obtain t where v: "VerticalScrollBar_draw (vScroll ?s4) (TempBuffer ?s4) (TopIndex ?s4)
        (NumIndexes ?s4) = Inr t"
      using VerticalScrollBar_draw_total [OF n4] by blast
    let ?s5 = "?s4\<lparr>TempBuffer := t\<rparr>"
    have t5: "tracks s (?tp + 1) (?fc + 1) ?s5"
      using t4 by (simp only: tracks_updates)
    have f5: "FocusIndex ?s5 = ?fc + 1"
      using a2 by simp
    obtain s6 where 6: "hScroll_if_sized ?s5 (FocusIndex ?s5 - 1) (FocusIndex ?s5) = Inr s6"
      and t6: "tracks s (?tp + 1) (?fc + 1) s6"
      using hScroll_if_sized_drawn_tracks [OF bw t5 i(8) i(9) i(5) i(6) dr] unfolding f5 by blast
    have f4: "TopIndex ?s4 = ?tp + 1"
      using a2 by simp
    obtain s7 where 7: "write_lines (position_and_write s6
        (offset (Top (Area s6)) (TopIndex ?s4 - TopIndex s6) 0)) (TopIndex ?s4)
        (num_rows (Area ?s4) - 1) = Inr s7" and t7: "tracks s (?tp + 1) (?fc + 1) s7"
      using write_lines_tracks [OF bw tracks_position_and_write [OF t6] i(10) i(11)]
      unfolding f4 by blast
    have c: "(?fc + 1 < NumIndexes s) = True"
      "(num_rows (Area ?s3) - 1 \<le> FocusIndex ?s3 - TopIndex ?s3) = True"
      using br True a2 by simp_all
    have "move_down s = Inr (FocusIndex s7, s7)"
      unfolding move_down_def Let_def
      by (simp only: c if_False if_True 1 2 v 6 7 and_then_Inr prod.case)
    then show ?thesis
      using t7 True by auto
  next
    case False
    have f3: "FocusIndex ?s3 = ?fc + 1"
      using a2 by simp
    obtain s6 where 6: "hScroll_if_sized ?s3 (FocusIndex ?s3 - 1) (FocusIndex ?s3) = Inr s6"
      and t6: "tracks s ?tp (?fc + 1) s6"
      using hScroll_if_sized_drawn_tracks [OF bw t3 i(8) i(9) i(5) i(6) dr] unfolding f3 by blast
    obtain s7 where 7: "write_lines (position_and_write s6
        (offset (Top (Area s6)) (FocusIndex s - TopIndex s6) 0)) (FocusIndex s) 2 = Inr s7"
      and t7: "tracks s ?tp (?fc + 1) s7"
      using write_lines_tracks [OF bw tracks_position_and_write [OF t6] i(1) i(7)]
      by blast
    have c: "(?fc + 1 < NumIndexes s) = True"
      "(num_rows (Area ?s3) - 1 \<le> FocusIndex ?s3 - TopIndex ?s3) = False"
      using br False a2 by simp_all
    have "move_down s = Inr (FocusIndex s7, s7)"
      unfolding move_down_def Let_def
      by (simp only: c if_False if_True 1 2 6 7 and_then_Inr prod.case)
    then show ?thesis
      using t7 False by auto
  qed
qed

lemma move_down_effect:
  assumes wf: "dbox_wf s" and inv: "viewport_inv s" and br: "FocusIndex s + 1 < NumIndexes s"
  shows "\<exists>s'. move_down s = Inr (FocusIndex s', s')
          \<and> tracks s (if num_rows (Area s) - 1 \<le> FocusIndex s + 1 - TopIndex s
                        then TopIndex s + 1 else TopIndex s) (FocusIndex s + 1) s'"
  using move_down_drawn [OF dbox_wf_buf [OF wf] inv br] wf
  by (simp add: dbox_wf_def)

lemma move_down_at_end:
  assumes "\<not> FocusIndex s + 1 < NumIndexes s"
  shows "move_down s = Inr (FocusIndex s, s)"
  unfolding move_down_def Let_def using assms by (simp only: if_False if_True simp_thms)

lemma tracks_keeps:
  assumes "tracks s tp fc s'" "0 \<le> tp" "tp \<le> fc" "fc < NumIndexes s"
    "fc - tp < num_rows (Area s) - 1"
  shows "keeps_viewport s (Inr (n, s'))"
  using assms tracks_fields [OF assms(1)]
  by (simp add: keeps_viewport_def viewport_inv_def)

lemma same_keeps: "viewport_inv s \<Longrightarrow> keeps_viewport s (Inr (n, s))"
  by (simp add: keeps_viewport_def)

lemma step_up_arith:
  fixes tp fc n v :: int
  assumes "0 \<le> tp" "tp \<le> fc" "fc < n" "fc - tp < v - 1" "0 < fc"
  shows "0 \<le> min tp (fc - 1)" "min tp (fc - 1) \<le> fc - 1" "fc - 1 < n"
    "fc - 1 - min tp (fc - 1) < v - 1"
  using assms by linarith+

lemma step_down_arith:
  fixes tp fc n v :: int
  assumes "0 \<le> tp" "tp \<le> fc" "fc < n" "fc - tp < v - 1" "fc + 1 < n"
  shows "0 \<le> (if v - 1 \<le> fc + 1 - tp then tp + 1 else tp)"
    "(if v - 1 \<le> fc + 1 - tp then tp + 1 else tp) \<le> fc + 1"
    "fc + 1 - (if v - 1 \<le> fc + 1 - tp then tp + 1 else tp) < v - 1"
  using assms by (simp_all split: if_splits)

lemma page_up_arith:
  fixes tp fc n v :: int
  assumes "0 \<le> tp" "tp \<le> fc" "fc < n" "fc - tp < v - 1"
  shows "0 \<le> max 0 (tp - (v - 1))" "max 0 (tp - (v - 1)) < n"
    "max 0 (tp - (v - 1)) - max 0 (tp - (v - 1)) < v - 1" "tp < n" "tp - tp < v - 1"
  using assms by linarith+

lemma page_down_arith:
  fixes tp fc n v :: int
  assumes "0 \<le> tp" "tp \<le> fc" "fc < n" "fc - tp < v - 1"
  shows "fc < min (tp + v - 2) (n - 1) \<Longrightarrow> tp \<le> min (tp + v - 2) (n - 1)"
    "min (tp + v - 2) (n - 1) < n"
    "min (tp + v - 2) (n - 1) - tp < v - 1"
    "0 \<le> max 0 (min (min (tp + v - 2) (n - 1) + (v - 2)) (n - 1) - (v - 2))"
    "max 0 (min (min (tp + v - 2) (n - 1) + (v - 2)) (n - 1) - (v - 2))
       \<le> min (min (tp + v - 2) (n - 1) + (v - 2)) (n - 1)"
    "min (min (tp + v - 2) (n - 1) + (v - 2)) (n - 1) < n"
    "min (min (tp + v - 2) (n - 1) + (v - 2)) (n - 1)
       - max 0 (min (min (tp + v - 2) (n - 1) + (v - 2)) (n - 1) - (v - 2)) < v - 1"
  using assms by linarith+

lemma viewport_invD:
  assumes "viewport_inv s"
  shows "0 \<le> TopIndex s" "TopIndex s \<le> FocusIndex s" "FocusIndex s < NumIndexes s"
    "FocusIndex s - TopIndex s < num_rows (Area s) - 1"
  using assms by (simp_all add: viewport_inv_def)

lemma move_up_keeps:
  assumes wf: "dbox_wf s" and inv: "viewport_inv s"
  shows "keeps_viewport s (move_up s)"
proof (cases "0 < FocusIndex s")
  case True
  obtain s' where m: "move_up s = Inr (FocusIndex s', s')"
    and t: "tracks s (min (TopIndex s) (FocusIndex s - 1)) (FocusIndex s - 1) s'"
    using move_up_effect [OF wf inv True] by blast
  show ?thesis
    unfolding m
    by (rule tracks_keeps [OF t step_up_arith [OF viewport_invD [OF inv] True]])
next
  case False
  have "NumIndexes s \<noteq> 0"
    using inv by (auto simp: viewport_inv_def)
  then show ?thesis
    using move_up_at_start [OF _ False] inv by (simp add: same_keeps)
qed

lemma move_down_keeps:
  assumes wf: "dbox_wf s" and inv: "viewport_inv s"
  shows "keeps_viewport s (move_down s)"
proof (cases "FocusIndex s + 1 < NumIndexes s")
  case True
  obtain s' where m: "move_down s = Inr (FocusIndex s', s')"
    and t: "tracks s (if num_rows (Area s) - 1 \<le> FocusIndex s + 1 - TopIndex s
                        then TopIndex s + 1 else TopIndex s) (FocusIndex s + 1) s'"
    using move_down_effect [OF wf inv True] by blast
  show ?thesis
    unfolding m
    by (rule tracks_keeps [OF t step_down_arith(1,2) [OF viewport_invD [OF inv] True] True
          step_down_arith(3) [OF viewport_invD [OF inv] True]])
next
  case False
  then show ?thesis
    using move_down_at_end [OF False] inv by (simp add: same_keeps)
qed

lemma page_up_keeps:
  assumes wf: "dbox_wf s" and inv: "viewport_inv s"
  shows "keeps_viewport s (page_up s)"
proof -
  have n: "NumIndexes s \<noteq> 0"
    using inv by (auto simp: viewport_inv_def)
  consider (within) "TopIndex s < FocusIndex s"
    | (scroll) "\<not> TopIndex s < FocusIndex s" "0 < TopIndex s"
    | (start) "\<not> TopIndex s < FocusIndex s" "\<not> 0 < TopIndex s"
    by blast
  then show ?thesis
  proof cases
    case within
    obtain s' where m: "page_up s = Inr (FocusIndex s', s')"
      and t: "tracks s (TopIndex s) (TopIndex s) s'"
      using page_up_within [OF wf inv within] by blast
    note d = viewport_invD [OF inv]
    show ?thesis
      unfolding m
      by (rule tracks_keeps [OF t d(1) order_refl page_up_arith(4,5) [OF d]])
  next
    case scroll
    obtain s' where m: "page_up s = Inr (FocusIndex s', s')"
      and t: "tracks s (max 0 (TopIndex s - (num_rows (Area s) - 1)))
               (max 0 (TopIndex s - (num_rows (Area s) - 1))) s'"
      using page_up_scroll [OF wf inv scroll] by blast
    note d = viewport_invD [OF inv]
    show ?thesis
      unfolding m
      by (rule tracks_keeps [OF t page_up_arith(1) [OF d] order_refl page_up_arith(2,3) [OF d]])
  next
    case start
    show ?thesis
      using page_up_at_start [OF n start] inv by (simp add: same_keeps)
  qed
qed

lemma page_down_keeps:
  assumes wf: "dbox_wf s" and inv: "viewport_inv s"
  shows "keeps_viewport s (page_down s)"
proof -
  let ?B = "min (TopIndex s + num_rows (Area s) - 2) (NumIndexes s - 1)"
  have n: "NumIndexes s \<noteq> 0"
    using inv by (auto simp: viewport_inv_def)
  consider (within) "FocusIndex s < ?B"
    | (scroll) "\<not> FocusIndex s < ?B" "?B < NumIndexes s - 1"
    | (bottom) "\<not> FocusIndex s < ?B" "\<not> ?B < NumIndexes s - 1"
    by blast
  then show ?thesis
  proof cases
    case within
    obtain s' where m: "page_down s = Inr (FocusIndex s', s')"
      and t: "tracks s (TopIndex s) ?B s'"
      using page_down_within [OF wf inv within] by blast
    note d = viewport_invD [OF inv]
    have "TopIndex s \<le> ?B"
      using d within by linarith
    then show ?thesis
      unfolding m
      by (rule tracks_keeps [OF t d(1) _ page_down_arith(2,3) [OF d]])
  next
    case scroll
    let ?B2 = "min (?B + (num_rows (Area s) - 2)) (NumIndexes s - 1)"
    obtain s' where m: "page_down s = Inr (FocusIndex s', s')"
      and t: "tracks s (max 0 (?B2 - (num_rows (Area s) - 2))) ?B2 s'"
      using page_down_scroll [OF wf inv scroll] by blast
    note d = viewport_invD [OF inv]
    show ?thesis
      unfolding m
      by (rule tracks_keeps [OF t page_down_arith(4,5,6,7) [OF d]])
  next
    case bottom
    show ?thesis
      using page_down_at_end [OF n bottom] inv by (simp add: same_keeps)
  qed
qed

lemma dbox30_wf: "dbox_wf dbox30"
  using dbox_init_layout
  by (simp add: dbox_wf_def dbox_buf_def dbox30_def blank_lines_def)

lemma dbox30_view:
  "NumIndexes dbox30 = 30" "num_rows (Area dbox30) = 11" "TopIndex dbox30 = 0"
  "FocusIndex dbox30 = 5"
  using dbox_init_layout(1) by (simp_all add: dbox30_def dbox_fresh_area)

lemma dbox30_inv: "viewport_inv dbox30"
  by (simp add: viewport_inv_def dbox30_view)

lemma and_then_eq_Inr: "and_then m f = Inr y \<longleftrightarrow> (\<exists>x. m = Inr x \<and> f x = Inr y)"
  by (cases m) (simp_all add: and_then_def)

lemma view_updates [simp]:
  "view (s\<lparr>TempBuffer := t\<rparr>) = view s"
  "view (s\<lparr>bf := bb\<rparr>) = view s"
  "view (position_and_write s c) = view s"
  "view (Write sv s) = view s"
  by (simp_all add: view_def position_and_write_def Write_def Let_def)

lemma write_marker_view: "write_marker s i m = Inr s' \<Longrightarrow> view s' = view s"
  by (auto simp: write_marker_def and_then_eq_Inr)

lemma unmark_focus_view: "unmark_focus s = Inr s' \<Longrightarrow> view s' = view s"
  by (auto simp: unmark_focus_def and_then_eq_Inr split: if_splits dest: write_marker_view)

lemma mark_focus_view: "mark_focus s = Inr s' \<Longrightarrow> view s' = view s"
  by (auto simp: mark_focus_def and_then_eq_Inr split: if_splits dest: write_marker_view)

lemma write_lines_view: "write_lines s first count = Inr s' \<Longrightarrow> view s' = view s"
  by (auto simp: write_lines_def and_then_eq_Inr)

lemma hScroll_if_sized_view:
  assumes "hScroll_if_sized s i j = Inr s'"
  shows "view s' = view s"
proof -
  obtain sized where z: "(if sized then
              and_then (column s j) (\<lambda>cj.
                and_then (HorizontalScrollBar_draw (hScroll s) (TempBuffer s)
                            (FirstIndex cj - LeftColumnSize s) (name_column_size cj))
                  (\<lambda>t. Inr (s\<lparr>TempBuffer := t\<rparr>)))
            else Inr s) = Inr s'"
    using assms unfolding hScroll_if_sized_def and_then_eq_Inr by blast
  show ?thesis
  proof (cases sized)
    case True
    then obtain t where "s' = s\<lparr>TempBuffer := t\<rparr>"
      using z by (auto simp: and_then_eq_Inr)
    then show ?thesis
      by simp
  next
    case False
    then show ?thesis
      using z by simp
  qed
qed

lemma draw_scrollbars_view: "draw_scrollbars s = Inr s' \<Longrightarrow> view s' = view s"
  unfolding draw_scrollbars_def and_then_eq_Inr
  by (elim exE conjE) auto

lemmas step_fields =
  hScroll_if_sized_view [unfolded view_def prod.inject]
  unmark_focus_view [unfolded view_def prod.inject]
  mark_focus_view [unfolded view_def prod.inject]
  write_lines_view [unfolded view_def prod.inject]
  draw_scrollbars_view [unfolded view_def prod.inject]

lemma page_down_after:
  assumes "viewport_inv s"
  shows "viewport_after s (page_down s)"
proof (cases "page_down s")
  case (Inl e)
  then show ?thesis
    by (simp add: viewport_after_def)
next
  case (Inr p)
  obtain n s' where p: "p = (n, s')"
    by (cases p)
  have "NumIndexes s' = NumIndexes s \<and> Area s' = Area s \<and> viewport_inv s'"
    using Inr assms unfolding p page_down_def Let_def
    by (auto simp: and_then_eq_Inr viewport_inv_def position_and_write_def Write_def
        split: if_splits dest!: step_fields)
  then show ?thesis
    by (simp add: viewport_after_def Inr p)
qed

lemma page_up_after:
  assumes "viewport_inv s"
  shows "viewport_after s (page_up s)"
proof (cases "page_up s")
  case (Inl e)
  then show ?thesis
    by (simp add: viewport_after_def)
next
  case (Inr p)
  obtain n s' where p: "p = (n, s')"
    by (cases p)
  have "NumIndexes s' = NumIndexes s \<and> Area s' = Area s \<and> viewport_inv s'"
    using Inr assms unfolding p page_up_def Let_def
    by (auto simp: and_then_eq_Inr viewport_inv_def position_and_write_def Write_def
        split: if_splits dest!: step_fields)
  then show ?thesis
    by (simp add: viewport_after_def Inr p)
qed

lemma move_up_after:
  assumes "viewport_inv s"
  shows "viewport_after s (move_up s)"
proof (cases "move_up s")
  case (Inl e)
  then show ?thesis
    by (simp add: viewport_after_def)
next
  case (Inr p)
  obtain n s' where p: "p = (n, s')"
    by (cases p)
  have "NumIndexes s' = NumIndexes s \<and> Area s' = Area s \<and> viewport_inv s'"
    using Inr assms unfolding p move_up_def Let_def
    by (auto simp: and_then_eq_Inr viewport_inv_def position_and_write_def Write_def
        split: if_splits dest!: step_fields)
  then show ?thesis
    by (simp add: viewport_after_def Inr p)
qed

lemma move_down_after:
  assumes "viewport_inv s"
  shows "viewport_after s (move_down s)"
proof (cases "move_down s")
  case (Inl e)
  then show ?thesis
    by (simp add: viewport_after_def)
next
  case (Inr p)
  obtain n s' where p: "p = (n, s')"
    by (cases p)
  have "NumIndexes s' = NumIndexes s \<and> Area s' = Area s \<and> viewport_inv s'"
    using Inr assms unfolding p move_down_def Let_def
    by (auto simp: and_then_eq_Inr viewport_inv_def position_and_write_def Write_def
        split: if_splits dest!: step_fields)
  then show ?thesis
    by (simp add: viewport_after_def Inr p)
qed

text \<open>
  The viewport invariant and the navigation operations.  In every state in which
  \<open>0 \<le> TopIndex \<le> FocusIndex < NumIndexes\<close> and
  \<open>FocusIndex - TopIndex < Area.num_rows() - 1\<close> hold: whenever a call of \<open>move_up\<close>,
  \<open>move_down\<close>, \<open>page_up\<close> or \<open>page_down\<close> returns, \<open>NumIndexes\<close> and \<open>Area\<close> are unchanged and
  the same inequalities hold after it; and when the line buffer is consistent and the
  horizontal scrollbar has a length that is not negative, each of the four calls does return.
\<close>

lemma navigation_keeps_viewport:
  assumes "0 < NumIndexes s" and "1 \<le> num_rows (Area s) - 1" and "viewport_inv s"
  shows "viewport_after s (move_up s) \<and> viewport_after s (move_down s)
       \<and> viewport_after s (page_up s) \<and> viewport_after s (page_down s)
       \<and> (dbox_wf s \<longrightarrow>
            keeps_viewport s (move_up s) \<and> keeps_viewport s (move_down s)
            \<and> keeps_viewport s (page_up s) \<and> keeps_viewport s (page_down s))"
  using move_up_after [OF assms(3)] move_down_after [OF assms(3)]
    page_up_after [OF assms(3)] page_down_after [OF assms(3)]
    move_up_keeps [OF _ assms(3)] move_down_keeps [OF _ assms(3)]
    page_up_keeps [OF _ assms(3)] page_down_keeps [OF _ assms(3)]
  by simp

lemma navigation_keeps_viewport_dbox30:
  "0 < NumIndexes dbox30 \<and> 1 \<le> num_rows (Area dbox30) - 1 \<and> viewport_inv dbox30
   \<and> dbox_wf dbox30
   \<and> viewport_after dbox30 (move_up dbox30) \<and> viewport_after dbox30 (move_down dbox30)
   \<and> viewport_after dbox30 (page_up dbox30) \<and> viewport_after dbox30 (page_down dbox30)
   \<and> keeps_viewport dbox30 (move_up dbox30) \<and> keeps_viewport dbox30 (move_down dbox30)
   \<and> keeps_viewport dbox30 (page_up dbox30) \<and> keeps_viewport dbox30 (page_down dbox30)"
  using navigation_keeps_viewport [of dbox30] dbox30_wf dbox30_inv
  by (simp add: dbox30_view)

text \<open>
  Two calls of \<open>page_down\<close> in a box that is wide enough, has a consistent line buffer, holds
  30 items and shows 10 of them, from \<open>TopIndex = 0\<close> and \<open>FocusIndex = 5\<close>: the first returns
  9, moves \<open>FocusIndex\<close> to 9 and leaves \<open>TopIndex\<close> at 0; the second returns 18 and moves
  \<open>TopIndex\<close> to 9 and \<open>FocusIndex\<close> to 18.
\<close>

lemma page_down_twice:
  assumes wf: "dbox_wf s" and n: "NumIndexes s = 30" and v: "num_rows (Area s) - 1 = 10"
    and start: "TopIndex s = 0" "FocusIndex s = 5"
  shows "\<exists>s1 s2. page_down s = Inr (9, s1) \<and> FocusIndex s1 = 9 \<and> TopIndex s1 = 0
           \<and> page_down s1 = Inr (18, s2) \<and> TopIndex s2 = 9 \<and> FocusIndex s2 = 18"
proof -
  have inv: "viewport_inv s"
    using n v start by (simp add: viewport_inv_def)
  have b: "min (TopIndex s + num_rows (Area s) - 2) (NumIndexes s - 1) = 9"
    using n v start by simp
  have "FocusIndex s < min (TopIndex s + num_rows (Area s) - 2) (NumIndexes s - 1)"
    unfolding b using start by simp
  from page_down_within [OF wf inv this]
  obtain s1 where 1: "page_down s = Inr (FocusIndex s1, s1)"
    and r1: "tracks s (TopIndex s) 9 s1"
    unfolding b by blast
  have t1: "tracks s 0 9 s1"
    using r1 start by simp
  note a1 = tracks_fields [OF t1]
  have wf1: "dbox_wf s1"
    using tracks_wf [OF t1 wf] .
  have inv1: "viewport_inv s1"
    using a1 n v by (simp add: viewport_inv_def)
  have b1: "min (TopIndex s1 + num_rows (Area s1) - 2) (NumIndexes s1 - 1) = 9"
    using a1 n v by simp
  have c1: "\<not> FocusIndex s1 < min (TopIndex s1 + num_rows (Area s1) - 2) (NumIndexes s1 - 1)"
    "min (TopIndex s1 + num_rows (Area s1) - 2) (NumIndexes s1 - 1) < NumIndexes s1 - 1"
    unfolding b1 using a1 n by simp_all
  have e: "num_rows (Area s1) - 2 = 9" "NumIndexes s1 - 1 = 29"
    using a1 n v by simp_all
  from page_down_scroll [OF wf1 inv1 c1, unfolded b1, unfolded e]
  obtain s2 where 2: "page_down s1 = Inr (FocusIndex s2, s2)" and t2: "tracks s1 9 18 s2"
    by auto
  note a2 = tracks_fields [OF t2]
  show ?thesis
    using 1 2 a1(1,2) a2(1,2) by auto
qed

lemma page_down_twice_dbox30:
  "dbox_wf dbox30 \<and> NumIndexes dbox30 = 30 \<and> num_rows (Area dbox30) - 1 = 10
   \<and> TopIndex dbox30 = 0 \<and> FocusIndex dbox30 = 5
   \<and> (\<exists>s1 s2. page_down dbox30 = Inr (9, s1) \<and> FocusIndex s1 = 9 \<and> TopIndex s1 = 0
           \<and> page_down s1 = Inr (18, s2) \<and> TopIndex s2 = 9 \<and> FocusIndex s2 = 18)"
  using page_down_twice [of dbox30] dbox30_wf
  by (simp add: dbox30_view)

section \<open>Directory list: the consistent line buffer is what the class builds\<close>

text \<open>
  \<open>initialize\<close> on a box without items, any number of \<open>add_item\<close>, and \<open>create\<close> lead to a
  state with a consistent line buffer, provided the right column is at least one character
  wide (so that the horizontal scrollbar has a non-negative length).
\<close>

lemma initialize_laid_out:
  assumes "initialize s0 = Inr s" "NameColumns s0 = []" "NumIndexes s0 = 0"
  shows "laid_out s" "filled s 0" "NumIndexes s = 0"
  using initialize_layout [OF assms(1)] initialize_frame [OF assms(1)] assms(2,3)
  by (simp_all add: laid_out_def filled_def)

lemma add_item_laid_out:
  assumes "laid_out s" "filled s (NumIndexes s)" "add_item s sv = Inr s'"
  shows "laid_out s'" "filled s' (NumIndexes s')" "NumIndexes s' = NumIndexes s + 1"
    "hScroll s' = hScroll s" "Area s' = Area s"
  using assms
  by (auto simp: add_item_def Let_def laid_out_def filled_def RRQUOTE_def
      distrib_left split: if_splits)

lemma create_line_laid_out:
  assumes "laid_out s" "filled s n"
  shows "laid_out (create_line s)" "filled (create_line s) (n + 1)"
    "NumIndexes (create_line s) = NumIndexes s" "hScroll (create_line s) = hScroll s"
    "Area (create_line s) = Area s" "TopIndex (create_line s) = TopIndex s"
    "FocusIndex (create_line s) = FocusIndex s"
  using assms
  by (auto simp: create_line_def laid_out_def filled_def distrib_left)

lemma create_lines_laid_out:
  assumes "laid_out s" "filled s n"
  shows "laid_out ((create_line ^^ k) s) \<and> filled ((create_line ^^ k) s) (n + int k)
    \<and> NumIndexes ((create_line ^^ k) s) = NumIndexes s
    \<and> hScroll ((create_line ^^ k) s) = hScroll s
    \<and> Area ((create_line ^^ k) s) = Area s
    \<and> TopIndex ((create_line ^^ k) s) = TopIndex s
    \<and> FocusIndex ((create_line ^^ k) s) = FocusIndex s"
proof (induction k)
  case 0
  show ?case
    using assms by simp
next
  case (Suc k)
  have e: "n + int k + 1 = n + int (Suc k)"
    by simp
  show ?case
    using create_line_laid_out [of "(create_line ^^ k) s" "n + int k"] Suc
    by (simp add: e)
qed

lemma create_establishes:
  assumes lo: "laid_out s" and fl: "filled s (NumIndexes s)"
    and bar: "0 \<le> BarLength (hScroll s)" and cr: "create s = Inr s'"
  shows "dbox_wf s'" "NumIndexes s' = NumIndexes s" "Area s' = Area s"
    "TopIndex s' = 0" "FocusIndex s' = 0"
proof -
  let ?s1 = "s\<lparr>TopIndex := 0, FocusIndex := 0\<rparr>"
  let ?k = "nat (num_rows (Area ?s1) - 1 - NumIndexes ?s1)"
  let ?s2 = "(create_line ^^ ?k) ?s1"
  have lo1: "laid_out ?s1" and fl1: "filled ?s1 (NumIndexes s)"
    using lo fl by (simp_all add: laid_out_def filled_def)
  note c = create_lines_laid_out [OF lo1 fl1, of ?k]
  have ne: "\<not> LeftColumnSize s + RightColumnSize s + 2 < 0"
    using lo by (simp add: laid_out_def)
  have wf2: "dbox_wf ?s2"
    using c bar
    by (simp add: dbox_wf_def dbox_buf_def laid_out_def filled_def mult_left_mono)
  have all: "dbox_wf s' \<and> NumIndexes s' = NumIndexes s \<and> Area s' = Area s
        \<and> TopIndex s' = 0 \<and> FocusIndex s' = 0"
  proof (cases "0 < NumIndexes ?s2")
    case True
    have "int 0 < NumIndexes ?s2"
      using True by simp
    from row_fits [OF dbox_wf_buf [OF wf2] _ this]
    have fit: "nat 0 + length (CommFocus ?s2) \<le> length (bf ?s2)"
      using wf2 by (simp add: dbox_wf_def dbox_buf_def)
    obtain b where r: "wstring_replace (bf ?s2) 0 (length (CommFocus ?s2)) (CommFocus ?s2) = Inr b"
      and lb: "length b = length (bf ?s2)"
      using wstring_replace_same_width [of 0 "CommFocus ?s2" "bf ?s2" "length (CommFocus ?s2)"]
        length_patch [of 0 "CommFocus ?s2" "bf ?s2"] fit
      by auto
    have "create s = Inr (?s2\<lparr>bf := b\<rparr>)"
      unfolding create_def Let_def using True r ne by (auto simp: c)
    then have "s' = ?s2\<lparr>bf := b\<rparr>"
      using cr by simp
    then show ?thesis
      using wf2 lb c by (simp add: dbox_wf_def dbox_buf_def)
  next
    case False
    have "create s = Inr ?s2"
      unfolding create_def Let_def using False ne by (auto simp: c)
    then have "s' = ?s2"
      using cr by simp
    then show ?thesis
      using wf2 c by simp
  qed
  then show "dbox_wf s'" "NumIndexes s' = NumIndexes s" "Area s' = Area s"
    "TopIndex s' = 0" "FocusIndex s' = 0"
    by simp_all
qed

section \<open>Directory list: a box too narrow for its horizontal scrollbar\<close>

text \<open>
  \<open>initialize\<close> gives the horizontal scrollbar the length \<open>RightColumnSize - 1\<close>, which is
  \<open>- 1\<close> for an area of \<open>LeftColumnSize + 3\<close> columns.  The navigation operations redraw that
  scrollbar when the name that loses the focus or the name that gets it is longer than the
  columns, and pass the excess length of the name that gets it as \<open>NumItems\<close>; when that is 0
  and the length of the bar is negative, \<open>draw\<close> does not take its branch for
  \<open>NumItems \<le> BarLength\<close> and divides by \<open>NumItems\<close>.  With any other \<open>NumItems\<close> the
  drawing returns, so that the focus can be moved onto a long name.
\<close>

lemma move_down_times_drawn:
  assumes "dbox_buf s" "viewport_inv s"
    and "FocusIndex s + int k < NumIndexes s"
    and "FocusIndex s + int k - TopIndex s < num_rows (Area s) - 1"
    and "\<forall>i. FocusIndex s \<le> i \<and> i < FocusIndex s + int k \<longrightarrow>
           name_column_size (NameColumns s ! nat i) = 0
           \<or> name_column_size (NameColumns s ! nat (i + 1)) \<noteq> 0"
  shows "\<exists>s'. move_down_times k s = Inr s' \<and> tracks s (TopIndex s) (FocusIndex s + int k) s'"
  using assms
proof (induction k arbitrary: s)
  case 0
  then show ?case
    by simp
next
  case (Suc k)
  have br: "FocusIndex s + 1 < NumIndexes s"
    using Suc.prems(3) by simp
  have dr: "0 \<le> BarLength (hScroll s)
      \<or> name_column_size (NameColumns s ! nat (FocusIndex s + 1 - 1)) = 0
      \<or> name_column_size (NameColumns s ! nat (FocusIndex s + 1)) \<noteq> 0"
    using Suc.prems(5) by simp
  have ns: "\<not> num_rows (Area s) - 1 \<le> FocusIndex s + 1 - TopIndex s"
    using Suc.prems(4) by simp
  obtain s1 where m: "move_down s = Inr (FocusIndex s1, s1)"
    and t1: "tracks s (TopIndex s) (FocusIndex s + 1) s1"
    using move_down_drawn [OF Suc.prems(1,2) br dr] ns by auto
  note a1 = tracks_fields [OF t1]
  have l1: "NameColumns s1 = NameColumns s"
    using a1(5) by (simp add: same_layout_def)
  have inv1: "viewport_inv s1"
    using Suc.prems(2,3,4) a1 by (simp add: viewport_inv_def)
  have "\<exists>s'. move_down_times k s1 = Inr s'
      \<and> tracks s1 (TopIndex s1) (FocusIndex s1 + int k) s'"
    using Suc.prems(3,4,5) a1 l1
    by (intro Suc.IH [OF tracks_buf [OF t1 Suc.prems(1)] inv1]) simp_all
  then obtain s' where r: "move_down_times k s1 = Inr s'"
    and t2: "tracks s1 (TopIndex s1) (FocusIndex s1 + int k) s'"
    by blast
  have "tracks s (TopIndex s) (FocusIndex s + int (Suc k)) s'"
    using t2 a1 by (auto simp: tracks_def intro: same_layout_trans)
  moreover have "move_down_times (Suc k) s = Inr s'"
    by (simp add: m r)
  ultimately show ?case
    by blast
qed

lemma column_TempBuffer [simp]: "column (s\<lparr>TempBuffer := t\<rparr>) i = column s i"
  by (simp add: column_def)

lemma page_down_negative_bar:
  assumes n: "NumIndexes s \<noteq> 0"
    and br: "FocusIndex s < min (TopIndex s + num_rows (Area s) - 2) (NumIndexes s - 1)"
    and ci: "column s (FocusIndex s) = Inr ci" "name_column_size ci \<noteq> 0"
    and cj: "column s (min (TopIndex s + num_rows (Area s) - 2) (NumIndexes s - 1)) = Inr cj"
      "name_column_size cj = 0"
    and bar: "BarLength (hScroll s) < 0"
  shows "page_down s = Inl undefined_behaviour"
proof -
  let ?B = "min (TopIndex s + num_rows (Area s) - 2) (NumIndexes s - 1)"
  have h: "hScroll_if_sized (s\<lparr>TempBuffer := []\<rparr>) (FocusIndex s) ?B = Inl undefined_behaviour"
    using ci cj bar by (simp add: hScroll_if_sized_def HorizontalScrollBar_draw_no_items)
  have c: "(NumIndexes s = 0) = False" "(FocusIndex s < ?B) = True"
    using n br by simp_all
  show ?thesis
    unfolding page_down_def Let_def
    by (simp only: c if_False if_True h and_then_Inl)
qed

lemma created_11x17_facts:
  "(case created_11x17 of Inl e \<Rightarrow> False
    | Inr s \<Rightarrow> dbox_buf s \<and> NumIndexes s = 30 \<and> num_rows (Area s) = 11
        \<and> TopIndex s = 0 \<and> FocusIndex s = 0 \<and> BarLength (hScroll s) = - 1
        \<and> map name_column_size (take 10 (NameColumns s)) = [0, 0, 0, 0, 0, 1, 0, 0, 0, 0])"
  by code_simp

text \<open>
  Claim C3 at an input where the code departs from it.  The list box over 3 rows and 17
  columns that \<open>initialize\<close>, \<open>add_item\<close> of a name of 15 characters, \<open>add_item\<close> of a name of
  14 characters and \<open>create\<close> build has \<open>NumIndexes = 2 > 0\<close>,
  \<open>Area.num_rows() - 1 = 2 \<ge> 1\<close> and \<open>TopIndex = FocusIndex = 0\<close>, so it satisfies the viewport
  invariant; its horizontal scrollbar has the length \<open>- 1\<close>; and \<open>move_down\<close> does not return
  on it: the redraw of the horizontal scrollbar divides by zero.
\<close>

theorem move_down_narrow_box:
  "(case built_3x17 of Inl e \<Rightarrow> False
    | Inr s \<Rightarrow> 0 < NumIndexes s \<and> 1 \<le> num_rows (Area s) - 1 \<and> viewport_inv s
        \<and> BarLength (hScroll s) = - 1
        \<and> move_down s = Inl undefined_behaviour)"
  by code_simp

text \<open>
  Claim C8 at an input where the code departs from it.  The list box over 11 rows and 17
  columns that \<open>initialize\<close>, 30 calls of \<open>add_item\<close> (the sixth name has 15 characters, the
  others 14), \<open>create\<close> and five calls of \<open>move_down\<close> build holds 30 items, shows 10 of them
  and has \<open>TopIndex = 0\<close> and \<open>FocusIndex = 5\<close>; its horizontal scrollbar has the length
  \<open>- 1\<close>; and the first \<open>page_down\<close> does not return on it: the redraw of the horizontal
  scrollbar divides by zero.
\<close>

theorem page_down_narrow_box:
  "(case built_11x17 of Inl e \<Rightarrow> False
    | Inr s \<Rightarrow> NumIndexes s = 30 \<and> num_rows (Area s) - 1 = 10
        \<and> TopIndex s = 0 \<and> FocusIndex s = 5 \<and> BarLength (hScroll s) = - 1
        \<and> page_down s = Inl undefined_behaviour)"
proof -
  obtain s0 where c: "created_11x17 = Inr s0" and bw: "dbox_buf s0"
    and f: "NumIndexes s0 = 30" "num_rows (Area s0) = 11" "TopIndex s0 = 0" "FocusIndex s0 = 0"
      "BarLength (hScroll s0) = - 1"
    and z: "map name_column_size (take 10 (NameColumns s0)) = [0, 0, 0, 0, 0, 1, 0, 0, 0, 0]"
    using created_11x17_facts by (auto split: sum.splits)
  have len: "10 \<le> length (NameColumns s0)"
    using bw f(1) by (simp add: dbox_buf_def)
  have sz: "name_column_size (NameColumns s0 ! n) = [0, 0, 0, 0, 0, 1, 0, 0, 0, 0] ! n"
    if "n < 10" for n
  proof -
    have "map name_column_size (take 10 (NameColumns s0)) ! n
        = name_column_size (NameColumns s0 ! n)"
      using that len by simp
    then show ?thesis
      unfolding z by simp
  qed
  have inv0: "viewport_inv s0"
    using f by (simp add: viewport_inv_def)
  have safe: "\<forall>i. FocusIndex s0 \<le> i \<and> i < FocusIndex s0 + int 5 \<longrightarrow>
           name_column_size (NameColumns s0 ! nat i) = 0
           \<or> name_column_size (NameColumns s0 ! nat (i + 1)) \<noteq> 0"
  proof (intro allI impI)
    fix i :: int
    assume "FocusIndex s0 \<le> i \<and> i < FocusIndex s0 + int 5"
    then have "i = 0 \<or> i = 1 \<or> i = 2 \<or> i = 3 \<or> i = 4"
      unfolding f by arith
    then show "name_column_size (NameColumns s0 ! nat i) = 0
           \<or> name_column_size (NameColumns s0 ! nat (i + 1)) \<noteq> 0"
      using sz [of 0] sz [of 1] sz [of 2] sz [of 3] sz [of 4] sz [of 5]
      by (auto simp: nat_add_distrib)
  qed
  obtain s where m: "move_down_times 5 s0 = Inr s" and t: "tracks s0 0 5 s"
    using move_down_times_drawn [OF bw inv0, of 5] safe f by auto
  note a = tracks_fields [OF t]
  have l: "NameColumns s = NameColumns s0" "hScroll s = hScroll s0"
    using a(5) by (simp_all add: same_layout_def)
  have b: "min (TopIndex s + num_rows (Area s) - 2) (NumIndexes s - 1) = 9"
    using a f by simp
  have "page_down s = Inl undefined_behaviour"
  proof (rule page_down_negative_bar)
    show "NumIndexes s \<noteq> 0"
      using a f by simp
    show "FocusIndex s < min (TopIndex s + num_rows (Area s) - 2) (NumIndexes s - 1)"
      unfolding b using a by simp
    show "column s (FocusIndex s) = Inr (NameColumns s0 ! 5)"
      using a len by (simp add: column_def l)
    show "name_column_size (NameColumns s0 ! 5) \<noteq> 0"
      using sz [of 5] by simp
    show "column s (min (TopIndex s + num_rows (Area s) - 2) (NumIndexes s - 1))
        = Inr (NameColumns s0 ! 9)"
      unfolding b using len by (simp add: column_def l)
    show "name_column_size (NameColumns s0 ! 9) = 0"
      using sz [of 9] by simp
    show "BarLength (hScroll s) < 0"
      using f by (simp add: l)
  qed
  then have q: "NumIndexes s = 30 \<and> num_rows (Area s) - 1 = 10
        \<and> TopIndex s = 0 \<and> FocusIndex s = 5 \<and> BarLength (hScroll s) = - 1
        \<and> page_down s = Inl undefined_behaviour"
    using a f by (simp add: l)
  have e: "built_11x17 = Inr s"
    by (simp add: built_11x17_def c m)
  show ?thesis
    unfolding e using q by simp
qed

end
